theory Spec2Isabelle
  imports Main
begin

section \<open>Text normalisation (\<open>AIHawkEasyApplier._sanitize_text\<close>)\<close>

text \<open>
  Python strings are sequences of code points. The model takes the code points below 256
  (Latin-1), one \<^typ>\<open>char\<close> each; \<open>ord\<close> reads the code point. On that range
  \<open>str.lower\<close> moves \<open>A\<close>..\<open>Z\<close> and the accented capitals 0xC0..0xDE (0xD7, the
  multiplication sign, apart) up by 32 and leaves every other character alone, and
  \<open>str.strip()\<close> removes the characters for which \<open>str.isspace\<close> holds: 0x09..0x0D,
  0x1C..0x20, 0x85 and 0xA0.
\<close>


definition ord :: "char \<Rightarrow> nat" where
  "ord c = of_char c"

definition lower_char :: "char \<Rightarrow> char" where
  "lower_char c =
     (if (65 \<le> ord c \<and> ord c \<le> 90) \<or> (192 \<le> ord c \<and> ord c \<le> 222 \<and> ord c \<noteq> 215)
      then char_of (ord c + 32) else c)"

definition lower :: "string \<Rightarrow> string" where
  "lower s = map lower_char s"

definition isspace :: "char \<Rightarrow> bool" where
  "isspace c = ((9 \<le> ord c \<and> ord c \<le> 13) \<or> (28 \<le> ord c \<and> ord c \<le> 32)
                \<or> ord c = 133 \<or> ord c = 160)"

definition rstrip_with :: "(char \<Rightarrow> bool) \<Rightarrow> string \<Rightarrow> string" where
  "rstrip_with p s = rev (dropWhile p (rev s))"

definition strip :: "string \<Rightarrow> string" where
  "strip s = rstrip_with isspace (dropWhile isspace s)"

definition replace_char :: "char \<Rightarrow> string \<Rightarrow> string \<Rightarrow> string" where
  "replace_char old new s = concat (map (\<lambda>c. if c = old then new else [c]) s)"

definition is_control :: "char \<Rightarrow> bool" where
  "is_control c = (ord c \<le> 31 \<or> ord c = 127)"

definition re_sub_control :: "string \<Rightarrow> string" where
  "re_sub_control s = filter (\<lambda>c. \<not> is_control c) s"

definition sanitize_text :: "string \<Rightarrow> string" where
  "sanitize_text text =
     (let sanitized_text = replace_char (CHR 0x5C) [] (replace_char (CHR 0x22) [] (strip (lower text)));
          sanitized_text = rstrip_with (\<lambda>c. c = CHR '','')
             (replace_char (CHR 0x0D) [] (replace_char (CHR 0x0A) '' '' (re_sub_control sanitized_text)))
      in sanitized_text)"

text \<open>The characters a normalised text is made of.\<close>

definition clean_char :: "char \<Rightarrow> bool" where
  "clean_char c = (lower_char c = c \<and> c \<noteq> CHR 0x22 \<and> c \<noteq> CHR 0x5C \<and> \<not> is_control c)"

section \<open>Values, exceptions and the answer file\<close>

text \<open>
  The values \<open>json.load\<close> returns and \<open>json.dump\<close> writes (numbers are taken to be
  integers). A dictionary keeps the order in which its keys were inserted, so it is an
  association list.
\<close>

datatype json =
    JNull
  | JBool bool
  | JInt int
  | JStr string
  | JArr "json list"
  | JObj "(string \<times> json) list"

text \<open>
  The exceptions the program raises, catches and tells apart. \<open>Exception msg\<close> is
  \<open>raise Exception(msg)\<close>; \<open>ExceptionTb msg e\<close> is \<open>raise Exception(msg + tb_str)\<close>
  where \<open>tb_str\<close> is the formatted traceback of the exception \<open>e\<close> being handled;
  \<open>OtherError msg\<close> is any other exception a collaborator raises, with its \<open>str()\<close>.
\<close>

datatype exn =
    NoSuchElementException
  | TimeoutException
  | WebDriverException
  | HTTPStatusError nat "string option"
  | HTTPError
  | FileNotFoundError
  | JSONDecodeError
  | ValueError string
  | KeyError string
  | AttributeError
  | TypeError
  | IndexError
  | UnicodeDecodeError
  | RecursionError
  | OverflowError
  | JavascriptException
  | OtherError string
  | Exception string
  | ExceptionTb string exn

text \<open>
  The file \<open>answers.json\<close>: absent, or present with contents that \<open>json.load\<close> either
  decodes to a value or rejects by raising an exception. What it raises depends on the
  contents: \<open>JSONDecodeError\<close> for a text that is not JSON, \<open>UnicodeDecodeError\<close> for bytes
  that are no text in the file's encoding, \<open>RecursionError\<close> for brackets nested too deep,
  \<open>ValueError\<close> for a number of more than 4300 digits. The file, when present, is taken
  to be readable and writable.
\<close>

datatype contents = Rejects exn | Encodes json

type_synonym answers_file = "contents option"

definition open_r :: "answers_file \<Rightarrow> exn + contents" where
  "open_r f = (case f of None \<Rightarrow> Inl FileNotFoundError | Some t \<Rightarrow> Inr t)"

definition json_load :: "contents \<Rightarrow> exn + json" where
  "json_load t = (case t of Rejects e \<Rightarrow> Inl e | Encodes v \<Rightarrow> Inr v)"

definition isinstance_list :: "json \<Rightarrow> bool" where
  "isinstance_list v = (case v of JArr _ \<Rightarrow> True | _ \<Rightarrow> False)"

definition list_items :: "json \<Rightarrow> json list" where
  "list_items v = (case v of JArr xs \<Rightarrow> xs | _ \<Rightarrow> [])"

text \<open>
  The inner \<open>try\<close> of both the loader and the saver: decode, insist on a list, and turn a
  \<open>JSONDecodeError\<close> (only that) into the empty list.
\<close>

definition load_data :: "contents \<Rightarrow> exn + json list" where
  "load_data t =
     (case (case json_load t of
              Inl e \<Rightarrow> Inl e
            | Inr data \<Rightarrow>
                if \<not> isinstance_list data
                then Inl (ValueError ''JSON file format is incorrect. Expected a list of questions.'')
                else Inr (list_items data)) of
        Inl JSONDecodeError \<Rightarrow> Inr []
      | r \<Rightarrow> r)"

definition load_questions_from_json :: "answers_file \<Rightarrow> exn + json list" where
  "load_questions_from_json f =
     (case (case open_r f of Inl e \<Rightarrow> Inl e | Inr t \<Rightarrow> load_data t) of
        Inl FileNotFoundError \<Rightarrow> Inr []
      | Inl e \<Rightarrow> Inl (ExceptionTb ''Error loading questions data from JSON file: '' e)
      | Inr data \<Rightarrow> Inr data)"

text \<open>
  \<open>_save_questions_to_json\<close> first replaces the question of \<open>question_data\<close> by its
  normal form, in place and outside the \<open>try\<close> (a missing key is a \<open>KeyError\<close>, a question
  that is not a string has no \<open>lower\<close>), then reads the list, appends and writes it back.
  The result is the outcome, the dictionary as the caller sees it afterwards, and the
  file.
\<close>

fun dict_update :: "string \<Rightarrow> json \<Rightarrow> (string \<times> json) list \<Rightarrow> (string \<times> json) list" where
  "dict_update k v [] = [(k, v)]"
| "dict_update k v ((k', v') # d) =
     (if k' = k then (k, v) # d else (k', v') # dict_update k v d)"

definition save_questions_to_json ::
  "(string \<times> json) list \<Rightarrow> answers_file \<Rightarrow> (exn + unit) \<times> (string \<times> json) list \<times> answers_file" where
  "save_questions_to_json question_data f =
     (case map_of question_data ''question'' of
        None \<Rightarrow> (Inl (KeyError ''question''), question_data, f)
      | Some (JStr q) \<Rightarrow>
          (let question_data = dict_update ''question'' (JStr (sanitize_text q)) question_data in
           case (case (case open_r f of Inl e \<Rightarrow> Inl e | Inr t \<Rightarrow> load_data t) of
                   Inl FileNotFoundError \<Rightarrow> Inr []
                 | r \<Rightarrow> r) of
             Inl e \<Rightarrow>
               (Inl (ExceptionTb ''Error saving questions data to JSON file: '' e), question_data, f)
           | Inr data \<Rightarrow>
               (Inr (), question_data, Some (Encodes (JArr (data @ [JObj question_data])))))
      | Some _ \<Rightarrow> (Inl AttributeError, question_data, f))"

section \<open>The browser session and the other collaborators\<close>

text \<open>
  The program drives a Selenium session, an HTTP endpoint, a resume generator, the file
  system, the clock and the random generator. Their answers are not the program's to
  decide, so the model takes them as parameters: an environment is one function per call,
  from the state of the outside world to an answer (an exception or a value) and the
  world afterwards. Element handles are numbers.
\<close>

datatype locator = XPATH string | CLASS_NAME string | TAG_NAME string

type_synonym element = nat

datatype script_arg = ArgElement element | ArgInt int

record http_response =
  status_code :: nat
  response_text :: contents

record 'w env =
  drv_get :: "string \<Rightarrow> 'w \<Rightarrow> (exn + unit) \<times> 'w"
  drv_current_url :: "'w \<Rightarrow> (exn + string) \<times> 'w"
  drv_execute_script :: "string \<Rightarrow> script_arg list \<Rightarrow> 'w \<Rightarrow> (exn + json) \<times> 'w"
  drv_refresh :: "'w \<Rightarrow> (exn + unit) \<times> 'w"
  drv_page_source :: "'w \<Rightarrow> (exn + string) \<times> 'w"
  drv_find_element :: "locator \<Rightarrow> 'w \<Rightarrow> (exn + element) \<times> 'w"
  drv_find_elements :: "locator \<Rightarrow> 'w \<Rightarrow> (exn + element list) \<times> 'w"
  elem_find_element :: "element \<Rightarrow> locator \<Rightarrow> 'w \<Rightarrow> (exn + element) \<times> 'w"
  elem_find_elements :: "element \<Rightarrow> locator \<Rightarrow> 'w \<Rightarrow> (exn + element list) \<times> 'w"
  until_presence :: "locator \<Rightarrow> 'w \<Rightarrow> (exn + element) \<times> 'w"
  until_visibility :: "element \<Rightarrow> 'w \<Rightarrow> (exn + unit) \<times> 'w"
  until_clickable :: "element \<Rightarrow> 'w \<Rightarrow> (exn + unit) \<times> 'w"
  elem_click :: "element \<Rightarrow> 'w \<Rightarrow> (exn + unit) \<times> 'w"
  chain_click :: "element \<Rightarrow> 'w \<Rightarrow> (exn + unit) \<times> 'w"
  elem_text :: "element \<Rightarrow> 'w \<Rightarrow> (exn + string) \<times> 'w"
  elem_get_attribute :: "element \<Rightarrow> string \<Rightarrow> 'w \<Rightarrow> (exn + string) \<times> 'w"
  elem_send_keys :: "element \<Rightarrow> string \<Rightarrow> 'w \<Rightarrow> (exn + unit) \<times> 'w"
  requests_post :: "json \<Rightarrow> json \<Rightarrow> json \<Rightarrow> 'w \<Rightarrow> (exn + http_response) \<times> 'w"
  randbelow :: "nat \<Rightarrow> 'w \<Rightarrow> nat \<times> 'w"
  time_time :: "'w \<Rightarrow> int \<times> 'w"
  os_makedirs :: "string \<Rightarrow> 'w \<Rightarrow> (exn + unit) \<times> 'w"
  os_getsize :: "string \<Rightarrow> 'w \<Rightarrow> (exn + int) \<times> 'w"
  os_abspath :: "string \<Rightarrow> string"
  open_xb :: "string \<Rightarrow> 'w \<Rightarrow> (exn + unit) \<times> 'w"
  file_write :: "string \<Rightarrow> string \<Rightarrow> 'w \<Rightarrow> (exn + unit) \<times> 'w"
  b64decode :: "string \<Rightarrow> exn + string"
  pdf_base64 :: "string \<Rightarrow> 'w \<Rightarrow> (exn + string) \<times> 'w"
  canvas_save :: "string \<Rightarrow> string \<Rightarrow> 'w \<Rightarrow> (exn + unit) \<times> 'w"

text \<open>
  Every call the program makes is recorded, in order, with its arguments.
\<close>

datatype event =
    Get string
  | CurrentUrl
  | ExecuteScript string "script_arg list"
  | Refresh
  | PageSource
  | FindElement locator
  | FindElements locator
  | ElementFindElement element locator
  | ElementFindElements element locator
  | UntilPresence locator
  | UntilVisibility element
  | UntilClickable element
  | Click element
  | ChainClick element
  | Text element
  | GetAttribute element string
  | SendKeys element string
  | Post json json
  | RandBelow nat
  | Time
  | Makedirs string
  | Getsize string
  | OpenXb string
  | FileWrite string
  | PdfBase64 string
  | CanvasSave string

text \<open>
  Modelled from the spec: the class of the \<open>job\<close> objects is not part of the sources, which
  only read \<open>link\<close>, \<open>title\<close> and \<open>description\<close>, assign \<open>pdf_path\<close> and
  \<open>cover_letter_path\<close> and call \<open>set_job_description\<close> and \<open>set_recruiter_link\<close>. The
  record has the fields of the specification's Job, and the two setters assign their
  field. A job is an object shared by the caller, the applier and the answerer, so the
  session keeps the jobs in a store and the program passes references.
\<close>

record job =
  link :: string
  title :: string
  description :: string
  recruiter_link :: string
  pdf_path :: "string option"
  cover_letter_path :: "string option"

type_synonym job_ref = nat

record 'w session =
  world :: 'w
  trace :: "event list"
  jobs :: "job_ref \<Rightarrow> job"
  applier_current_job :: "job_ref option"
  answerer_current_job :: "job_ref option"

type_synonym ('w, 'a) prog = "'w session \<Rightarrow> (exn + 'a) \<times> 'w session"

definition call :: "event \<Rightarrow> ('w \<Rightarrow> (exn + 'a) \<times> 'w) \<Rightarrow> ('w, 'a) prog" where
  "call ev operation s =
     (case operation (world s) of (r, w) \<Rightarrow> (r, s\<lparr>world := w, trace := trace s @ [ev]\<rparr>))"

text \<open>A call that cannot raise (the clock, the random generator).\<close>

definition call_total :: "event \<Rightarrow> ('w \<Rightarrow> 'a \<times> 'w) \<Rightarrow> ('w, 'a) prog" where
  "call_total ev operation s =
     (case operation (world s) of (x, w) \<Rightarrow> (Inr x, s\<lparr>world := w, trace := trace s @ [ev]\<rparr>))"

definition return :: "'a \<Rightarrow> ('w, 'a) prog" where
  "return x s = (Inr x, s)"

definition raise :: "exn \<Rightarrow> ('w, 'a) prog" where
  "raise e s = (Inl e, s)"

definition bind :: "('w, 'a) prog \<Rightarrow> ('a \<Rightarrow> ('w, 'b) prog) \<Rightarrow> ('w, 'b) prog" where
  "bind m f s = (case m s of (Inl e, s1) \<Rightarrow> (Inl e, s1) | (Inr x, s1) \<Rightarrow> f x s1)"

text \<open>\<open>try: m except Exception as e: h e\<close>\<close>

definition catch :: "('w, 'a) prog \<Rightarrow> (exn \<Rightarrow> ('w, 'a) prog) \<Rightarrow> ('w, 'a) prog" where
  "catch m h s = (case m s of (Inl e, s1) \<Rightarrow> h e s1 | (Inr x, s1) \<Rightarrow> (Inr x, s1))"

text \<open>\<open>for x in xs: f x\<close>\<close>

fun for_each :: "('a \<Rightarrow> ('w, unit) prog) \<Rightarrow> 'a list \<Rightarrow> ('w, unit) prog" where
  "for_each f [] s = (Inr (), s)"
| "for_each f (x # xs) s =
     (case f x s of (Inl e, s1) \<Rightarrow> (Inl e, s1) | (Inr _, s1) \<Rightarrow> for_each f xs s1)"

abbreviation driver_get :: "'w env \<Rightarrow> string \<Rightarrow> ('w, unit) prog" where
  "driver_get env url \<equiv> call (Get url) (drv_get env url)"

abbreviation driver_current_url :: "'w env \<Rightarrow> ('w, string) prog" where
  "driver_current_url env \<equiv> call CurrentUrl (drv_current_url env)"

abbreviation driver_execute_script :: "'w env \<Rightarrow> string \<Rightarrow> script_arg list \<Rightarrow> ('w, json) prog" where
  "driver_execute_script env script args \<equiv> call (ExecuteScript script args) (drv_execute_script env script args)"

abbreviation driver_refresh :: "'w env \<Rightarrow> ('w, unit) prog" where
  "driver_refresh env \<equiv> call Refresh (drv_refresh env)"

abbreviation driver_page_source :: "'w env \<Rightarrow> ('w, string) prog" where
  "driver_page_source env \<equiv> call PageSource (drv_page_source env)"

abbreviation driver_find_element :: "'w env \<Rightarrow> locator \<Rightarrow> ('w, element) prog" where
  "driver_find_element env b \<equiv> call (FindElement b) (drv_find_element env b)"

abbreviation driver_find_elements :: "'w env \<Rightarrow> locator \<Rightarrow> ('w, element list) prog" where
  "driver_find_elements env b \<equiv> call (FindElements b) (drv_find_elements env b)"

abbreviation element_find_element :: "'w env \<Rightarrow> element \<Rightarrow> locator \<Rightarrow> ('w, element) prog" where
  "element_find_element env el b \<equiv> call (ElementFindElement el b) (elem_find_element env el b)"

abbreviation element_find_elements :: "'w env \<Rightarrow> element \<Rightarrow> locator \<Rightarrow> ('w, element list) prog" where
  "element_find_elements env el b \<equiv> call (ElementFindElements el b) (elem_find_elements env el b)"

text \<open>\<open>WebDriverWait(driver, 10).until(EC.presence_of_element_located((By..., ...)))\<close> and its
  two siblings: the element (or nothing of interest), or \<open>TimeoutException\<close>.\<close>

abbreviation wait_presence :: "'w env \<Rightarrow> locator \<Rightarrow> ('w, element) prog" where
  "wait_presence env b \<equiv> call (UntilPresence b) (until_presence env b)"

abbreviation wait_visibility :: "'w env \<Rightarrow> element \<Rightarrow> ('w, unit) prog" where
  "wait_visibility env el \<equiv> call (UntilVisibility el) (until_visibility env el)"

abbreviation wait_clickable :: "'w env \<Rightarrow> element \<Rightarrow> ('w, unit) prog" where
  "wait_clickable env el \<equiv> call (UntilClickable el) (until_clickable env el)"

abbreviation click :: "'w env \<Rightarrow> element \<Rightarrow> ('w, unit) prog" where
  "click env el \<equiv> call (Click el) (elem_click env el)"

text \<open>\<open>ActionChains(driver).move_to_element(el).click().perform()\<close>\<close>

abbreviation move_to_element_click :: "'w env \<Rightarrow> element \<Rightarrow> ('w, unit) prog" where
  "move_to_element_click env el \<equiv> call (ChainClick el) (chain_click env el)"

abbreviation element_text :: "'w env \<Rightarrow> element \<Rightarrow> ('w, string) prog" where
  "element_text env el \<equiv> call (Text el) (elem_text env el)"

abbreviation get_attribute :: "'w env \<Rightarrow> element \<Rightarrow> string \<Rightarrow> ('w, string) prog" where
  "get_attribute env el name \<equiv> call (GetAttribute el name) (elem_get_attribute env el name)"

abbreviation send_keys :: "'w env \<Rightarrow> element \<Rightarrow> string \<Rightarrow> ('w, unit) prog" where
  "send_keys env el keys \<equiv> call (SendKeys el keys) (elem_send_keys env el keys)"

text \<open>
  The pauses (\<open>time.sleep\<close>, with fixed or random lengths) and the log lines change no
  result and are left out.
\<close>

text \<open>\<open>sub in s\<close> on strings.\<close>

fun contains :: "string \<Rightarrow> string \<Rightarrow> bool" where
  "contains sub [] = (sub = [])"
| "contains sub (c # cs) = (take (length sub) (c # cs) = sub \<or> contains sub cs)"

section \<open>The answerer (\<open>GPTAnswerer\<close>)\<close>

text \<open>
  The settings come out of a configuration file, so the model type and the URL are
  values of any kind: \<open>lower\<close> exists on strings only, and \<open>not x\<close> reads the truth value.
\<close>

record gpt_answerer =
  llm_api_key :: string
  llm_model :: json
  llm_model_type :: json
  llm_api_url :: json

definition truthy :: "json \<Rightarrow> bool" where
  "truthy v = (case v of JNull \<Rightarrow> False | JBool b \<Rightarrow> b | JInt i \<Rightarrow> i \<noteq> 0 | JStr t \<Rightarrow> t \<noteq> []
               | JArr xs \<Rightarrow> xs \<noteq> [] | JObj kvs \<Rightarrow> kvs \<noteq> [])"

definition str_lower :: "json \<Rightarrow> ('w, string) prog" where
  "str_lower v = (case v of JStr t \<Rightarrow> return (lower t) | _ \<Rightarrow> raise AttributeError)"

text \<open>
  \<open>random.choice(seq)\<close> raises \<open>IndexError\<close> on an empty sequence and otherwise returns
  \<open>seq[randbelow(len(seq))]\<close>; the library keeps that index below the length, which the
  model writes as a remainder.
\<close>

definition random_choice :: "'w env \<Rightarrow> 'a list \<Rightarrow> ('w, 'a) prog" where
  "random_choice env seq =
     (if seq = [] then raise IndexError
      else bind (call_total (RandBelow (length seq)) (randbelow env (length seq)))
             (\<lambda>i. return (seq ! (i mod length seq))))"

definition http_post :: "'w env \<Rightarrow> gpt_answerer \<Rightarrow> json \<Rightarrow> ('w, http_response) prog" where
  "http_post env self payload =
     call (Post (llm_api_url self) payload)
       (requests_post env (llm_api_url self) payload
          (JObj [(''Authorization'', JStr (''Bearer '' @ llm_api_key self)),
                 (''Content-Type'', JStr ''application/json'')]))"

definition raise_for_status :: "http_response \<Rightarrow> ('w, unit) prog" where
  "raise_for_status response =
     (if 400 \<le> status_code response \<and> status_code response < 600 then raise HTTPError
      else return ())"

definition response_json :: "http_response \<Rightarrow> ('w, json) prog" where
  "response_json response =
     (case json_load (response_text response) of Inl e \<Rightarrow> raise e | Inr v \<Rightarrow> return v)"

text \<open>\<open>data.get(key, default)\<close>: only a dictionary has \<open>get\<close>.\<close>

definition dict_get :: "json \<Rightarrow> string \<Rightarrow> json \<Rightarrow> ('w, json) prog" where
  "dict_get data k dflt =
     (case data of
        JObj kvs \<Rightarrow> return (case map_of kvs k of None \<Rightarrow> dflt | Some v \<Rightarrow> v)
      | _ \<Rightarrow> raise AttributeError)"

definition set_job :: "job_ref \<Rightarrow> ('w, unit) prog" where
  "set_job job s = (Inr (), s\<lparr>answerer_current_job := Some job\<rparr>)"

definition answer_question_from_options ::
  "'w env \<Rightarrow> gpt_answerer \<Rightarrow> string \<Rightarrow> string list \<Rightarrow> ('w, string) prog" where
  "answer_question_from_options env self question_text options =
     bind (str_lower (llm_model_type self)) (\<lambda>model_type.
       if model_type = ''gemini'' then
         if \<not> truthy (llm_api_url self) then random_choice env options
         else
           catch
             (bind (http_post env self
                      (JObj [(''prompt'', JStr question_text),
                             (''options'', JArr (map JStr options)),
                             (''model'', llm_model self)])) (\<lambda>response.
              bind (raise_for_status response) (\<lambda>_.
              bind (response_json response) (\<lambda>data.
              bind (dict_get data ''answer'' (JStr [])) (\<lambda>gemini_answer.
                case gemini_answer of
                  JStr a \<Rightarrow> if a \<in> set options then return a else random_choice env options
                | _ \<Rightarrow> random_choice env options)))))
             (\<lambda>e. random_choice env options)
       else random_choice env options)"

definition fallback_text :: string where
  "fallback_text = ''I'm excited about the opportunity to contribute to this role with my experience and enthusiasm. Looking forward to discussing further details!''"

text \<open>
  The open question: a truthy answer is returned as it is, once the log line has
  sliced it (\<open>gemini_answer[:100]\<close>, which only a string or a list allows; the
  \<open>TypeError\<close> of any other value falls into the handler).
\<close>

definition answer_question_textual_wide_range ::
  "'w env \<Rightarrow> gpt_answerer \<Rightarrow> string \<Rightarrow> ('w, json) prog" where
  "answer_question_textual_wide_range env self question_text =
     bind (str_lower (llm_model_type self)) (\<lambda>model_type.
       if model_type = ''gemini'' then
         if \<not> truthy (llm_api_url self) then return (JStr fallback_text)
         else
           catch
             (bind (http_post env self
                      (JObj [(''prompt'', JStr question_text), (''model'', llm_model self)])) (\<lambda>response.
              bind (raise_for_status response) (\<lambda>_.
              bind (response_json response) (\<lambda>data.
              bind (dict_get data ''answer'' (JStr [])) (\<lambda>gemini_answer.
                if truthy gemini_answer then
                  (case gemini_answer of
                     JStr _ \<Rightarrow> return gemini_answer
                   | JArr _ \<Rightarrow> return gemini_answer
                   | _ \<Rightarrow> raise TypeError)
                else return (JStr fallback_text))))))
             (\<lambda>e. return (JStr fallback_text))
       else return (JStr fallback_text))"

definition resume_or_cover :: "string \<Rightarrow> string" where
  "resume_or_cover parent_text =
     (let parent_text = lower parent_text
      in if contains ''cover'' parent_text then ''cover'' else ''resume'')"

section \<open>The applier (\<open>AIHawkEasyApplier\<close>)\<close>

text \<open>
  The applier's settings: the resume the user supplied, if any, and the answerer.
\<close>

record easy_applier =
  resume_path :: "string option"
  answerer :: gpt_answerer

subsection \<open>The redirect guard\<close>

definition premium :: "string \<Rightarrow> bool" where
  "premium current_url = contains ''linkedin.com/premium'' current_url"

text \<open>
  The \<open>while\<close> of \<open>check_for_premium_redirect\<close>, from the location just read and the
  count of attempts made; it returns the location it read last.
\<close>

function premium_loop ::
  "'w env \<Rightarrow> job_ref \<Rightarrow> int \<Rightarrow> string \<Rightarrow> int \<Rightarrow> ('w, string) prog" where
  "premium_loop env job max_attempts current_url attempts s =
     (if premium current_url \<and> attempts < max_attempts then
        (case driver_get env (link (jobs s job)) s of
           (Inl e, s1) \<Rightarrow> (Inl e, s1)
         | (Inr _, s1) \<Rightarrow>
             (case driver_current_url env s1 of
                (Inl e, s2) \<Rightarrow> (Inl e, s2)
              | (Inr current_url, s2) \<Rightarrow>
                  premium_loop env job max_attempts current_url (attempts + 1) s2))
      else (Inr current_url, s))"
  by pat_completeness auto
termination
  by (relation "measure (\<lambda>(env, job, max_attempts, current_url, attempts, s). nat (max_attempts - attempts))")
    auto

declare premium_loop.simps [simp del]

definition check_for_premium_redirect :: "'w env \<Rightarrow> job_ref \<Rightarrow> int \<Rightarrow> ('w, unit) prog" where
  "check_for_premium_redirect env job max_attempts =
     bind (driver_current_url env) (\<lambda>current_url.
     bind (premium_loop env job max_attempts current_url 0) (\<lambda>current_url.
       if premium current_url
       then raise (Exception ''Redirected to Premium page and failed to return to job page.'')
       else return ()))"

subsection \<open>Scrolling (\<open>utils.scroll_slow\<close>, \<open>_scroll_page\<close>)\<close>

text \<open>\<open>range(start, stop, step)\<close> for a step that is not zero.\<close>

definition py_range :: "int \<Rightarrow> int \<Rightarrow> int \<Rightarrow> int list" where
  "py_range start stop step =
     (if 0 < step then map (\<lambda>k. start + int k * step) [0..<nat ((stop - start + step - 1) div step)]
      else map (\<lambda>k. start + int k * step) [0..<nat ((start - stop - step - 1) div (- step))])"

text \<open>What \<open>range\<close> makes of the script's answer: an integer (a Boolean counts as one).\<close>

definition as_index :: "json \<Rightarrow> ('w, int) prog" where
  "as_index v = (case v of JInt i \<Rightarrow> return i | JBool b \<Rightarrow> return (if b then 1 else 0)
                 | _ \<Rightarrow> raise TypeError)"

definition scroll_slow :: "'w env \<Rightarrow> element \<Rightarrow> int \<Rightarrow> bool \<Rightarrow> ('w, unit) prog" where
  "scroll_slow env el step reverse =
     bind (driver_execute_script env ''return arguments[0].scrollHeight'' [ArgElement el]) (\<lambda>v.
     bind (as_index v) (\<lambda>scroll_height.
     bind (if step = 0 then raise (ValueError ''range() arg 3 must not be zero'')
           else return (if reverse then py_range scroll_height 0 (- step)
                        else py_range 0 scroll_height step)) (\<lambda>scroll_range.
       for_each (\<lambda>v. bind (driver_execute_script env ''arguments[0].scrollTop = %s;''
                               [ArgElement el, ArgInt v]) (\<lambda>_. return ()))
         scroll_range)))"

definition scroll_page :: "'w env \<Rightarrow> ('w, unit) prog" where
  "scroll_page env =
     bind (driver_find_element env (TAG_NAME ''html'')) (\<lambda>scrollable_element.
     bind (scroll_slow env scrollable_element 300 False) (\<lambda>_.
       scroll_slow env scrollable_element 300 True))"

subsection \<open>The locator (\<open>_find_easy_apply_button\<close>)\<close>

record search_method =
  method_description :: string
  method_find_elements :: bool
  method_xpath :: string

definition search_methods :: "search_method list" where
  \<open>search_methods =
     [\<lparr>method_description = ''XPath con jobs-apply-button y texto 'Easy Apply'' @ [CHR 0x27],
       method_find_elements = True,
       method_xpath = ''//button[contains(@class, "jobs-apply-button") and .//span[contains(@class, "artdeco-button__text") and normalize-space(text()) = "Easy Apply"]]''\<rparr>,
      \<lparr>method_description = ''aria-label containing 'Easy Apply to'' @ [CHR 0x27],
       method_find_elements = False,
       method_xpath = ''//button[contains(@aria-label, "Easy Apply to")]''\<rparr>,
      \<lparr>method_description = ''button text fallback'',
       method_find_elements = False,
       method_xpath = ''//button[contains(text(), "Easy Apply") or contains(text(), "Apply now") or contains(text(), "Solicitud sencilla")]''\<rparr>]\<close>

text \<open>
  The loop over the candidates of a many-element method: the first that becomes visible
  and clickable is returned, a candidate that does not is logged and passed over.
\<close>

fun first_clickable :: "'w env \<Rightarrow> element list \<Rightarrow> ('w, element option) prog" where
  "first_clickable env [] s = (Inr None, s)"
| "first_clickable env (button # buttons) s =
     (case bind (wait_visibility env button) (\<lambda>_. wait_clickable env button) s of
        (Inr _, s1) \<Rightarrow> (Inr (Some button), s1)
      | (Inl e, s1) \<Rightarrow> first_clickable env buttons s1)"

text \<open>
  One method, inside its \<open>try\<close>: the button to return, or nothing when the method found
  none or raised (both handlers only log).
\<close>

definition try_method :: "'w env \<Rightarrow> search_method \<Rightarrow> ('w, element option) prog" where
  "try_method env method =
     catch
       (if method_find_elements method then
          bind (driver_find_elements env (XPATH (method_xpath method))) (\<lambda>buttons.
            if buttons \<noteq> [] then first_clickable env buttons else return None)
        else
          bind (wait_presence env (XPATH (method_xpath method))) (\<lambda>button.
          bind (wait_visibility env button) (\<lambda>_.
          bind (wait_clickable env button) (\<lambda>_.
            return (Some button)))))
       (\<lambda>e. return None)"

fun try_methods :: "'w env \<Rightarrow> search_method list \<Rightarrow> ('w, element option) prog" where
  "try_methods env [] s = (Inr None, s)"
| "try_methods env (method # methods) s =
     (case try_method env method s of
        (Inl e, s1) \<Rightarrow> (Inl e, s1)
      | (Inr (Some button), s1) \<Rightarrow> (Inr (Some button), s1)
      | (Inr None, s1) \<Rightarrow> try_methods env methods s1)"

text \<open>The \<open>while attempt < 2\<close>: the button found, or nothing after the last round.\<close>

function find_rounds :: "'w env \<Rightarrow> job_ref \<Rightarrow> int \<Rightarrow> ('w, element option) prog" where
  "find_rounds env job attempt s =
     (if attempt < 2 then
        (case bind (check_for_premium_redirect env job 3) (\<lambda>_.
              bind (scroll_page env) (\<lambda>_.
                try_methods env search_methods)) s of
           (Inl e, s1) \<Rightarrow> (Inl e, s1)
         | (Inr (Some button), s1) \<Rightarrow> (Inr (Some button), s1)
         | (Inr None, s1) \<Rightarrow>
             (case bind (check_for_premium_redirect env job 3) (\<lambda>_.
                     if attempt = 0 then driver_refresh env else return ()) s1 of
                (Inl e, s2) \<Rightarrow> (Inl e, s2)
              | (Inr _, s2) \<Rightarrow> find_rounds env job (attempt + 1) s2))
      else (Inr None, s))"
  by pat_completeness auto
termination
  by (relation "measure (\<lambda>(env, job, attempt, s). nat (2 - attempt))") auto

declare find_rounds.simps [simp del]

definition find_easy_apply_button :: "'w env \<Rightarrow> job_ref \<Rightarrow> ('w, element) prog" where
  "find_easy_apply_button env job =
     bind (find_rounds env job 0) (\<lambda>found.
       case found of
         Some button \<Rightarrow> return button
       | None \<Rightarrow>
           bind (driver_page_source env) (\<lambda>page_source.
             raise (Exception ''No clickable 'Easy Apply' button found'')))"

subsection \<open>Description and recruiter\<close>

definition get_job_description :: "'w env \<Rightarrow> ('w, string) prog" where
  \<open>get_job_description env =
     catch
       (bind (catch
                (bind (driver_find_element env
                         (XPATH ''//button[@aria-label="Click to see more description"]''))
                   (\<lambda>see_more_button. move_to_element_click env see_more_button))
                (\<lambda>e. if e = NoSuchElementException then return () else raise e)) (\<lambda>_.
        catch
          (bind (driver_find_element env (CLASS_NAME ''jobs-description-content__text''))
             (\<lambda>el. element_text env el))
          (\<lambda>e. if e = NoSuchElementException
                then bind (driver_find_element env
                             (CLASS_NAME ''job-details-about-the-job-module__description''))
                       (\<lambda>el. element_text env el)
                else raise e)))
       (\<lambda>e. if e = NoSuchElementException then raise (Exception ''Job description not found.'')
             else raise (ExceptionTb ''Error getting Job description:'' e))\<close>

definition get_job_recruiter :: "'w env \<Rightarrow> ('w, string) prog" where
  \<open>get_job_recruiter env =
     catch
       (bind (wait_presence env (XPATH ''//h2[text()="Meet the hiring team"]'')) (\<lambda>hiring_team_section.
        bind (element_find_elements env hiring_team_section
                (XPATH ''.//following::a[contains(@href, "linkedin.com/in/")]'')) (\<lambda>recruiter_elements.
          case recruiter_elements of
            recruiter # _ \<Rightarrow> get_attribute env recruiter ''href''
          | [] \<Rightarrow> return [])))
       (\<lambda>e. return [])\<close>

subsection \<open>Programs that may not return\<close>

text \<open>
  Two loops of the applier have no bound (\<open>while True\<close> around the resume generation and
  around the steps of the form), so whatever runs them may not return: such a program
  yields \<open>None\<close> when it does not.
\<close>

type_synonym ('w, 'a) pprog = "'w session \<Rightarrow> ((exn + 'a) \<times> 'w session) option"

definition lift :: "('w, 'a) prog \<Rightarrow> ('w, 'a) pprog" where
  "lift m s = Some (m s)"

definition pbind :: "('w, 'a) pprog \<Rightarrow> ('a \<Rightarrow> ('w, 'b) pprog) \<Rightarrow> ('w, 'b) pprog" where
  "pbind m f s =
     (case m s of
        None \<Rightarrow> None
      | Some (Inl e, s1) \<Rightarrow> Some (Inl e, s1)
      | Some (Inr x, s1) \<Rightarrow> f x s1)"

definition pcatch :: "('w, 'a) pprog \<Rightarrow> (exn \<Rightarrow> ('w, 'a) pprog) \<Rightarrow> ('w, 'a) pprog" where
  "pcatch m h s =
     (case m s of
        None \<Rightarrow> None
      | Some (Inl e, s1) \<Rightarrow> h e s1
      | Some (Inr x, s1) \<Rightarrow> Some (Inr x, s1))"

fun pfor_each :: "('a \<Rightarrow> ('w, unit) pprog) \<Rightarrow> 'a list \<Rightarrow> ('w, unit) pprog" where
  "pfor_each f [] s = Some (Inr (), s)"
| "pfor_each f (x # xs) s =
     (case f x s of
        None \<Rightarrow> None
      | Some (Inl e, s1) \<Rightarrow> Some (Inl e, s1)
      | Some (Inr _, s1) \<Rightarrow> pfor_each f xs s1)"

subsection \<open>Generated documents\<close>

function str_nat :: "nat \<Rightarrow> string" where
  "str_nat n = (if n < 10 then [''0123456789'' ! n] else str_nat (n div 10) @ [''0123456789'' ! (n mod 10)])"
  by pat_completeness auto
termination
  by (relation "measure id") auto

declare str_nat.simps [simp del]

definition str_int :: "int \<Rightarrow> string" where
  "str_int i = (if i < 0 then CHR ''-'' # str_nat (nat (- i)) else str_nat (nat i))"

definition is_digit :: "char \<Rightarrow> bool" where
  "is_digit c = (48 \<le> ord c \<and> ord c \<le> 57)"

text \<open>
  \<open>repr\<close> of a string: in single quotes, or in double quotes when the string holds a
  single quote and no double quote; the backslash and the chosen quote are escaped with a
  backslash, tab, newline and return are written as a backslash and \<open>t\<close>, \<open>n\<close>, \<open>r\<close>, and
  every other character that is not printable (below 0x20, 0x7F to 0xA0, 0xAD) as a
  backslash, \<open>x\<close> and two hexadecimal digits.
\<close>

definition hex2 :: "nat \<Rightarrow> string" where
  "hex2 n = [''0123456789abcdef'' ! (n div 16), ''0123456789abcdef'' ! (n mod 16)]"

definition repr_char :: "char \<Rightarrow> char \<Rightarrow> string" where
  "repr_char quote c =
     (if c = quote \<or> c = CHR 0x5C then [CHR 0x5C, c]
      else if c = CHR 0x09 then [CHR 0x5C, CHR ''t'']
      else if c = CHR 0x0A then [CHR 0x5C, CHR ''n'']
      else if c = CHR 0x0D then [CHR 0x5C, CHR ''r'']
      else if ord c < 32 \<or> (127 \<le> ord c \<and> ord c \<le> 160) \<or> ord c = 173
      then [CHR 0x5C, CHR ''x''] @ hex2 (ord c)
      else [c])"

definition py_repr :: "string \<Rightarrow> string" where
  "py_repr t =
     (let quote = (if CHR 0x27 \<in> set t \<and> CHR 0x22 \<notin> set t then CHR 0x22 else CHR 0x27)
      in [quote] @ concat (map (repr_char quote) t) @ [quote])"

text \<open>
  \<open>int(s)\<close> on a string. White space before the number is passed over (tab, newline,
  vertical tab, form feed, return, space, and the two spaces of Latin-1 beyond ASCII,
  0x85 and 0xA0), then come an optional sign and a run of decimal digits, between any two
  of which one underscore may stand; only white space may follow. A run of more than 4300
  digits is refused before what follows it is looked at; a text of any other form is an
  invalid literal, of which the message shows the first 200 characters of the \<open>repr\<close>.
\<close>

definition int_space :: "char \<Rightarrow> bool" where
  "int_space c = (ord c \<in> {9, 10, 11, 12, 13, 32, 133, 160})"

fun digit_part :: "string \<Rightarrow> bool" where
  "digit_part [] = False"
| "digit_part [c] = is_digit c"
| "digit_part (c # d # r) =
     (is_digit c \<and> (if d = CHR ''_'' then digit_part r else digit_part (d # r)))"

definition py_int :: "string \<Rightarrow> exn + int" where
  "py_int s =
     (let t = dropWhile int_space s;
          negative = (t \<noteq> [] \<and> hd t = CHR ''-'');
          body = (if t \<noteq> [] \<and> (hd t = CHR ''-'' \<or> hd t = CHR ''+'') then tl t else t);
          run = takeWhile (\<lambda>c. is_digit c \<or> c = CHR ''_'') body;
          rest = dropWhile (\<lambda>c. is_digit c \<or> c = CHR ''_'') body;
          ds = filter is_digit run
      in if digit_part run \<and> length ds > 4300
         then Inl (ValueError (''Exceeds the limit (4300 digits) for integer string conversion: value has ''
                     @ str_nat (length ds)
                     @ '' digits; use sys.set_int_max_str_digits() to increase the limit''))
         else if \<not> digit_part run \<or> dropWhile int_space rest \<noteq> []
         then Inl (ValueError (''invalid literal for int() with base 10: '' @ take 200 (py_repr s)))
         else Inr ((if negative then - 1 else 1) * int (foldl (\<lambda>a c. 10 * a + (ord c - 48)) 0 ds)))"

text \<open>
  \<open>time.sleep(secs)\<close> with an integer: a number of seconds that does not fit the clock's
  64-bit count of nanoseconds is an \<open>OverflowError\<close>, a negative one a \<open>ValueError\<close>;
  otherwise the call returns when the time has passed, and nothing else has changed.
\<close>

definition sleep :: "int \<Rightarrow> ('w, unit) prog" where
  "sleep secs =
     (if secs > 9223372036 \<or> secs < - 9223372036 then raise OverflowError
      else if secs < 0 then raise (ValueError ''sleep length must be non-negative'')
      else return ())"

definition path_join :: "string \<Rightarrow> string \<Rightarrow> string" where
  "path_join folder name = folder @ ''/'' @ name"

text \<open>
  \<open>os.path.splitext\<close> on a POSIX path: the extension starts at the last dot of the last
  component, unless only dots precede it there.
\<close>

definition splitext :: "string \<Rightarrow> string \<times> string" where
  "splitext p =
     (let name = rev (takeWhile (\<lambda>c. c \<noteq> CHR ''/'') (rev p));
          ext = rev (takeWhile (\<lambda>c. c \<noteq> CHR ''.'') (rev name));
          stem = take (length name - length ext - 1) name
      in if CHR ''.'' \<in> set name \<and> dropWhile (\<lambda>c. c = CHR ''.'') stem \<noteq> []
         then (take (length p - length ext - 1) p, CHR ''.'' # ext)
         else (p, []))"

text \<open>
  \<open>str(e)\<close>, which the generation loop searches for \<open>RateLimitError\<close>. The exceptions that
  carry no message in the model are taken to have a text without that word.
\<close>

fun exn_str :: "exn \<Rightarrow> string" where
  "exn_str (ValueError msg) = msg"
| "exn_str (OtherError msg) = msg"
| "exn_str (Exception msg) = msg"
| "exn_str (ExceptionTb msg e) = msg @ exn_str e"
| "exn_str (KeyError k) = py_repr k"
| "exn_str _ = []"

definition set_pdf_path :: "job_ref \<Rightarrow> string \<Rightarrow> ('w, unit) prog" where
  "set_pdf_path job p s = (Inr (), s\<lparr>jobs := (jobs s)(job := (jobs s job)\<lparr>pdf_path := Some p\<rparr>)\<rparr>)"

definition set_cover_letter_path :: "job_ref \<Rightarrow> string \<Rightarrow> ('w, unit) prog" where
  "set_cover_letter_path job p s =
     (Inr (), s\<lparr>jobs := (jobs s)(job := (jobs s job)\<lparr>cover_letter_path := Some p\<rparr>)\<rparr>)"

definition set_job_description :: "job_ref \<Rightarrow> string \<Rightarrow> ('w, unit) prog" where
  "set_job_description job d s = (Inr (), s\<lparr>jobs := (jobs s)(job := (jobs s job)\<lparr>description := d\<rparr>)\<rparr>)"

definition set_recruiter_link :: "job_ref \<Rightarrow> string \<Rightarrow> ('w, unit) prog" where
  "set_recruiter_link job l s = (Inr (), s\<lparr>jobs := (jobs s)(job := (jobs s job)\<lparr>recruiter_link := l\<rparr>)\<rparr>)"

text \<open>
  The body of the \<open>try\<close> inside the generation loop of \<open>_create_and_upload_resume\<close>: a
  path from the clock, the resume from the generator, a file opened for exclusive
  creation (it must not exist yet), and the decoded resume written into it.
\<close>

definition generate_once :: "'w env \<Rightarrow> job_ref \<Rightarrow> ('w, string) prog" where
  "generate_once env job =
     bind (call_total Time (time_time env)) (\<lambda>timestamp.
       let file_path_pdf = path_join ''generated_cv'' (''CV_'' @ str_int timestamp @ ''.pdf'') in
       bind (\<lambda>s. call (PdfBase64 (description (jobs s job)))
                    (pdf_base64 env (description (jobs s job))) s) (\<lambda>resume_pdf_base64.
       bind (call (OpenXb file_path_pdf) (open_xb env file_path_pdf)) (\<lambda>_.
       bind (case b64decode env resume_pdf_base64 of Inl e \<Rightarrow> raise e | Inr d \<Rightarrow> return d) (\<lambda>decoded.
       bind (call (FileWrite file_path_pdf) (file_write env file_path_pdf decoded)) (\<lambda>_.
         return file_path_pdf)))))"

text \<open>
  The loop: a rate limit (status 429, or an exception whose text names
  \<open>RateLimitError\<close>) waits and tries again, any other exception leaves. The wait of the
  first kind is read from the \<open>retry-after\<close> header, \<open>20\<close> when it is absent or empty; what
  \<open>int\<close> and \<open>time.sleep\<close> raise there leaves the function.
\<close>

partial_function (option) generate_resume ::
  "'w env \<Rightarrow> job_ref \<Rightarrow> 'w session \<Rightarrow> ((exn + string) \<times> 'w session) option" where
  "generate_resume env job s =
     (case generate_once env job s of
        (Inr file_path_pdf, s1) \<Rightarrow> Some (Inr file_path_pdf, s1)
      | (Inl e, s1) \<Rightarrow>
          (case e of
             HTTPStatusError code header \<Rightarrow>
               if code = 429 then
                 (case py_int (case header of None \<Rightarrow> ''20''
                                | Some h \<Rightarrow> if h = [] then ''20'' else h) of
                    Inl e' \<Rightarrow> Some (Inl e', s1)
                  | Inr wait_time \<Rightarrow>
                      (case sleep wait_time s1 of
                         (Inl e', s2) \<Rightarrow> Some (Inl e', s2)
                       | (Inr _, s2) \<Rightarrow> generate_resume env job s2))
               else Some (Inl e, s1)
           | _ \<Rightarrow>
               if contains ''RateLimitError'' (exn_str e)
               then (case sleep 20 s1 of
                       (Inl e', s2) \<Rightarrow> Some (Inl e', s2)
                     | (Inr _, s2) \<Rightarrow> generate_resume env job s2)
               else Some (Inl e, s1)))"

text \<open>
  What follows the loop: the size and the extension of the file are checked, and only
  then is the file handed to the page and noted in the job.
\<close>

definition upload_resume :: "'w env \<Rightarrow> element \<Rightarrow> job_ref \<Rightarrow> string \<Rightarrow> ('w, unit) prog" where
  "upload_resume env el job file_path_pdf =
     bind (call (Getsize file_path_pdf) (os_getsize env file_path_pdf)) (\<lambda>file_size.
       let max_file_size = 2 * 1024 * 1024 in
       if file_size > max_file_size
       then raise (ValueError ''Resume file size exceeds the maximum limit of 2 MB.'')
       else
         let allowed_extensions = [''.pdf'', ''.doc'', ''.docx''];
             file_extension = snd (splitext file_path_pdf) in
         if lower file_extension \<notin> set allowed_extensions
         then raise (ValueError ''Resume file format is not allowed. Only PDF, DOC, DOCX supported.'')
         else
           bind (send_keys env el (os_abspath env file_path_pdf)) (\<lambda>_.
             set_pdf_path job (os_abspath env file_path_pdf)))"

definition create_and_upload_resume :: "'w env \<Rightarrow> element \<Rightarrow> job_ref \<Rightarrow> ('w, unit) pprog" where
  "create_and_upload_resume env el job =
     pbind (lift (call (Makedirs ''generated_cv'') (os_makedirs env ''generated_cv''))) (\<lambda>_.
     pbind (generate_resume env job) (\<lambda>file_path_pdf.
       lift (upload_resume env el job file_path_pdf)))"

definition upload_cover_letter :: "'w env \<Rightarrow> element \<Rightarrow> job_ref \<Rightarrow> string \<Rightarrow> ('w, unit) prog" where
  "upload_cover_letter env el job file_path_pdf =
     bind (call (Getsize file_path_pdf) (os_getsize env file_path_pdf)) (\<lambda>file_size.
       let max_file_size = 2 * 1024 * 1024 in
       if file_size > max_file_size
       then raise (ValueError ''Cover letter file size exceeds the maximum limit of 2 MB.'')
       else
         let file_extension = snd (splitext file_path_pdf) in
         if lower file_extension \<notin> set [''.pdf'', ''.doc'', ''.docx'']
         then raise (ValueError ''Cover letter file format is not allowed (PDF, DOC, DOCX).'')
         else
           bind (send_keys env el (os_abspath env file_path_pdf)) (\<lambda>_.
             set_cover_letter_path job (os_abspath env file_path_pdf)))"

text \<open>
  The cover letter: the text comes from the answerer; laying it out on pages and saving
  the document is the PDF library's work, one call of the environment here (the layout
  splits the text into lines first, which only a string allows).
\<close>

definition create_and_upload_cover_letter ::
  "'w env \<Rightarrow> easy_applier \<Rightarrow> element \<Rightarrow> job_ref \<Rightarrow> ('w, unit) prog" where
  "create_and_upload_cover_letter env self el job =
     bind (answer_question_textual_wide_range env (answerer self) ''Write a cover letter'') (\<lambda>cover_letter_text.
     bind (call (Makedirs ''generated_cv'') (os_makedirs env ''generated_cv'')) (\<lambda>_.
     bind (call_total Time (time_time env)) (\<lambda>timestamp.
       let file_path_pdf = path_join ''generated_cv'' (''Cover_Letter_'' @ str_int timestamp @ ''.pdf'') in
       bind (case cover_letter_text of
               JStr t \<Rightarrow> call (CanvasSave file_path_pdf) (canvas_save env file_path_pdf t)
             | _ \<Rightarrow> raise AttributeError) (\<lambda>_.
         upload_cover_letter env el job file_path_pdf))))"

subsection \<open>The steps of the form\<close>

definition upload_field :: "'w env \<Rightarrow> easy_applier \<Rightarrow> job_ref \<Rightarrow> element \<Rightarrow> ('w, unit) pprog" where
  "upload_field env self job input_file =
     pbind (lift (element_find_element env input_file (XPATH ''..''))) (\<lambda>parent.
     pbind (lift (driver_execute_script env ''arguments[0].classList.remove('hidden')''
                    [ArgElement input_file])) (\<lambda>_.
     pbind (lift (element_text env parent)) (\<lambda>parent_text.
       let output = resume_or_cover (lower parent_text) in
       if contains ''resume'' output then
         (case resume_path self of
            Some p \<Rightarrow> if p \<noteq> [] then lift (send_keys env input_file p)
                      else create_and_upload_resume env input_file job
          | None \<Rightarrow> create_and_upload_resume env input_file job)
       else if contains ''cover'' output then
         lift (create_and_upload_cover_letter env self input_file job)
       else lift (return ()))))"

definition handle_upload_fields ::
  "'w env \<Rightarrow> easy_applier \<Rightarrow> element \<Rightarrow> job_ref \<Rightarrow> ('w, unit) pprog" where
  "handle_upload_fields env self el job =
     pbind (lift (catch
                    (bind (driver_find_element env
                             (XPATH ''//button[contains(@aria-label, 'Show more resumes')]''))
                       (\<lambda>show_more_button. click env show_more_button))
                    (\<lambda>e. if e = NoSuchElementException then return () else raise e))) (\<lambda>_.
     pbind (lift (driver_find_elements env (XPATH ''//input[@type='file']''))) (\<lambda>file_upload_elements.
       pfor_each (upload_field env self job) file_upload_elements))"

definition process_form_section :: "element \<Rightarrow> ('w, unit) prog" where
  "process_form_section section = return ()"

definition fill_additional_questions :: "'w env \<Rightarrow> ('w, unit) prog" where
  "fill_additional_questions env =
     bind (driver_find_elements env (CLASS_NAME ''jobs-easy-apply-form-section__grouping'')) (\<lambda>form_sections.
       for_each process_form_section form_sections)"

definition is_upload_field :: "'w env \<Rightarrow> element \<Rightarrow> ('w, bool) prog" where
  "is_upload_field env el =
     bind (element_find_elements env el (XPATH ''.//input[@type='file']'')) (\<lambda>found.
       return (found \<noteq> []))"

definition process_form_element ::
  "'w env \<Rightarrow> easy_applier \<Rightarrow> element \<Rightarrow> job_ref \<Rightarrow> ('w, unit) pprog" where
  "process_form_element env self el job =
     pbind (lift (is_upload_field env el)) (\<lambda>is_upload.
       if is_upload then handle_upload_fields env self el job
       else lift (fill_additional_questions env))"

text \<open>\<open>fill_up\<close> logs whatever is raised while it fills the visible step, and returns.\<close>

definition fill_up :: "'w env \<Rightarrow> easy_applier \<Rightarrow> job_ref \<Rightarrow> ('w, unit) pprog" where
  "fill_up env self job =
     pcatch
       (pbind (lift (wait_presence env (CLASS_NAME ''jobs-easy-apply-content''))) (\<lambda>easy_apply_content.
        pbind (lift (element_find_elements env easy_apply_content (CLASS_NAME ''pb4''))) (\<lambda>pb4_elements.
          pfor_each (\<lambda>el. process_form_element env self el job) pb4_elements)))
       (\<lambda>e. lift (return ()))"

definition unfollow_company :: "'w env \<Rightarrow> ('w, unit) prog" where
  "unfollow_company env =
     catch
       (bind (driver_find_element env
                (XPATH ''//label[contains(.,'to stay up to date with their page.')]''))
          (\<lambda>follow_checkbox. click env follow_checkbox))
       (\<lambda>e. return ())"

text \<open>\<open>[e.text for e in error_elements]\<close>\<close>

fun element_texts :: "'w env \<Rightarrow> element list \<Rightarrow> ('w, string list) prog" where
  "element_texts env [] s = (Inr [], s)"
| "element_texts env (el # els) s =
     (case element_text env el s of
        (Inl e, s1) \<Rightarrow> (Inl e, s1)
      | (Inr t, s1) \<Rightarrow>
          (case element_texts env els s1 of
             (Inl e, s2) \<Rightarrow> (Inl e, s2)
           | (Inr ts, s2) \<Rightarrow> (Inr (t # ts), s2)))"

text \<open>The text of a list of strings, as \<open>str\<close> and \<open>repr\<close> give it.\<close>

fun join_comma :: "string list \<Rightarrow> string" where
  "join_comma [] = []"
| "join_comma [t] = t"
| "join_comma (t # ts) = t @ '', '' @ join_comma ts"

definition repr_list :: "string list \<Rightarrow> string" where
  "repr_list ts = ''['' @ join_comma (map py_repr ts) @ '']''"

definition check_for_errors :: "'w env \<Rightarrow> ('w, unit) prog" where
  "check_for_errors env =
     bind (driver_find_elements env (CLASS_NAME ''artdeco-inline-feedback--error'')) (\<lambda>error_elements.
       if error_elements \<noteq> [] then
         bind (element_texts env error_elements) (\<lambda>texts.
           raise (Exception (''Failed answering or file upload: '' @ repr_list texts)))
       else return ())"

definition next_or_submit :: "'w env \<Rightarrow> ('w, bool) prog" where
  "next_or_submit env =
     bind (driver_find_element env (CLASS_NAME ''artdeco-button--primary'')) (\<lambda>next_button.
     bind (element_text env next_button) (\<lambda>t.
       let button_text = lower t in
       if contains ''submit application'' button_text \<or> contains ''enviar solicitud'' button_text then
         bind (unfollow_company env) (\<lambda>_.
         bind (click env next_button) (\<lambda>_.
           return True))
       else
         bind (click env next_button) (\<lambda>_.
         bind (check_for_errors env) (\<lambda>_.
           return False))))"

partial_function (option) fill_application_form ::
  "'w env \<Rightarrow> easy_applier \<Rightarrow> job_ref \<Rightarrow> 'w session \<Rightarrow> ((exn + unit) \<times> 'w session) option" where
  "fill_application_form env self job s =
     (case fill_up env self job s of
        None \<Rightarrow> None
      | Some (Inl e, s1) \<Rightarrow> Some (Inl e, s1)
      | Some (Inr _, s1) \<Rightarrow>
          (case next_or_submit env s1 of
             (Inl e, s2) \<Rightarrow> Some (Inl e, s2)
           | (Inr submitted, s2) \<Rightarrow>
               if submitted then Some (Inr (), s2)
               else fill_application_form env self job s2))"

subsection \<open>The controller\<close>

definition discard_application :: "'w env \<Rightarrow> ('w, unit) prog" where
  "discard_application env =
     catch
       (bind (driver_find_element env (CLASS_NAME ''artdeco-modal__dismiss'')) (\<lambda>dismiss.
        bind (click env dismiss) (\<lambda>_.
        bind (driver_find_elements env (CLASS_NAME ''artdeco-modal__confirm-dialog-btn'')) (\<lambda>discard_buttons.
          case discard_buttons of
            discard_button # _ \<Rightarrow> click env discard_button
          | [] \<Rightarrow> return ()))))
       (\<lambda>e. return ())"

definition set_current_job :: "job_ref \<Rightarrow> ('w, unit) prog" where
  "set_current_job job s = (Inr (), s\<lparr>applier_current_job := Some job\<rparr>)"

text \<open>The body of the second \<open>try\<close> of \<open>job_apply\<close>, the one whose handler discards.\<close>

definition application_sequence :: "'w env \<Rightarrow> easy_applier \<Rightarrow> job_ref \<Rightarrow> ('w, unit) pprog" where
  "application_sequence env self job =
     pbind (lift (driver_execute_script env ''document.activeElement.blur();'' [])) (\<lambda>_.
     pbind (lift (check_for_premium_redirect env job 3)) (\<lambda>_.
     pbind (lift (find_easy_apply_button env job)) (\<lambda>easy_apply_button.
     pbind (lift (check_for_premium_redirect env job 3)) (\<lambda>_.
     pbind (lift (get_job_description env)) (\<lambda>job_description.
     pbind (lift (set_job_description job job_description)) (\<lambda>_.
     pbind (lift (get_job_recruiter env)) (\<lambda>recruiter_link.
     pbind (lift (set_recruiter_link job recruiter_link)) (\<lambda>_.
     pbind (lift (set_current_job job)) (\<lambda>_.
     pbind (lift (move_to_element_click env easy_apply_button)) (\<lambda>_.
     pbind (lift (set_job job)) (\<lambda>_.
       fill_application_form env self job)))))))))))"

definition job_apply :: "'w env \<Rightarrow> easy_applier \<Rightarrow> job_ref \<Rightarrow> ('w, unit) pprog" where
  "job_apply env self job =
     pbind (lift (catch (\<lambda>s. driver_get env (link (jobs s job)) s) (\<lambda>e. raise e))) (\<lambda>_.
     pbind (lift (check_for_premium_redirect env job 3)) (\<lambda>_.
       pcatch (application_sequence env self job)
         (\<lambda>e. pbind (lift (discard_application env)) (\<lambda>_.
                lift (raise (ExceptionTb ''Failed to apply to job! Original exception:'' e))))))"

definition apply_to_job :: "'w env \<Rightarrow> easy_applier \<Rightarrow> job_ref \<Rightarrow> ('w, unit) pprog" where
  "apply_to_job env self job = pcatch (job_apply env self job) (\<lambda>e. lift (raise e))"

section \<open>A sample page\<close>

text \<open>
  A concrete environment to run the program on: a job page without an apply button.
  The world is the number of navigations made so far. Every lookup but that of the
  \<open>html\<close> element fails or finds nothing, the endpoint of the answerer is unreachable, and
  the generator, the clock and the file system answer with fixed values. The browser runs
  scripts as a browser does: it answers the question for the scroll height (0 on this
  page, so that a scroll pass has no step to make), and it rejects the script of a scroll
  step, \<open>arguments[0].scrollTop = %s;\<close>, which is not JavaScript.
\<close>

definition job_page :: string where
  "job_page = ''https://www.linkedin.com/jobs/view/42''"

definition premium_page :: string where
  "premium_page = ''https://www.linkedin.com/premium/products''"

definition plain_page :: "nat env" where
  "plain_page =
     \<lparr>drv_get = (\<lambda>url w. (Inr (), Suc w)),
      drv_current_url = (\<lambda>w. (Inr job_page, w)),
      drv_execute_script =
        (\<lambda>script args w.
           if script = ''arguments[0].scrollTop = %s;'' then (Inl JavascriptException, w)
           else if script = ''return arguments[0].scrollHeight'' then (Inr (JInt 0), w)
           else (Inr JNull, w)),
      drv_refresh = (\<lambda>w. (Inr (), w)),
      drv_page_source = (\<lambda>w. (Inr ''<html></html>'', w)),
      drv_find_element = (\<lambda>b w. if b = TAG_NAME ''html'' then (Inr 0, w)
                                   else (Inl NoSuchElementException, w)),
      drv_find_elements = (\<lambda>b w. (Inr [], w)),
      elem_find_element = (\<lambda>el b w. (Inl NoSuchElementException, w)),
      elem_find_elements = (\<lambda>el b w. (Inr [], w)),
      until_presence = (\<lambda>b w. (Inl TimeoutException, w)),
      until_visibility = (\<lambda>el w. (Inr (), w)),
      until_clickable = (\<lambda>el w. (Inr (), w)),
      elem_click = (\<lambda>el w. (Inr (), w)),
      chain_click = (\<lambda>el w. (Inr (), w)),
      elem_text = (\<lambda>el w. (Inr [], w)),
      elem_get_attribute = (\<lambda>el name w. (Inr [], w)),
      elem_send_keys = (\<lambda>el keys w. (Inr (), w)),
      requests_post = (\<lambda>url payload headers w. (Inl (OtherError ''connection refused''), w)),
      randbelow = (\<lambda>n w. (0, w)),
      time_time = (\<lambda>w. (1700000000, w)),
      os_makedirs = (\<lambda>p w. (Inr (), w)),
      os_getsize = (\<lambda>p w. (Inr 1000, w)),
      os_abspath = (\<lambda>p. ''/app/'' @ p),
      open_xb = (\<lambda>p w. (Inr (), w)),
      file_write = (\<lambda>p d w. (Inr (), w)),
      b64decode = (\<lambda>d. Inr d),
      pdf_base64 = (\<lambda>d w. (Inr ''JVBERi0='', w)),
      canvas_save = (\<lambda>p t w. (Inr (), w))\<rparr>"

definition sample_job :: job where
  "sample_job =
     \<lparr>link = job_page, title = ''Head of Sales'', description = [], recruiter_link = [],
      pdf_path = None, cover_letter_path = None\<rparr>"

definition start :: "nat session" where
  "start =
     \<lparr>world = 0, trace = [], jobs = (\<lambda>_. sample_job),
      applier_current_job = None, answerer_current_job = None\<rparr>"

definition gemini :: gpt_answerer where
  "gemini =
     \<lparr>llm_api_key = ''key'', llm_model = JStr ''gemini-pro'', llm_model_type = JStr ''gemini'',
      llm_api_url = JStr ''https://llm.example/v1/answer''\<rparr>"

definition sample_applier :: easy_applier where
  "sample_applier = \<lparr>resume_path = None, answerer = gemini\<rparr>"

subsection \<open>The checks of the redirect guard, one after the other\<close>

text \<open>
  To speak of the guard's checks: \<open>revisit env job k s\<close> is the session after \<open>k\<close> rounds
  of reading the location and navigating to the job's link again, and
  \<open>location env job k s\<close> is the location read by the check that follows them (the first
  check is check 0, the check after the \<open>k\<close>-th navigation is check \<open>k\<close>).
\<close>

fun revisit :: "'w env \<Rightarrow> job_ref \<Rightarrow> nat \<Rightarrow> 'w session \<Rightarrow> 'w session" where
  "revisit env job 0 s = s"
| "revisit env job (Suc k) s =
     (let s1 = snd (driver_current_url env s)
      in revisit env job k (snd (driver_get env (link (jobs s1 job)) s1)))"

definition location :: "'w env \<Rightarrow> job_ref \<Rightarrow> nat \<Rightarrow> 'w session \<Rightarrow> string" where
  "location env job k s =
     (case fst (driver_current_url env (revisit env job k s)) of Inr u \<Rightarrow> u | Inl e \<Rightarrow> [])"

text \<open>
  Two variations of the sample page: one that shows the premium page whatever the
  session does, and one that shows it until the job's link has been opened twice.
\<close>

definition premium_wall :: "nat env" where
  "premium_wall = plain_page\<lparr>drv_current_url := (\<lambda>w. (Inr premium_page, w))\<rparr>"

definition premium_twice :: "nat env" where
  "premium_twice =
     plain_page\<lparr>drv_current_url := (\<lambda>w. (Inr (if w < 2 then premium_page else job_page), w))\<rparr>"

text \<open>A variation whose files are one byte over two mebibytes.\<close>

definition big_files :: "nat env" where
  "big_files = plain_page\<lparr>os_getsize := (\<lambda>p w. (Inr (2 * 1024 * 1024 + 1), w))\<rparr>"

subsection \<open>The lookups and reloads of a session\<close>

text \<open>
  To count the rounds of the locator: the milestones of a trace are its page reloads and
  the calls with which a search method starts (\<open>find_elements\<close> for a many-element
  one, the wait for presence for the others). A program is quiet when it adds no
  milestone to the trace.
\<close>

definition milestone :: "event \<Rightarrow> bool" where
  "milestone ev = (case ev of Refresh \<Rightarrow> True | FindElements (XPATH _) \<Rightarrow> True
                   | UntilPresence (XPATH _) \<Rightarrow> True | _ \<Rightarrow> False)"

definition milestones :: "'w session \<Rightarrow> event list" where
  "milestones s = filter milestone (trace s)"

definition lookup :: "search_method \<Rightarrow> event" where
  "lookup method =
     (if method_find_elements method then FindElements (XPATH (method_xpath method))
      else UntilPresence (XPATH (method_xpath method)))"

definition quiet :: "('w, 'a) prog \<Rightarrow> bool" where
  "quiet m = (\<forall>s. milestones (snd (m s)) = milestones s)"

text \<open>
  A job page with an apply button, which the second search method finds (element 5), a
  description (element 2) and a form of one empty step (container 6) whose primary button
  (element 3) submits.
\<close>

definition apply_page :: "nat env" where
  "apply_page =
     plain_page
       \<lparr>drv_find_element :=
          (\<lambda>b w. if b = TAG_NAME ''html'' then (Inr 0, w)
                  else if b = CLASS_NAME ''jobs-description-content__text'' then (Inr 2, w)
                  else if b = CLASS_NAME ''artdeco-button--primary'' then (Inr 3, w)
                  else (Inl NoSuchElementException, w)),
        until_presence :=
          (\<lambda>b w. if b = XPATH (method_xpath (search_methods ! 1)) then (Inr 5, w)
                  else if b = CLASS_NAME ''jobs-easy-apply-content'' then (Inr 6, w)
                  else (Inl TimeoutException, w)),
        elem_text :=
          (\<lambda>el w. if el = 2 then (Inr ''We sell things.'', w)
                   else if el = 3 then (Inr ''Submit application'', w)
                   else (Inr [], w))\<rparr>"

text \<open>
  The same page with a form that never ends: its primary button reads \<open>Next\<close> on every
  step, and no step shows an error.
\<close>

definition endless_form :: "nat env" where
  "endless_form =
     apply_page
       \<lparr>elem_text :=
          (\<lambda>el w. if el = 2 then (Inr ''We sell things.'', w)
                   else if el = 3 then (Inr ''Next'', w)
                   else (Inr [], w))\<rparr>"

text \<open>A session whose browser cannot open any page.\<close>

definition offline :: "nat env" where
  "offline = plain_page\<lparr>drv_get := (\<lambda>url w. (Inl WebDriverException, w))\<rparr>"

text \<open>
  A page that lists two candidates for the first search method (elements 4 and 5), of
  which the first never becomes visible.
\<close>

definition listed_page :: "nat env" where
  "listed_page =
     plain_page
       \<lparr>drv_find_elements :=
          (\<lambda>b w. if b = XPATH (method_xpath (search_methods ! 0)) then (Inr [4, 5], w)
                  else (Inr [], w)),
        until_visibility :=
          (\<lambda>el w. if el = 4 then (Inl TimeoutException, w) else (Inr (), w))\<rparr>"

text \<open>Any of these pages, 1200 pixels high.\<close>

definition tall :: "nat env \<Rightarrow> nat env" where
  "tall env =
     env\<lparr>drv_execute_script :=
           (\<lambda>script args w.
              if script = ''arguments[0].scrollTop = %s;'' then (Inl JavascriptException, w)
              else if script = ''return arguments[0].scrollHeight'' then (Inr (JInt 1200), w)
              else (Inr JNull, w))\<rparr>"

text \<open>
  The page with the apply button and a form whose steps each ask for a resume: the step
  (element 7 of container 6) holds one file input (element 8) under a label that reads
  \<open>Upload resume\<close> (element 9). The world is the number of clicks made so far: the primary
  button reads \<open>Next\<close> until it has been clicked once and \<open>Submit application\<close> from then
  on, and the clock shows a second more with every click. Every file on this system is
  one byte over two mebibytes.
\<close>

definition resume_form :: "nat env" where
  "resume_form =
     apply_page
       \<lparr>drv_get := (\<lambda>url w. (Inr (), w)),
        drv_find_elements :=
          (\<lambda>b w. if b = XPATH ''//input[@type='file']'' then (Inr [8], w) else (Inr [], w)),
        elem_find_element :=
          (\<lambda>el b w. if el = 8 \<and> b = XPATH ''..'' then (Inr 9, w)
                     else (Inl NoSuchElementException, w)),
        elem_find_elements :=
          (\<lambda>el b w. if el = 6 \<and> b = CLASS_NAME ''pb4'' then (Inr [7], w)
                     else if el = 7 \<and> b = XPATH ''.//input[@type='file']'' then (Inr [8], w)
                     else (Inr [], w)),
        elem_click := (\<lambda>el w. (Inr (), Suc w)),
        elem_text :=
          (\<lambda>el w. if el = 2 then (Inr ''We sell things.'', w)
                   else if el = 3 then (Inr (if w = 0 then ''Next'' else ''Submit application''), w)
                   else if el = 9 then (Inr ''Upload resume'', w)
                   else (Inr [], w)),
        time_time := (\<lambda>w. (1700000000 + int w, w)),
        os_getsize := (\<lambda>p w. (Inr (2 * 1024 * 1024 + 1), w))\<rparr>"

text \<open>The events that generate a resume or hand a file to the page.\<close>

definition generation_or_upload :: "event \<Rightarrow> bool" where
  "generation_or_upload ev =
     (case ev of PdfBase64 _ \<Rightarrow> True | SendKeys _ _ \<Rightarrow> True | _ \<Rightarrow> False)"

text \<open>The events of a session that only opens pages and reads its location.\<close>

definition navigational :: "event \<Rightarrow> bool" where
  "navigational ev = (case ev of Get _ \<Rightarrow> True | CurrentUrl \<Rightarrow> True | _ \<Rightarrow> False)"

section \<open>Properties of the text normalisation\<close>

lemma ord_char_of: "n < 256 \<Longrightarrow> ord (char_of n) = n"
  by (simp add: ord_def)

lemma lower_char_idem: "lower_char (lower_char c) = lower_char c"
  by (auto simp: lower_char_def ord_char_of)

lemma set_rstrip_with: "set (rstrip_with p s) \<subseteq> set s"
  unfolding rstrip_with_def using set_dropWhileD by fastforce

lemma set_strip: "set (strip s) \<subseteq> set s"
  unfolding strip_def using set_rstrip_with set_dropWhileD by fastforce

lemma replace_char_del: "replace_char old [] s = filter (\<lambda>c. c \<noteq> old) s"
  by (induction s) (auto simp: replace_char_def)

lemma control_0A: "is_control (CHR 0x0A)" and control_0D: "is_control (CHR 0x0D)"
  by (simp_all add: is_control_def ord_def)

lemma replace_char_absent: "old \<notin> set s \<Longrightarrow> replace_char old new s = s"
  by (induction s) (auto simp: replace_char_def)

lemma sanitize_text_alt:
  "sanitize_text text = rstrip_with (\<lambda>c. c = CHR '','')
     (filter (\<lambda>c. \<not> is_control c) (filter (\<lambda>c. c \<noteq> CHR 0x5C) (filter (\<lambda>c. c \<noteq> CHR 0x22) (strip (lower text)))))"
proof -
  let ?t = "re_sub_control (replace_char (CHR 0x5C) [] (replace_char (CHR 0x22) [] (strip (lower text))))"
  have a: "CHR 0x0A \<notin> set ?t" "CHR 0x0D \<notin> set ?t"
    using control_0A control_0D by (auto simp: re_sub_control_def)
  have "replace_char (CHR 0x0A) '' '' ?t = ?t" using a by (simp add: replace_char_absent)
  moreover have "replace_char (CHR 0x0D) [] ?t = ?t" using a by (simp add: replace_char_absent)
  ultimately show ?thesis
    by (simp add: sanitize_text_def Let_def replace_char_del re_sub_control_def)
qed

lemma sanitize_text_clean: "c \<in> set (sanitize_text s) \<Longrightarrow> clean_char c"
proof -
  assume "c \<in> set (sanitize_text s)"
  then have "c \<in> set (filter (\<lambda>c. \<not> is_control c) (filter (\<lambda>c. c \<noteq> CHR 0x5C)
                 (filter (\<lambda>c. c \<noteq> CHR 0x22) (strip (lower s)))))"
    unfolding sanitize_text_alt using set_rstrip_with by blast
  then have c: "c \<in> set (strip (lower s))" "c \<noteq> CHR 0x22" "c \<noteq> CHR 0x5C" "\<not> is_control c"
    by auto
  from c(1) have "c \<in> set (lower s)" using set_strip by blast
  then have "lower_char c = c" by (auto simp: lower_def lower_char_idem)
  with c show ?thesis by (simp add: clean_char_def)
qed

lemma rstrip_with_idem: "rstrip_with p (rstrip_with p s) = rstrip_with p s"
  by (simp add: rstrip_with_def)

lemma sanitize_text_rstrip:
  "rstrip_with (\<lambda>c. c = CHR '','') (sanitize_text s) = sanitize_text s"
  by (simp add: sanitize_text_alt rstrip_with_idem)

lemma lower_clean: "\<forall>c \<in> set r. clean_char c \<Longrightarrow> lower r = r"
  by (induction r) (auto simp: lower_def clean_char_def)

lemma sanitize_text_on_clean:
  assumes "\<forall>c \<in> set r. clean_char c"
  shows "sanitize_text r = rstrip_with (\<lambda>c. c = CHR '','') (strip r)"
proof -
  have "\<forall>c \<in> set (strip r). clean_char c" using assms set_strip by blast
  then have "filter (\<lambda>c. \<not> is_control c) (filter (\<lambda>c. c \<noteq> CHR 0x5C) (filter (\<lambda>c. c \<noteq> CHR 0x22) (strip r))) = strip r"
    by (simp add: clean_char_def)
  then show ?thesis using lower_clean [OF assms] by (simp add: sanitize_text_alt)
qed

lemma length_rstrip_with: "length (rstrip_with p s) \<le> length s"
  by (simp add: rstrip_with_def length_dropWhile_le) (metis length_dropWhile_le length_rev)

lemma dropWhile_length_eq: "length (dropWhile p s) = length s \<Longrightarrow> dropWhile p s = s"
proof (cases s)
  case Nil
  then show ?thesis by simp
next
  case (Cons a t)
  assume l: "length (dropWhile p s) = length s"
  show ?thesis
  proof (cases "p a")
    case True
    then have "length (dropWhile p s) \<le> length t" using Cons by (simp add: length_dropWhile_le)
    with l Cons show ?thesis by simp
  next
    case False
    then show ?thesis using Cons by simp
  qed
qed

lemma rstrip_with_length_eq: "length (rstrip_with p s) = length s \<Longrightarrow> rstrip_with p s = s"
  unfolding rstrip_with_def by (metis dropWhile_length_eq length_rev rev_rev_ident)

lemma strip_length_eq: "length (strip s) = length s \<Longrightarrow> strip s = s"
proof -
  assume a: "length (strip s) = length s"
  have "length (strip s) \<le> length (dropWhile isspace s)" by (simp add: strip_def length_rstrip_with)
  moreover have "length (dropWhile isspace s) \<le> length s" by (rule length_dropWhile_le)
  ultimately have l: "length (dropWhile isspace s) = length s" using a by simp
  then have d: "dropWhile isspace s = s" by (rule dropWhile_length_eq)
  with a show ?thesis by (simp add: strip_def rstrip_with_length_eq)
qed

lemma length_strip: "length (strip s) \<le> length s"
  unfolding strip_def by (meson le_trans length_rstrip_with length_dropWhile_le)


text \<open>
  Claim C5, as the specification states it: for every question string \<open>s\<close>,
  normalising twice gives the same as normalising once. The source strips the outer
  white space before it deletes quotes, backslashes and control characters and before it
  removes the trailing commas, so a deletion can uncover white space that only a second
  pass strips: the string made of a double quote, a space and the letter a normalises to
  space-a, and that normalises to a.
\<close>

theorem sanitize_text_not_idempotent:
  "sanitize_text (sanitize_text (CHR 0x22 # '' a'')) \<noteq> sanitize_text (CHR 0x22 # '' a'')"
  by code_simp

text \<open>
  Claim C5, amended: normalising a normalised string changes nothing exactly when the
  normalised string neither starts nor ends with white space (that is, when stripping
  leaves it alone); in particular the normalisation is idempotent on every question
  whose normal form has no outer white space.
\<close>

theorem sanitize_text_idempotent_iff:
  "sanitize_text (sanitize_text s) = sanitize_text s \<longleftrightarrow> strip (sanitize_text s) = sanitize_text s"
proof -
  let ?r = "sanitize_text s"
  have cl: "\<forall>c \<in> set ?r. clean_char c" using sanitize_text_clean by blast
  have eq: "sanitize_text ?r = rstrip_with (\<lambda>c. c = CHR '','') (strip ?r)"
    by (rule sanitize_text_on_clean [OF cl])
  show ?thesis
  proof
    assume "sanitize_text ?r = ?r"
    then have "length ?r = length (rstrip_with (\<lambda>c. c = CHR '','') (strip ?r))" using eq by simp
    also have "\<dots> \<le> length (strip ?r)" by (rule length_rstrip_with)
    finally have "length (strip ?r) = length ?r" using length_strip [of ?r] by simp
    then show "strip ?r = ?r" by (rule strip_length_eq)
  next
    assume "strip ?r = ?r"
    then show "sanitize_text ?r = ?r" using eq sanitize_text_rstrip by simp
  qed
qed



section \<open>Properties of the answer file\<close>

lemma map_of_dict_update: "map_of (dict_update k v d) k = Some v"
  by (induction d) auto

text \<open>
  Claim C4, as the specification states it: whatever the answer file holds, the loader
  returns a list and lets no exception escape. The loader itself raises \<open>ValueError\<close> when
  the file decodes to a value that is not a list, and its outer handler turns that, like
  every exception but the two it names, into an \<open>Exception\<close> that leaves the loader: a file
  holding the JSON object \<open>{}\<close> is enough.
\<close>

theorem load_questions_from_json_object_raises:
  "load_questions_from_json (Some (Encodes (JObj []))) =
     Inl (ExceptionTb ''Error loading questions data from JSON file: ''
           (ValueError ''JSON file format is incorrect. Expected a list of questions.''))"
  by (simp add: load_questions_from_json_def open_r_def load_data_def json_load_def
      isinstance_list_def)

text \<open>
  Claim C4, amended: the loader returns the empty list when the file is absent or
  \<open>json.load\<close> rejects its text as not being JSON (\<open>JSONDecodeError\<close>), and the stored
  list when the contents decode to a list. It raises, and the exception leaves the
  loader, when the contents decode to anything but a list and when \<open>json.load\<close> rejects
  them with any other exception (bytes that are no text, nesting too deep, a number too
  long).
\<close>

theorem load_questions_from_json_cases:
  "load_questions_from_json None = Inr [] \<and>
   load_questions_from_json (Some (Rejects JSONDecodeError)) = Inr [] \<and>
   load_questions_from_json (Some (Encodes (JArr xs))) = Inr xs \<and>
   (\<not> isinstance_list v \<longrightarrow>
      load_questions_from_json (Some (Encodes v)) =
        Inl (ExceptionTb ''Error loading questions data from JSON file: ''
              (ValueError ''JSON file format is incorrect. Expected a list of questions.''))) \<and>
   (e \<noteq> JSONDecodeError \<and> e \<noteq> FileNotFoundError \<longrightarrow>
      load_questions_from_json (Some (Rejects e)) =
        Inl (ExceptionTb ''Error loading questions data from JSON file: '' e))"
proof -
  have "e \<noteq> JSONDecodeError \<and> e \<noteq> FileNotFoundError \<longrightarrow>
      load_questions_from_json (Some (Rejects e)) =
        Inl (ExceptionTb ''Error loading questions data from JSON file: '' e)"
    by (cases e) (simp_all add: load_questions_from_json_def open_r_def load_data_def json_load_def)
  then show ?thesis
    by (simp add: load_questions_from_json_def open_r_def load_data_def json_load_def
        isinstance_list_def list_items_def)
qed

theorem load_questions_from_json_cases_witness:
  "load_questions_from_json None = Inr [] \<and>
   load_questions_from_json (Some (Rejects JSONDecodeError)) = Inr [] \<and>
   load_questions_from_json (Some (Encodes (JArr [JStr ''q'']))) = Inr [JStr ''q''] \<and>
   \<not> isinstance_list (JInt 7) \<and>
   load_questions_from_json (Some (Encodes (JInt 7))) =
     Inl (ExceptionTb ''Error loading questions data from JSON file: ''
           (ValueError ''JSON file format is incorrect. Expected a list of questions.'')) \<and>
   UnicodeDecodeError \<noteq> JSONDecodeError \<and> UnicodeDecodeError \<noteq> FileNotFoundError \<and>
   load_questions_from_json (Some (Rejects UnicodeDecodeError)) =
     Inl (ExceptionTb ''Error loading questions data from JSON file: '' UnicodeDecodeError)"
  using load_questions_from_json_cases [of "[JStr ''q'']" "JInt 7" UnicodeDecodeError]
  by (simp add: isinstance_list_def)

text \<open>
  Claim C3, as the specification states it: a new answer is appended under its normalised
  question, and the append is skipped when the store already holds an entry with the same
  normalised question. The saver never looks at the entries it has read: saving the
  question \<open>Q?\<close> into a store that already holds \<open>q?\<close> leaves two equal entries.
\<close>

theorem save_questions_to_json_duplicates:
  "save_questions_to_json [(''question'', JStr ''Q?''), (''answer'', JStr ''yes'')]
     (Some (Encodes (JArr [JObj [(''question'', JStr ''q?''), (''answer'', JStr ''yes'')]]))) =
   (Inr (), [(''question'', JStr ''q?''), (''answer'', JStr ''yes'')],
    Some (Encodes (JArr [JObj [(''question'', JStr ''q?''), (''answer'', JStr ''yes'')],
                         JObj [(''question'', JStr ''q?''), (''answer'', JStr ''yes'')]])))"
  by code_simp

text \<open>
  Claim C3, amended: when the question of the new record is a string and the store loads
  (as the list \<open>data\<close>), the saver writes back \<open>data\<close> followed by the new record, whose
  question is the normalised text; it does so whether or not \<open>data\<close> already holds that
  question.
\<close>

theorem save_questions_to_json_appends:
  assumes "map_of question_data ''question'' = Some (JStr q)"
      and "load_questions_from_json f = Inr data"
  shows "\<exists>saved. map_of saved ''question'' = Some (JStr (sanitize_text q)) \<and>
           saved = dict_update ''question'' (JStr (sanitize_text q)) question_data \<and>
           save_questions_to_json question_data f =
             (Inr (), saved, Some (Encodes (JArr (data @ [JObj saved]))))"
proof -
  have "(case (case open_r f of Inl e \<Rightarrow> Inl e | Inr t \<Rightarrow> load_data t) of
           Inl FileNotFoundError \<Rightarrow> Inr [] | r \<Rightarrow> r) = Inr data"
    using assms(2)
    by (auto simp: load_questions_from_json_def open_r_def
        split: option.splits sum.splits exn.splits)
  then show ?thesis using assms(1)
    by (simp add: save_questions_to_json_def Let_def map_of_dict_update)
qed

theorem save_questions_to_json_appends_witness:
  "\<exists>saved. map_of saved ''question'' = Some (JStr (sanitize_text ''Q?'')) \<and>
     saved = dict_update ''question'' (JStr (sanitize_text ''Q?'')) [(''question'', JStr ''Q?'')] \<and>
     save_questions_to_json [(''question'', JStr ''Q?'')]
         (Some (Encodes (JArr [JObj [(''question'', JStr ''q?'')]]))) =
       (Inr (), saved, Some (Encodes (JArr ([JObj [(''question'', JStr ''q?'')]] @ [JObj saved]))))"
  by (rule save_questions_to_json_appends)
    (simp_all add: load_questions_from_json_def open_r_def load_data_def json_load_def
      isinstance_list_def list_items_def)


section \<open>Properties of the programs\<close>

lemma random_choice_in:
  assumes "seq \<noteq> []"
  shows "\<exists>a s'. random_choice env seq s = (Inr a, s') \<and> a \<in> set seq"
  using assms
  by (auto simp: random_choice_def bind_def call_total_def return_def split: prod.splits)

lemma bind_Inr:
  "bind m f s = (Inr b, s') \<longleftrightarrow> (\<exists>x s1. m s = (Inr x, s1) \<and> f x s1 = (Inr b, s'))"
  by (auto simp: bind_def split: prod.splits sum.splits)

lemma call_eq:
  "call ev operation s =
     (fst (operation (world s)), s\<lparr>world := snd (operation (world s)), trace := trace s @ [ev]\<rparr>)"
  by (simp add: call_def split: prod.splits)

lemma jobs_call [simp]: "jobs (snd (call ev operation s)) = jobs s"
  by (simp add: call_eq)

lemma trace_call [simp]: "trace (snd (call ev operation s)) = trace s @ [ev]"
  by (simp add: call_eq)

lemma fst_call [simp]: "fst (call ev operation s) = fst (operation (world s))"
  by (simp add: call_eq)

section \<open>Properties of the answerer\<close>

text \<open>
  Claim C9: for every options list that is not empty, \<open>answer_question_from_options\<close>
  returns an element of the list, whatever the endpoint answers (an exception, an error
  status, a body that is not JSON or not a dictionary, an answer outside the list): it
  does not raise and returns nothing else. The configured model type is a string, as the
  constructor's default is.
\<close>

theorem answer_question_from_options_in_options:
  assumes "options \<noteq> []" and "llm_model_type self = JStr t"
  shows "\<exists>a s'. answer_question_from_options env self question_text options s = (Inr a, s')
            \<and> a \<in> set options"
proof -
  let ?inner = "bind (http_post env self
                      (JObj [(''prompt'', JStr question_text),
                             (''options'', JArr (map JStr options)),
                             (''model'', llm_model self)])) (\<lambda>response.
              bind (raise_for_status response) (\<lambda>_.
              bind (response_json response) (\<lambda>data.
              bind (dict_get data ''answer'' (JStr [])) (\<lambda>gemini_answer.
                case gemini_answer of
                  JStr a \<Rightarrow> if a \<in> set options then return a else random_choice env options
                | _ \<Rightarrow> random_choice env options))))"
  have rc: "\<And>s0. \<exists>a s'. random_choice env options s0 = (Inr a, s') \<and> a \<in> set options"
    using random_choice_in [OF assms(1)] by blast
  have inner: "a \<in> set options" if "?inner s = (Inr a, s')" for a s'
  proof -
    from that obtain g s1 where
      g: "(case g of JStr a \<Rightarrow> if a \<in> set options then return a else random_choice env options
                    | _ \<Rightarrow> random_choice env options) s1 = (Inr a, s')"
      unfolding bind_Inr by blast
    show ?thesis
    proof (cases "\<exists>b. g = JStr b \<and> b \<in> set options")
      case True
      with g show ?thesis by (auto simp: return_def)
    next
      case False
      then have "random_choice env options s1 = (Inr a, s')"
        using g by (auto split: json.splits if_splits)
      with rc [of s1] show ?thesis by auto
    qed
  qed
  have c: "\<exists>a s'. catch ?inner (\<lambda>e. random_choice env options) s = (Inr a, s') \<and> a \<in> set options"
  proof (cases "?inner s")
    case (Pair r s1)
    show ?thesis
    proof (cases r)
      case (Inl e)
      with Pair rc [of s1] show ?thesis by (auto simp: catch_def)
    next
      case (Inr a)
      with Pair inner [of a s1] show ?thesis by (auto simp: catch_def)
    qed
  qed
  show ?thesis
    unfolding answer_question_from_options_def
    using c rc [of s]
    by (simp add: assms(2) str_lower_def bind_def return_def)
qed

theorem answer_question_from_options_in_options_witness:
  "[''Yes'', ''No''] \<noteq> [] \<and> llm_model_type gemini = JStr ''gemini'' \<and>
   (\<exists>a s'. answer_question_from_options plain_page gemini ''Are you authorized to work?''
              [''Yes'', ''No''] start = (Inr a, s')
            \<and> a \<in> set [''Yes'', ''No''])"
  using answer_question_from_options_in_options
          [of "[''Yes'', ''No'']" gemini "''gemini''" plain_page "''Are you authorized to work?''" start]
  by (simp add: gemini_def)


section \<open>Properties of the recruiter lookup\<close>

text \<open>
  Claim C10: \<open>_get_job_recruiter\<close> never raises. Whatever the page does, it returns a
  string, and the string is empty unless the hiring-team heading was found, an anchor was
  found after it, and reading the anchor's \<open>href\<close> succeeded (the string is then that
  attribute).
\<close>

theorem get_job_recruiter_never_raises:
  \<open>\<exists>r s'. get_job_recruiter env s = (Inr r, s') \<and>
     (r \<noteq> [] \<longrightarrow>
        (\<exists>section s1 anchor anchors s2.
           wait_presence env (XPATH ''//h2[text()="Meet the hiring team"]'') s = (Inr section, s1) \<and>
           element_find_elements env section
             (XPATH ''.//following::a[contains(@href, "linkedin.com/in/")]'') s1 = (Inr (anchor # anchors), s2) \<and>
           get_attribute env anchor ''href'' s2 = (Inr r, s')))\<close>
  unfolding get_job_recruiter_def
  by (auto simp: catch_def bind_def return_def split: prod.splits sum.splits list.splits)

theorem get_job_recruiter_never_raises_witness:
  \<open>\<exists>s'. get_job_recruiter plain_page start = (Inr [], s')\<close>
  using get_job_recruiter_never_raises [of plain_page start]
  by (auto simp: plain_page_def call_eq)

section \<open>Properties of the redirect guard\<close>

lemma revisit_trace:
  "trace (revisit env job k s) = trace s @ concat (replicate k [CurrentUrl, Get (link (jobs s job))])
   \<and> jobs (revisit env job k s) = jobs s"
  by (induction k arbitrary: s) (simp_all add: Let_def)

lemma premium_loop_run:
  assumes nav: "\<And>url w. fst (drv_get env url w) = Inr ()"
      and rd: "\<And>w. \<exists>u. fst (drv_current_url env w) = Inr u"
  shows "max_attempts - attempts = int n \<Longrightarrow> k \<le> n \<Longrightarrow>
         driver_current_url env s0 = (Inr u, s) \<Longrightarrow>
         (\<forall>j<k. premium (location env job j s0)) \<Longrightarrow>
         (\<not> premium (location env job k s0) \<or> k = n) \<Longrightarrow>
         premium_loop env job max_attempts u attempts s =
           (Inr (location env job k s0), snd (driver_current_url env (revisit env job k s0)))"
proof (induction k arbitrary: n attempts s0 u s)
  case 0
  then have "location env job 0 s0 = u" by (simp add: location_def)
  with 0 show ?case by (auto simp: premium_loop.simps)
next
  case (Suc k)
  have u: "location env job 0 s0 = u" using Suc.prems(3) by (simp add: location_def)
  then have pu: "premium u" using Suc.prems(4) by auto
  have lt: "attempts < max_attempts" using Suc.prems(1,2) by linarith
  obtain s1 where s1: "driver_get env (link (jobs s job)) s = (Inr (), s1)"
    using nav by (metis fst_call prod.collapse)
  obtain u1 s2 where s2: "driver_current_url env s1 = (Inr u1, s2)"
    using rd by (metis fst_call prod.collapse)
  have rv: "revisit env job (Suc j) s0 = revisit env job j s1" for j
    using Suc.prems(3) s1 by (simp add: Let_def)
  then have loc: "location env job (Suc j) s0 = location env job j s1" for j
    by (simp add: location_def)
  have "premium_loop env job max_attempts u1 (attempts + 1) s2 =
          (Inr (location env job k s1), snd (driver_current_url env (revisit env job k s1)))"
  proof (rule Suc.IH [of "attempts + 1" "n - 1"])
    show "max_attempts - (attempts + 1) = int (n - 1)" using Suc.prems(1,2) by linarith
    show "k \<le> n - 1" using Suc.prems(2) by linarith
    show "driver_current_url env s1 = (Inr u1, s2)" by (rule s2)
    show "\<forall>j<k. premium (location env job j s1)" using Suc.prems(4) loc by (metis Suc_mono)
    show "\<not> premium (location env job k s1) \<or> k = n - 1" using Suc.prems(5) loc by auto
  qed
  then show ?case using pu lt s1 s2 rv loc by (simp add: premium_loop.simps)
qed

lemma premium_premium_page: "premium premium_page"
  unfolding premium_def premium_page_def by code_simp

lemma not_premium_job_page: "\<not> premium job_page"
  unfolding premium_def job_page_def by code_simp

text \<open>
  Claim C6: on a session whose navigations and location reads succeed, the guard with the
  cap of 3 behaves as follows. When the location matches the premium pattern at the first
  check and at the checks after each of three navigations to the job's link, the guard
  raises, and it does so at the third re-check: the session has then made exactly three
  navigations and four reads. When the location stops matching at check \<open>k\<close> (\<open>k\<close> from 0
  to 3, the checks before it matching), the guard returns without raising after exactly
  \<open>k\<close> navigations.
\<close>

theorem check_for_premium_redirect_cap:
  assumes nav: "\<And>url w. fst (drv_get env url w) = Inr ()"
      and rd: "\<And>w. \<exists>u. fst (drv_current_url env w) = Inr u"
  shows "((\<forall>k\<le>3. premium (location env job k s)) \<longrightarrow>
            check_for_premium_redirect env job 3 s =
              (Inl (Exception ''Redirected to Premium page and failed to return to job page.''),
               snd (driver_current_url env (revisit env job 3 s))))
       \<and> (\<forall>k\<le>3. (\<forall>j<k. premium (location env job j s)) \<and> \<not> premium (location env job k s) \<longrightarrow>
            check_for_premium_redirect env job 3 s =
              (Inr (), snd (driver_current_url env (revisit env job k s))))
       \<and> (\<forall>k. trace (snd (driver_current_url env (revisit env job k s))) =
                 trace s @ concat (replicate k [CurrentUrl, Get (link (jobs s job))]) @ [CurrentUrl])"
proof (intro conjI allI impI)
  obtain u s1 where rd0: "driver_current_url env s = (Inr u, s1)"
    using rd by (metis fst_call prod.collapse)
  note run = premium_loop_run [OF nav rd, where max_attempts = 3 and attempts = 0 and n = 3
                                and ?s0.0 = s and u = u and s = s1 and job = job]
  {
    assume all: "\<forall>k\<le>3. premium (location env job k s)"
    have "premium_loop env job 3 u 0 s1 =
            (Inr (location env job 3 s), snd (driver_current_url env (revisit env job 3 s)))"
      by (rule run) (use all rd0 in auto)
    then show "check_for_premium_redirect env job 3 s =
              (Inl (Exception ''Redirected to Premium page and failed to return to job page.''),
               snd (driver_current_url env (revisit env job 3 s)))"
      using all rd0 by (simp add: check_for_premium_redirect_def bind_def raise_def)
  }
  {
    fix k :: nat
    assume k: "k \<le> 3"
       and st: "(\<forall>j<k. premium (location env job j s)) \<and> \<not> premium (location env job k s)"
    have "premium_loop env job 3 u 0 s1 =
            (Inr (location env job k s), snd (driver_current_url env (revisit env job k s)))"
      by (rule run) (use k st rd0 in auto)
    then show "check_for_premium_redirect env job 3 s =
              (Inr (), snd (driver_current_url env (revisit env job k s)))"
      using st rd0 by (simp add: check_for_premium_redirect_def bind_def return_def)
  }
  {
    fix k
    show "trace (snd (driver_current_url env (revisit env job k s))) =
            trace s @ concat (replicate k [CurrentUrl, Get (link (jobs s job))]) @ [CurrentUrl]"
      by (simp add: revisit_trace)
  }
qed

theorem check_for_premium_redirect_cap_witness:
  "check_for_premium_redirect premium_wall 0 3 start =
     (Inl (Exception ''Redirected to Premium page and failed to return to job page.''),
      snd (driver_current_url premium_wall (revisit premium_wall 0 3 start)))
   \<and> trace (snd (driver_current_url premium_wall (revisit premium_wall 0 3 start))) =
       [CurrentUrl, Get job_page, CurrentUrl, Get job_page, CurrentUrl, Get job_page, CurrentUrl]
   \<and> check_for_premium_redirect premium_twice 0 3 start =
       (Inr (), snd (driver_current_url premium_twice (revisit premium_twice 0 2 start)))
   \<and> trace (snd (driver_current_url premium_twice (revisit premium_twice 0 2 start))) =
       [CurrentUrl, Get job_page, CurrentUrl, Get job_page, CurrentUrl]"
proof -
  have nav1: "\<And>url w. fst (drv_get premium_wall url w) = Inr ()"
    by (simp add: premium_wall_def plain_page_def)
  have rd1: "\<And>w. \<exists>u. fst (drv_current_url premium_wall w) = Inr u"
    by (simp add: premium_wall_def)
  have nav2: "\<And>url w. fst (drv_get premium_twice url w) = Inr ()"
    by (simp add: premium_twice_def plain_page_def)
  have rd2: "\<And>w. \<exists>u. fst (drv_current_url premium_twice w) = Inr u"
    by (simp add: premium_twice_def)
  have wall: "\<forall>k\<le>3. premium (location premium_wall 0 k start)"
    by (simp add: location_def premium_wall_def premium_premium_page)
  have l0: "location premium_twice 0 0 start = premium_page"
    by (simp add: location_def premium_twice_def plain_page_def start_def call_eq)
  have l1: "location premium_twice 0 1 start = premium_page"
    by (simp add: location_def premium_twice_def plain_page_def start_def call_eq Let_def)
  have l2: "location premium_twice 0 2 start = job_page"
    by (simp add: location_def premium_twice_def plain_page_def start_def call_eq Let_def
        eval_nat_numeral)
  have twice: "(\<forall>j<2. premium (location premium_twice 0 j start))
               \<and> \<not> premium (location premium_twice 0 2 start)"
    using l0 l1 l2 premium_premium_page not_premium_job_page
    by (auto simp: less_Suc_eq eval_nat_numeral)
  have lk: "link (jobs start 0) = job_page" by (simp add: start_def sample_job_def)
  note a = check_for_premium_redirect_cap [OF nav1 rd1, of 0 start]
  note b = check_for_premium_redirect_cap [OF nav2 rd2, of 0 start]
  have tr: "trace start = []" by (simp add: start_def)
  have a1: "check_for_premium_redirect premium_wall 0 3 start =
     (Inl (Exception ''Redirected to Premium page and failed to return to job page.''),
      snd (driver_current_url premium_wall (revisit premium_wall 0 3 start)))"
    using a wall by blast
  have a2: "trace (snd (driver_current_url premium_wall (revisit premium_wall 0 3 start))) =
       [CurrentUrl, Get job_page, CurrentUrl, Get job_page, CurrentUrl, Get job_page, CurrentUrl]"
    using conjunct2 [OF conjunct2 [OF a], THEN spec, of 3] lk tr
    by (simp add: eval_nat_numeral)
  have b1: "check_for_premium_redirect premium_twice 0 3 start =
       (Inr (), snd (driver_current_url premium_twice (revisit premium_twice 0 2 start)))"
    using conjunct1 [OF conjunct2 [OF b], THEN spec, of 2] twice by simp
  have b2: "trace (snd (driver_current_url premium_twice (revisit premium_twice 0 2 start))) =
       [CurrentUrl, Get job_page, CurrentUrl, Get job_page, CurrentUrl]"
    using conjunct2 [OF conjunct2 [OF b], THEN spec, of 2] lk tr
    by (simp add: eval_nat_numeral)
  show ?thesis using a1 a2 b1 b2 by simp
qed


section \<open>Properties of the locator\<close>

lemma milestones_call:
  "milestones (snd (call ev operation s)) = milestones s @ (if milestone ev then [ev] else [])"
  by (simp add: milestones_def call_def split: prod.splits)

lemma quiet_call: "\<not> milestone ev \<Longrightarrow> quiet (call ev operation)"
  by (simp add: quiet_def milestones_call)

lemma quiet_return: "quiet (return x)"
  by (simp add: quiet_def return_def)

lemma quiet_raise: "quiet (raise e)"
  by (simp add: quiet_def raise_def)

lemma quiet_D: "quiet m \<Longrightarrow> m s = (r, s') \<Longrightarrow> milestones s' = milestones s"
  unfolding quiet_def by (metis snd_conv)

lemma quiet_bind:
  assumes "quiet m" and "\<And>x. quiet (f x)"
  shows "quiet (bind m f)"
  unfolding quiet_def
proof
  fix s
  obtain r s1 where m: "m s = (r, s1)" by (cases "m s")
  have m1: "milestones s1 = milestones s" using quiet_D [OF assms(1) m] .
  show "milestones (snd (bind m f s)) = milestones s"
  proof (cases r)
    case (Inl e)
    with m m1 show ?thesis by (simp add: bind_def)
  next
    case (Inr x)
    obtain r2 s2 where f: "f x s1 = (r2, s2)" by (cases "f x s1")
    have "milestones s2 = milestones s1" using quiet_D [OF assms(2) f] .
    with Inr m m1 f show ?thesis by (simp add: bind_def)
  qed
qed

lemma quiet_for_each:
  assumes "\<And>x. quiet (f x)"
  shows "quiet (for_each f xs)"
  unfolding quiet_def
proof
  fix s
  show "milestones (snd (for_each f xs s)) = milestones s"
  proof (induction xs arbitrary: s)
    case Nil
    then show ?case by simp
  next
    case (Cons x xs)
    obtain r s1 where f: "f x s = (r, s1)" by (cases "f x s")
    have m1: "milestones s1 = milestones s" using quiet_D [OF assms f] .
    show ?case
    proof (cases r)
      case (Inl e)
      with f m1 show ?thesis by simp
    next
      case (Inr u)
      with f m1 Cons.IH [of s1] show ?thesis by simp
    qed
  qed
qed

lemma not_milestone [simp]:
  "\<not> milestone (Get url)" "\<not> milestone CurrentUrl" "\<not> milestone (ExecuteScript sc args)"
  "\<not> milestone PageSource" "\<not> milestone (FindElement b)" "\<not> milestone (UntilVisibility el)"
  "\<not> milestone (UntilClickable el)"
  by (simp_all add: milestone_def)


lemma quiet_premium_loop: "quiet (premium_loop env job max_attempts current_url attempts)"
  unfolding quiet_def
proof
  fix s
  show "milestones (snd (premium_loop env job max_attempts current_url attempts s)) = milestones s"
  proof (induction env job max_attempts current_url attempts s rule: premium_loop.induct)
    case (1 env job max_attempts current_url attempts s)
    show ?case
    proof (cases "premium current_url \<and> attempts < max_attempts")
      case False
      then have "premium_loop env job max_attempts current_url attempts s = (Inr current_url, s)"
        by (subst premium_loop.simps) auto
      then show ?thesis by simp
    next
      case True
      obtain r1 s1 where g: "driver_get env (link (jobs s job)) s = (r1, s1)"
        by (cases "driver_get env (link (jobs s job)) s")
      have m1: "milestones s1 = milestones s"
        using quiet_D [OF quiet_call g] by simp
      show ?thesis
      proof (cases r1)
        case (Inl e)
        with True g m1 show ?thesis by (simp add: premium_loop.simps)
      next
        case (Inr x)
        note r1 = this
        obtain r2 s2 where c: "driver_current_url env s1 = (r2, s2)"
          by (cases "driver_current_url env s1")
        have m2: "milestones s2 = milestones s1"
          using quiet_D [OF quiet_call c] by simp
        show ?thesis
        proof (cases r2)
          case (Inl e)
          with True g r1 c m1 m2 show ?thesis by (simp add: premium_loop.simps)
        next
          case (Inr u)
          have "milestones (snd (premium_loop env job max_attempts u (attempts + 1) s2)) = milestones s2"
            using "1.IH" [OF True] g r1 c Inr by simp
          with True g r1 c Inr m1 m2 show ?thesis
            by (simp add: premium_loop.simps [of env job max_attempts current_url attempts s])
        qed
      qed
    qed
  qed
qed

lemma quiet_check_for_premium_redirect: "quiet (check_for_premium_redirect env job max_attempts)"
  unfolding check_for_premium_redirect_def
  by (intro quiet_bind quiet_call quiet_premium_loop) (simp_all add: quiet_raise quiet_return)

lemma quiet_as_index: "quiet (as_index v)"
  by (cases v) (simp_all add: as_index_def quiet_return quiet_raise)

lemma quiet_scroll_slow: "quiet (scroll_slow env el step reverse)"
  unfolding scroll_slow_def
  by (intro quiet_bind quiet_call quiet_as_index quiet_for_each)
    (simp_all add: quiet_raise quiet_return)

lemma quiet_scroll_page: "quiet (scroll_page env)"
  unfolding scroll_page_def
  by (intro quiet_bind quiet_call quiet_scroll_slow) simp

lemma quiet_first_clickable: "quiet (first_clickable env buttons)"
  unfolding quiet_def
proof
  fix s
  show "milestones (snd (first_clickable env buttons s)) = milestones s"
  proof (induction buttons arbitrary: s)
    case Nil
    then show ?case by simp
  next
    case (Cons button buttons)
    have q: "quiet (bind (wait_visibility env button) (\<lambda>_. wait_clickable env button))"
      by (intro quiet_bind quiet_call) simp_all
    obtain r s1 where w: "bind (wait_visibility env button) (\<lambda>_. wait_clickable env button) s = (r, s1)"
      by (cases "bind (wait_visibility env button) (\<lambda>_. wait_clickable env button) s")
    have m1: "milestones s1 = milestones s" using quiet_D [OF q w] .
    show ?case
    proof (cases r)
      case (Inl e)
      with w m1 Cons.IH [of s1] show ?thesis by simp
    next
      case (Inr u)
      with w m1 show ?thesis by simp
    qed
  qed
qed

lemma try_method_run:
  "\<exists>found s'. try_method env method s = (Inr found, s') \<and> milestones s' = milestones s @ [lookup method]"
proof (cases "method_find_elements method")
  case True
  let ?b = "XPATH (method_xpath method)"
  obtain r s1 where f: "driver_find_elements env ?b s = (r, s1)"
    by (cases "driver_find_elements env ?b s")
  have m1: "milestones s1 = milestones s @ [lookup method]"
    using f milestones_call [of "FindElements ?b" "drv_find_elements env ?b" s] True
    by (simp add: lookup_def milestone_def)
  show ?thesis
  proof (cases r)
    case (Inl e)
    with True f m1 show ?thesis by (simp add: try_method_def catch_def bind_def return_def)
  next
    case (Inr buttons)
    have q: "quiet (\<lambda>s. if buttons \<noteq> [] then first_clickable env buttons s else return None s)"
      using quiet_first_clickable [of env buttons] quiet_return [of None]
      by (cases "buttons = []") (simp_all add: quiet_def)
    obtain r2 s2 where g: "(if buttons \<noteq> [] then first_clickable env buttons s1 else return None s1) = (r2, s2)"
      by (cases "if buttons \<noteq> [] then first_clickable env buttons s1 else return None s1")
    have m2: "milestones s2 = milestones s1" using quiet_D [OF q g] .
    show ?thesis
      using True f Inr g m1 m2
      by (cases r2) (auto simp: try_method_def catch_def bind_def return_def split: if_splits)
  qed
next
  case False
  let ?b = "XPATH (method_xpath method)"
  obtain r s1 where f: "wait_presence env ?b s = (r, s1)"
    by (cases "wait_presence env ?b s")
  have m1: "milestones s1 = milestones s @ [lookup method]"
    using f milestones_call [of "UntilPresence ?b" "until_presence env ?b" s] False
    by (simp add: lookup_def milestone_def)
  show ?thesis
  proof (cases r)
    case (Inl e)
    with False f m1 show ?thesis by (simp add: try_method_def catch_def bind_def return_def)
  next
    case (Inr button)
    let ?rest = "\<lambda>b. bind (wait_visibility env b) (\<lambda>_. bind (wait_clickable env b) (\<lambda>_. return (Some b)))"
    have q: "quiet (?rest button)"
      by (intro quiet_bind quiet_call quiet_return) simp_all
    obtain r2 s2 where g: "?rest button s1 = (r2, s2)" by (cases "?rest button s1")
    have m2: "milestones s2 = milestones s1" using quiet_D [OF q g] .
    have "try_method env method s = catch (bind (wait_presence env ?b) ?rest) (\<lambda>e. return None) s"
      using False by (simp add: try_method_def)
    also have "\<dots> = (case ?rest button s1 of (Inl e, s2) \<Rightarrow> return None s2 | (Inr x, s2) \<Rightarrow> (Inr x, s2))"
      using f Inr by (simp add: catch_def bind_def [of "wait_presence env ?b"])
    finally show ?thesis using g m1 m2 by (cases r2) (simp_all add: return_def)
  qed
qed

lemma try_methods_run:
  "\<exists>found s' k. try_methods env ms s = (Inr found, s') \<and> k \<le> length ms \<and>
      milestones s' = milestones s @ map lookup (take k ms) \<and>
      (found = None \<longrightarrow> k = length ms)"
proof (induction ms arbitrary: s)
  case Nil
  then show ?case by simp
next
  case (Cons m ms)
  obtain found s1 where t: "try_method env m s = (Inr found, s1)"
      and m1: "milestones s1 = milestones s @ [lookup m]"
    using try_method_run by blast
  show ?case
  proof (cases found)
    case (Some button)
    with t m1 have "try_methods env (m # ms) s = (Inr (Some button), s1) \<and>
       Suc 0 \<le> length (m # ms) \<and>
       milestones s1 = milestones s @ map lookup (take (Suc 0) (m # ms))"
      by simp
    then show ?thesis by blast
  next
    case None
    obtain found2 s2 k where r: "try_methods env ms s1 = (Inr found2, s2)"
       and k: "k \<le> length ms"
       and m2: "milestones s2 = milestones s1 @ map lookup (take k ms)"
       and n: "found2 = None \<longrightarrow> k = length ms"
      using Cons.IH [of s1] by blast
    have "try_methods env (m # ms) s = (Inr found2, s2) \<and>
       Suc k \<le> length (m # ms) \<and>
       milestones s2 = milestones s @ map lookup (take (Suc k) (m # ms)) \<and>
       (found2 = None \<longrightarrow> Suc k = length (m # ms))"
      using t None r k m1 m2 n by simp
    then show ?thesis by blast
  qed
qed

lemma guard_passes:
  assumes url: "\<And>w. \<exists>u. fst (drv_current_url env w) = Inr u \<and> \<not> premium u"
  shows "\<exists>s'. check_for_premium_redirect env job max_attempts s = (Inr (), s') \<and> milestones s' = milestones s"
proof -
  obtain u where u: "fst (drv_current_url env (world s)) = Inr u" and np: "\<not> premium u"
    using url by blast
  obtain s1 where c: "driver_current_url env s = (Inr u, s1)"
    using u by (simp add: call_eq)
  have "premium_loop env job max_attempts u 0 s1 = (Inr u, s1)"
    using np by (simp add: premium_loop.simps)
  then have "check_for_premium_redirect env job max_attempts s = (Inr (), s1)"
    using c np by (simp add: check_for_premium_redirect_def bind_def return_def)
  moreover have "milestones s1 = milestones s"
    using quiet_D [OF quiet_call c] by simp
  ultimately show ?thesis by blast
qed

lemma search_round:
  assumes url: "\<And>w. \<exists>u. fst (drv_current_url env w) = Inr u \<and> \<not> premium u"
      and scroll: "\<And>s. fst (scroll_page env s) = Inr ()"
      and none: "\<And>s. fst (try_methods env search_methods s) = Inr None"
  shows "\<exists>s'. bind (check_for_premium_redirect env job 3) (\<lambda>_.
               bind (scroll_page env) (\<lambda>_. try_methods env search_methods)) s = (Inr None, s')
            \<and> milestones s' = milestones s @ map lookup search_methods"
proof -
  obtain s1 where g: "check_for_premium_redirect env job 3 s = (Inr (), s1)"
      and m1: "milestones s1 = milestones s"
    using guard_passes [OF url] by blast
  obtain s2 where sc: "scroll_page env s1 = (Inr (), s2)"
    using scroll [of s1] by (cases "scroll_page env s1") simp
  have m2: "milestones s2 = milestones s1" using quiet_D [OF quiet_scroll_page sc] .
  obtain found s3 k where t: "try_methods env search_methods s2 = (Inr found, s3)"
      and m3: "milestones s3 = milestones s2 @ map lookup (take k search_methods)"
      and n: "found = None \<longrightarrow> k = length search_methods"
    using try_methods_run by blast
  have f: "found = None" using none [of s2] t by simp
  with n m3 have m3': "milestones s3 = milestones s2 @ map lookup search_methods" by simp
  have "bind (check_for_premium_redirect env job 3) (\<lambda>_.
               bind (scroll_page env) (\<lambda>_. try_methods env search_methods)) s = (Inr None, s3)"
    using g sc t f by (simp add: bind_def)
  with m1 m2 m3' show ?thesis by simp
qed

lemma between_rounds:
  assumes url: "\<And>w. \<exists>u. fst (drv_current_url env w) = Inr u \<and> \<not> premium u"
      and refresh: "\<And>w. fst (drv_refresh env w) = Inr ()"
  shows "\<exists>s'. bind (check_for_premium_redirect env job 3) (\<lambda>_.
                 if attempt = (0::int) then driver_refresh env else return ()) s = (Inr (), s')
            \<and> milestones s' = milestones s @ (if attempt = 0 then [Refresh] else [])"
proof -
  obtain s1 where g: "check_for_premium_redirect env job 3 s = (Inr (), s1)"
      and m1: "milestones s1 = milestones s"
    using guard_passes [OF url] by blast
  show ?thesis
  proof (cases "attempt = 0")
    case True
    obtain s2 where r: "driver_refresh env s1 = (Inr (), s2)"
      using refresh [of "world s1"] by (simp add: call_eq)
    have "milestones s2 = milestones s1 @ [Refresh]"
      using milestones_call [of Refresh "drv_refresh env" s1] r by (simp add: milestone_def)
    with True g r m1 show ?thesis by (simp add: bind_def)
  next
    case False
    with g m1 show ?thesis by (simp add: bind_def return_def)
  qed
qed

lemma find_rounds_none:
  assumes url: "\<And>w. \<exists>u. fst (drv_current_url env w) = Inr u \<and> \<not> premium u"
      and scroll: "\<And>s. fst (scroll_page env s) = Inr ()"
      and none: "\<And>s. fst (try_methods env search_methods s) = Inr None"
      and refresh: "\<And>w. fst (drv_refresh env w) = Inr ()"
  shows "\<exists>s'. find_rounds env job 0 s = (Inr None, s')
            \<and> milestones s' = milestones s @ map lookup search_methods @ [Refresh] @ map lookup search_methods"
proof -
  obtain s1 where a1: "bind (check_for_premium_redirect env job 3) (\<lambda>_.
               bind (scroll_page env) (\<lambda>_. try_methods env search_methods)) s = (Inr None, s1)"
     and m1: "milestones s1 = milestones s @ map lookup search_methods"
    using search_round [OF url scroll none] by blast
  obtain s2 where a2: "bind (check_for_premium_redirect env job 3) (\<lambda>_.
                 if (0::int) = 0 then driver_refresh env else return ()) s1 = (Inr (), s2)"
     and m2: "milestones s2 = milestones s1 @ [Refresh]"
    using between_rounds [OF url refresh, of job 0 s1] by auto
  obtain s3 where a3: "bind (check_for_premium_redirect env job 3) (\<lambda>_.
               bind (scroll_page env) (\<lambda>_. try_methods env search_methods)) s2 = (Inr None, s3)"
     and m3: "milestones s3 = milestones s2 @ map lookup search_methods"
    using search_round [OF url scroll none] by blast
  obtain s4 where a4: "bind (check_for_premium_redirect env job 3) (\<lambda>_.
                 if (1::int) = 0 then driver_refresh env else return ()) s3 = (Inr (), s4)"
     and m4: "milestones s4 = milestones s3"
    using between_rounds [OF url refresh, of job 1 s3] by auto
  have r2: "find_rounds env job 2 s4 = (Inr None, s4)"
    by (simp add: find_rounds.simps)
  have r1: "find_rounds env job 1 s2 = (Inr None, s4)"
    using a3 a4 r2 by (simp add: find_rounds.simps [of env job 1 s2])
  have r0: "find_rounds env job 0 s = (Inr None, s4)"
    using a1 a2 r1 by (simp add: find_rounds.simps [of env job 0 s])
  show ?thesis using r0 m1 m2 m3 m4 by simp
qed

lemma py_range_0: "py_range 0 0 300 = []" "py_range 0 0 (- 300) = []"
  by code_simp+

lemma plain_scroll: "fst (scroll_page plain_page s) = Inr ()"
  by (simp add: scroll_page_def scroll_slow_def bind_def call_eq as_index_def return_def
      py_range_0 plain_page_def)

lemma plain_none: "fst (try_methods plain_page search_methods s) = Inr None"
  by (simp add: search_methods_def try_method_def bind_def catch_def call_eq return_def plain_page_def)

lemma plain_url: "\<exists>u. fst (drv_current_url plain_page w) = Inr u \<and> \<not> premium u"
  by (simp add: plain_page_def not_premium_job_page)

lemmas run = bind_def catch_def return_def raise_def call_eq pbind_def pcatch_def lift_def


lemma py_range_1200: "py_range 0 1200 300 = [0, 300, 600, 900]"
  by code_simp

text \<open>
  Claim C8, on the sample pages. Where the scroll pass has no step to make (a page of
  height 0), the locator does what the claim says: without an apply button it tries the
  three methods in order, reloads once, tries the three methods again and raises its
  not-found exception; with a button that the second method finds, or that is the second
  of two candidates of the first method, it returns the button in the first round and
  reloads nothing. On the same pages 1200 pixels high, in a browser that runs the scripts
  it is sent, the first scroll step of the first round sends
  \<open>arguments[0].scrollTop = %s;\<close>, which the browser rejects, and the locator raises that
  exception after the guard's read of the location, the lookup of the \<open>html\<close> element, the
  question for the height and the rejected step: it has tried no search method and
  reloaded nothing, whether the page has an apply button or not.
\<close>

theorem find_easy_apply_button_scroll_raises:
  \<open>find_easy_apply_button (tall plain_page) 0 start =
     (Inl JavascriptException,
      start\<lparr>trace :=
        [CurrentUrl, FindElement (TAG_NAME ''html''),
         ExecuteScript ''return arguments[0].scrollHeight'' [ArgElement 0],
         ExecuteScript ''arguments[0].scrollTop = %s;'' [ArgElement 0, ArgInt 0]]\<rparr>)
   \<and> find_easy_apply_button (tall apply_page) 0 start =
     (Inl JavascriptException,
      start\<lparr>trace :=
        [CurrentUrl, FindElement (TAG_NAME ''html''),
         ExecuteScript ''return arguments[0].scrollHeight'' [ArgElement 0],
         ExecuteScript ''arguments[0].scrollTop = %s;'' [ArgElement 0, ArgInt 0]]\<rparr>)
   \<and> find_easy_apply_button (tall listed_page) 0 start =
     (Inl JavascriptException,
      start\<lparr>trace :=
        [CurrentUrl, FindElement (TAG_NAME ''html''),
         ExecuteScript ''return arguments[0].scrollHeight'' [ArgElement 0],
         ExecuteScript ''arguments[0].scrollTop = %s;'' [ArgElement 0, ArgInt 0]]\<rparr>)
   \<and> find_easy_apply_button plain_page 0 start =
     (Inl (Exception ''No clickable 'Easy Apply' button found''),
      start\<lparr>trace :=
        [CurrentUrl, FindElement (TAG_NAME ''html''),
         ExecuteScript ''return arguments[0].scrollHeight'' [ArgElement 0],
         ExecuteScript ''return arguments[0].scrollHeight'' [ArgElement 0],
         FindElements (XPATH (method_xpath (search_methods ! 0))),
         UntilPresence (XPATH (method_xpath (search_methods ! 1))),
         UntilPresence (XPATH (method_xpath (search_methods ! 2))),
         CurrentUrl, Refresh,
         CurrentUrl, FindElement (TAG_NAME ''html''),
         ExecuteScript ''return arguments[0].scrollHeight'' [ArgElement 0],
         ExecuteScript ''return arguments[0].scrollHeight'' [ArgElement 0],
         FindElements (XPATH (method_xpath (search_methods ! 0))),
         UntilPresence (XPATH (method_xpath (search_methods ! 1))),
         UntilPresence (XPATH (method_xpath (search_methods ! 2))),
         CurrentUrl, PageSource]\<rparr>)
   \<and> find_easy_apply_button apply_page 0 start =
     (Inr 5,
      start\<lparr>trace :=
        [CurrentUrl, FindElement (TAG_NAME ''html''),
         ExecuteScript ''return arguments[0].scrollHeight'' [ArgElement 0],
         ExecuteScript ''return arguments[0].scrollHeight'' [ArgElement 0],
         FindElements (XPATH (method_xpath (search_methods ! 0))),
         UntilPresence (XPATH (method_xpath (search_methods ! 1))),
         UntilVisibility 5, UntilClickable 5]\<rparr>)
   \<and> find_easy_apply_button listed_page 0 start =
     (Inr 5,
      start\<lparr>trace :=
        [CurrentUrl, FindElement (TAG_NAME ''html''),
         ExecuteScript ''return arguments[0].scrollHeight'' [ArgElement 0],
         ExecuteScript ''return arguments[0].scrollHeight'' [ArgElement 0],
         FindElements (XPATH (method_xpath (search_methods ! 0))),
         UntilVisibility 4, UntilVisibility 5, UntilClickable 5]\<rparr>)\<close>
  by (simp add: find_easy_apply_button_def find_rounds.simps [of _ _ 0]
      find_rounds.simps [of _ _ 1] find_rounds.simps [of _ _ 2] run
      check_for_premium_redirect_def premium_loop.simps not_premium_job_page
      scroll_page_def scroll_slow_def as_index_def py_range_0 py_range_1200
      search_methods_def try_method_def tall_def listed_page_def apply_page_def
      plain_page_def start_def)


section \<open>Properties of the controller\<close>

lemma locator_gives_up:
  assumes url: "\<And>w. \<exists>u. fst (drv_current_url env w) = Inr u \<and> \<not> premium u"
      and scroll: "\<And>s. fst (scroll_page env s) = Inr ()"
      and none: "\<And>s. fst (try_methods env search_methods s) = Inr None"
      and refresh: "\<And>w. fst (drv_refresh env w) = Inr ()"
      and source: "\<And>w. \<exists>src. fst (drv_page_source env w) = Inr src"
  shows \<open>\<exists>s'. find_easy_apply_button env job s =
              (Inl (Exception ''No clickable 'Easy Apply' button found''), s') \<and>
           milestones s' =
             milestones s @ map lookup search_methods @ [Refresh] @ map lookup search_methods\<close>
proof -
  obtain s4 where r: "find_rounds env job 0 s = (Inr None, s4)"
     and m: "milestones s4 = milestones s @ map lookup search_methods @ [Refresh] @ map lookup search_methods"
    using find_rounds_none [OF url scroll none refresh] by blast
  obtain src where "fst (drv_page_source env (world s4)) = Inr src" using source by blast
  then obtain s5 where p: "driver_page_source env s4 = (Inr src, s5)"
    by (simp add: call_eq)
  have m5: "milestones s5 = milestones s4" using quiet_D [OF quiet_call p] by simp
  have \<open>find_easy_apply_button env job s =
              (Inl (Exception ''No clickable 'Easy Apply' button found''), s5)\<close>
    using r p by (simp add: find_easy_apply_button_def bind_def raise_def)
  with m m5 show ?thesis by simp
qed

lemma discard_application_swallows: "fst (discard_application env s) = Inr ()"
  by (auto simp: discard_application_def catch_def bind_def return_def
      split: prod.splits sum.splits list.splits)

lemma discard_application_trace:
  "\<exists>evs. trace (snd (discard_application env s)) =
           trace s @ FindElement (CLASS_NAME ''artdeco-modal__dismiss'') # evs"
proof -
  let ?rest = "\<lambda>dismiss. bind (click env dismiss) (\<lambda>_.
        bind (driver_find_elements env (CLASS_NAME ''artdeco-modal__confirm-dialog-btn'')) (\<lambda>discard_buttons.
          case discard_buttons of
            discard_button # _ \<Rightarrow> click env discard_button
          | [] \<Rightarrow> return ()))"
  obtain r s1 where f: "driver_find_element env (CLASS_NAME ''artdeco-modal__dismiss'') s = (r, s1)"
    by (cases "driver_find_element env (CLASS_NAME ''artdeco-modal__dismiss'') s")
  have t1: "trace s1 = trace s @ [FindElement (CLASS_NAME ''artdeco-modal__dismiss'')]"
    using f by (auto simp: call_eq)
  show ?thesis
  proof (cases r)
    case (Inl e)
    then have "discard_application env s = (Inr (), s1)"
      using f by (simp add: discard_application_def catch_def bind_def return_def)
    with t1 show ?thesis by simp
  next
    case (Inr d)
    have ext: "\<exists>evs. trace (snd (?rest d s1)) = trace s1 @ evs"
      by (auto simp: bind_def call_eq return_def split: prod.splits sum.splits list.splits)
    have "snd (discard_application env s) = snd (?rest d s1)"
      using f Inr
      by (simp add: discard_application_def catch_def bind_def [of "driver_find_element env (CLASS_NAME ''artdeco-modal__dismiss'')"] return_def
          split: prod.splits sum.splits)
    with ext t1 show ?thesis by auto
  qed
qed

lemma discard_application_confirms:
  assumes "driver_find_element env (CLASS_NAME ''artdeco-modal__dismiss'') s = (Inr d, sa)"
      and "click env d sa = (Inr (), sb)"
      and "driver_find_elements env (CLASS_NAME ''artdeco-modal__confirm-dialog-btn'') sb = (Inr (b # bs), sc)"
  shows "snd (discard_application env s) = snd (click env b sc)"
  using assms
  by (simp add: discard_application_def catch_def bind_def return_def split: prod.splits sum.splits)

lemma sequence_without_trigger:
  assumes "driver_execute_script env ''document.activeElement.blur();'' [] s2 = (Inr v, s3)"
      and "check_for_premium_redirect env job 3 s3 = (Inr (), s4)"
      and "find_easy_apply_button env job s4 = (Inl e, s5)"
  shows "application_sequence env self job s2 = Some (Inl e, s5)"
  using assms by (simp add: application_sequence_def pbind_def lift_def)

lemma job_apply_cases:
  "job_apply env self job s =
     (case driver_get env (link (jobs s job)) s of
        (Inl e, s1) \<Rightarrow> Some (Inl e, s1)
      | (Inr _, s1) \<Rightarrow>
          (case check_for_premium_redirect env job 3 s1 of
             (Inl e, s2) \<Rightarrow> Some (Inl e, s2)
           | (Inr _, s2) \<Rightarrow>
               (case application_sequence env self job s2 of
                  None \<Rightarrow> None
                | Some (Inl e, s3) \<Rightarrow>
                    Some (Inl (ExceptionTb ''Failed to apply to job! Original exception:'' e),
                          snd (discard_application env s3))
                | Some (Inr _, s3) \<Rightarrow> Some (Inr (), s3))))"
proof -
  obtain r1 s1 where g: "driver_get env (link (jobs s job)) s = (r1, s1)"
    by (cases "driver_get env (link (jobs s job)) s")
  show ?thesis
  proof (cases r1)
    case (Inl e)
    with g show ?thesis by (simp add: job_apply_def pbind_def lift_def catch_def raise_def)
  next
    case (Inr u)
    note r1 = this
    obtain r2 s2 where c: "check_for_premium_redirect env job 3 s1 = (r2, s2)"
      by (cases "check_for_premium_redirect env job 3 s1")
    show ?thesis
    proof (cases r2)
      case (Inl e)
      with g r1 c show ?thesis by (simp add: job_apply_def pbind_def lift_def catch_def)
    next
      case (Inr u2)
      note r2 = this
      show ?thesis
      proof (cases "application_sequence env self job s2")
        case None
        with g r1 c r2 show ?thesis
          by (simp add: job_apply_def pbind_def lift_def catch_def pcatch_def)
      next
        case (Some a)
        obtain r3 s3 where a: "a = (r3, s3)" by (cases a)
        show ?thesis
        proof (cases r3)
          case (Inr u3)
          with g r1 c r2 Some a show ?thesis
            by (simp add: job_apply_def pbind_def lift_def catch_def pcatch_def)
        next
          case (Inl e)
          obtain s4 where d: "discard_application env s3 = (Inr (), s4)"
            using discard_application_swallows [of env s3] by (metis prod.collapse)
          then have s4: "snd (discard_application env s3) = s4" by simp
          have "pbind (lift (discard_application env))
                  (\<lambda>_. lift (raise (ExceptionTb ''Failed to apply to job! Original exception:'' e))) s3 =
                Some (Inl (ExceptionTb ''Failed to apply to job! Original exception:'' e),
                      snd (discard_application env s3))"
            unfolding s4 by (simp add: pbind_def lift_def d raise_def)
          with g r1 c r2 Some a Inl show ?thesis
            by (simp add: job_apply_def pbind_def [of "lift (catch _ _)"]
                pbind_def [of "lift (check_for_premium_redirect _ _ _)"] lift_def catch_def pcatch_def)
        qed
      qed
    qed
  qed
qed

lemma apply_to_job_is_job_apply: "apply_to_job env self job s = job_apply env self job s"
  by (simp add: apply_to_job_def pcatch_def lift_def raise_def split: option.splits prod.splits sum.splits)

lemma premium_wall_guard:
  "check_for_premium_redirect premium_wall 0 3 s =
     (Inl (Exception ''Redirected to Premium page and failed to return to job page.''),
      s\<lparr>world := Suc (Suc (Suc (world s))),
        trace := trace s @ [CurrentUrl, Get (link (jobs s 0)), CurrentUrl, Get (link (jobs s 0)),
                            CurrentUrl, Get (link (jobs s 0)), CurrentUrl]\<rparr>)"
  by (simp add: check_for_premium_redirect_def premium_loop.simps premium_premium_page run
      premium_wall_def plain_page_def)

lemma apply_url: "\<exists>u. fst (drv_current_url apply_page w) = Inr u \<and> \<not> premium u"
  by (simp add: apply_page_def plain_page_def not_premium_job_page)

lemma endless_url: "\<exists>u. fst (drv_current_url endless_form w) = Inr u \<and> \<not> premium u"
  by (simp add: endless_form_def apply_page_def plain_page_def not_premium_job_page)

lemma submit_text:
  "contains ''submit application'' (lower ''Submit application'')"
  "\<not> contains ''submit application'' (lower ''Next'')"
  "\<not> contains ''enviar solicitud'' (lower ''Next'')"
  by code_simp+

lemma apply_page_next: "fst (next_or_submit apply_page s) = Inr True"
  by (simp add: next_or_submit_def unfollow_company_def run submit_text apply_page_def plain_page_def)

lemma endless_form_next: "fst (next_or_submit endless_form s) = Inr False"
  by (simp add: next_or_submit_def check_for_errors_def run submit_text
      endless_form_def apply_page_def plain_page_def)

lemma fill_up_returns: "fill_up env self job s = Some (r, s') \<Longrightarrow> r = Inr ()"
  by (auto simp: fill_up_def pcatch_def lift_def return_def split: option.splits prod.splits sum.splits)

lemma apply_page_fill_up: "\<exists>s'. fill_up apply_page self job s = Some (Inr (), s')"
  by (simp add: fill_up_def run apply_page_def plain_page_def)

lemma endless_form_fill_up: "\<exists>s'. fill_up endless_form self job s = Some (Inr (), s')"
  by (simp add: fill_up_def run endless_form_def apply_page_def plain_page_def)

lemma apply_page_form: "\<exists>s'. fill_application_form apply_page self job s = Some (Inr (), s')"
proof -
  obtain s1 where f: "fill_up apply_page self job s = Some (Inr (), s1)"
    using apply_page_fill_up by blast
  obtain s2 where n: "next_or_submit apply_page s1 = (Inr True, s2)"
    using apply_page_next [of s1] by (metis prod.collapse)
  show ?thesis
    by (subst fill_application_form.simps) (simp add: f n)
qed

lemma endless_form_loops: "fill_application_form endless_form self job s \<noteq> Some y"
proof
  assume a: "fill_application_form endless_form self job s = Some y"
  have "endless_form \<noteq> (endless_form :: nat env)"
  proof (rule fill_application_form.raw_induct
           [where P = "\<lambda>env self job s y. env \<noteq> endless_form", OF _ a])
    fix f :: "nat env \<Rightarrow> easy_applier \<Rightarrow> job_ref \<Rightarrow> nat session \<Rightarrow> ((exn + unit) \<times> nat session) option"
    fix env self job s y
    assume IH: "\<And>env self job s y. f env self job s = Some y \<Longrightarrow> env \<noteq> endless_form"
      and body: "(case fill_up env self job s of None \<Rightarrow> None
          | Some (Inl e, s1) \<Rightarrow> Some (Inl e, s1)
          | Some (Inr x, s1) \<Rightarrow>
              case next_or_submit env s1 of (Inl e, s2) \<Rightarrow> Some (Inl e, s2)
              | (Inr submitted, s2) \<Rightarrow>
                  if submitted then Some (Inr (), s2)
                  else f env self job s2) = Some y"
    show "env \<noteq> endless_form"
    proof
      assume e: "env = endless_form"
      obtain s1 where f: "fill_up endless_form self job s = Some (Inr (), s1)"
        using endless_form_fill_up by blast
      obtain s2 where n: "next_or_submit endless_form s1 = (Inr False, s2)"
        using endless_form_next [of s1] by (metis prod.collapse)
      from body e f n have "f endless_form self job s2 = Some y" by simp
      from IH [OF this] show False by simp
    qed
  qed
  then show False by simp
qed


lemma get_job_recruiter_returns: "\<exists>r s'. get_job_recruiter env s = (Inr r, s')"
  unfolding get_job_recruiter_def
  by (auto simp: catch_def bind_def return_def split: prod.splits sum.splits list.splits)

lemma sequence_reaches_form:
  assumes blur: "\<And>s. \<exists>v. fst (driver_execute_script env ''document.activeElement.blur();'' [] s) = Inr v"
      and url: "\<And>w. \<exists>u. fst (drv_current_url env w) = Inr u \<and> \<not> premium u"
      and button: "\<And>s. \<exists>b. fst (find_easy_apply_button env job s) = Inr b"
      and desc: "\<And>s. \<exists>d. fst (get_job_description env s) = Inr d"
      and chain: "\<And>b s. fst (move_to_element_click env b s) = Inr ()"
  shows "\<exists>s'. application_sequence env self job s = fill_application_form env self job s'"
proof -
  obtain v s1 where a1: "driver_execute_script env ''document.activeElement.blur();'' [] s = (Inr v, s1)"
    using blur [of s] by (metis prod.collapse)
  obtain s2 where a2: "check_for_premium_redirect env job 3 s1 = (Inr (), s2)"
    using guard_passes [OF url] by blast
  obtain b s3 where a3: "find_easy_apply_button env job s2 = (Inr b, s3)"
    using button [of s2] by (metis prod.collapse)
  obtain s4 where a4: "check_for_premium_redirect env job 3 s3 = (Inr (), s4)"
    using guard_passes [OF url] by blast
  obtain d s5 where a5: "get_job_description env s4 = (Inr d, s5)"
    using desc [of s4] by (metis prod.collapse)
  obtain s6 where a6: "set_job_description job d s5 = (Inr (), s6)"
    by (simp add: set_job_description_def)
  obtain r s7 where a7: "get_job_recruiter env s6 = (Inr r, s7)"
    using get_job_recruiter_returns by blast
  obtain s8 where a8: "set_recruiter_link job r s7 = (Inr (), s8)"
    by (simp add: set_recruiter_link_def)
  obtain s9 where a9: "set_current_job job s8 = (Inr (), s9)"
    by (simp add: set_current_job_def)
  obtain s10 where a10: "move_to_element_click env b s9 = (Inr (), s10)"
    using chain [of b s9] by (metis prod.collapse)
  obtain s11 where a11: "set_job job s10 = (Inr (), s11)"
    by (simp add: set_job_def)
  have "application_sequence env self job s = fill_application_form env self job s11"
    unfolding application_sequence_def
    by (simp add: pbind_def lift_def a1 a2 a3 a4 a5 a6 a7 a8 a9 a10 a11)
  then show ?thesis by blast
qed

lemma apply_page_button: "fst (find_easy_apply_button apply_page 0 s) = Inr 5"
  by (simp add: find_easy_apply_button_def find_rounds.simps [of _ _ 0]
      run check_for_premium_redirect_def premium_loop.simps not_premium_job_page
      scroll_page_def scroll_slow_def as_index_def py_range_0 search_methods_def try_method_def
      apply_page_def plain_page_def)

lemma endless_form_button: "fst (find_easy_apply_button endless_form 0 s) = Inr 5"
  by (simp add: find_easy_apply_button_def find_rounds.simps [of _ _ 0]
      run check_for_premium_redirect_def premium_loop.simps not_premium_job_page
      scroll_page_def scroll_slow_def as_index_def py_range_0 search_methods_def try_method_def
      endless_form_def apply_page_def plain_page_def)

lemma apply_page_description: "fst (get_job_description apply_page s) = Inr ''We sell things.''"
  by (simp add: get_job_description_def run apply_page_def plain_page_def)

lemma endless_form_description: "fst (get_job_description endless_form s) = Inr ''We sell things.''"
  by (simp add: get_job_description_def run endless_form_def apply_page_def plain_page_def)

lemma apply_page_reaches_form:
  "\<exists>s'. application_sequence apply_page self 0 s = fill_application_form apply_page self 0 s'"
proof (rule sequence_reaches_form)
  show "\<And>s. \<exists>v. fst (driver_execute_script apply_page ''document.activeElement.blur();'' [] s) = Inr v"
    by (simp add: apply_page_def plain_page_def)
  show "\<And>w. \<exists>u. fst (drv_current_url apply_page w) = Inr u \<and> \<not> premium u"
    by (rule apply_url)
  show "\<And>s. \<exists>b. fst (find_easy_apply_button apply_page 0 s) = Inr b"
    using apply_page_button by blast
  show "\<And>s. \<exists>d. fst (get_job_description apply_page s) = Inr d"
    using apply_page_description by blast
  show "\<And>b s. fst (move_to_element_click apply_page b s) = Inr ()"
    by (simp add: apply_page_def plain_page_def)
qed

lemma endless_form_reaches_form:
  "\<exists>s'. application_sequence endless_form self 0 s = fill_application_form endless_form self 0 s'"
proof (rule sequence_reaches_form)
  show "\<And>s. \<exists>v. fst (driver_execute_script endless_form ''document.activeElement.blur();'' [] s) = Inr v"
    by (simp add: endless_form_def apply_page_def plain_page_def)
  show "\<And>w. \<exists>u. fst (drv_current_url endless_form w) = Inr u \<and> \<not> premium u"
    by (rule endless_url)
  show "\<And>s. \<exists>b. fst (find_easy_apply_button endless_form 0 s) = Inr b"
    using endless_form_button by blast
  show "\<And>s. \<exists>d. fst (get_job_description endless_form s) = Inr d"
    using endless_form_description by blast
  show "\<And>b s. fst (move_to_element_click endless_form b s) = Inr ()"
    by (simp add: endless_form_def apply_page_def plain_page_def)
qed

lemma endless_form_never_returns: "apply_to_job endless_form sample_applier 0 start = None"
proof -
  obtain s1 where g: "driver_get endless_form (link (jobs start 0)) start = (Inr (), s1)"
    by (simp add: call_eq endless_form_def apply_page_def plain_page_def)
  obtain s2 where c: "check_for_premium_redirect endless_form 0 3 s1 = (Inr (), s2)"
    using guard_passes [OF endless_url] by blast
  obtain s3 where "application_sequence endless_form sample_applier 0 s2 =
                     fill_application_form endless_form sample_applier 0 s3"
    using endless_form_reaches_form by blast
  then have "application_sequence endless_form sample_applier 0 s2 = None"
    using endless_form_loops [of sample_applier 0 s3]
    by (cases "fill_application_form endless_form sample_applier 0 s3") auto
  then show ?thesis
    unfolding apply_to_job_is_job_apply job_apply_cases by (simp add: g c)
qed

lemma apply_page_applied: "\<exists>s1 s2 s'.
     driver_get apply_page (link (jobs start 0)) start = (Inr (), s1) \<and>
     check_for_premium_redirect apply_page 0 3 s1 = (Inr (), s2) \<and>
     application_sequence apply_page sample_applier 0 s2 = Some (Inr (), s')"
proof -
  obtain s1 where g: "driver_get apply_page (link (jobs start 0)) start = (Inr (), s1)"
    by (simp add: call_eq apply_page_def plain_page_def)
  obtain s2 where c: "check_for_premium_redirect apply_page 0 3 s1 = (Inr (), s2)"
    using guard_passes [OF apply_url] by blast
  obtain s3 where "application_sequence apply_page sample_applier 0 s2 =
                     fill_application_form apply_page sample_applier 0 s3"
    using apply_page_reaches_form by blast
  then obtain s' where "application_sequence apply_page sample_applier 0 s2 = Some (Inr (), s')"
    using apply_page_form [of sample_applier 0 s3] by auto
  with g c show ?thesis by blast
qed

lemma plain_page_sequence:
  \<open>\<exists>s'. application_sequence plain_page self 0 s =
          Some (Inl (Exception ''No clickable 'Easy Apply' button found''), s')\<close>
proof -
  obtain v s1 where a1: "driver_execute_script plain_page ''document.activeElement.blur();'' [] s = (Inr v, s1)"
    by (simp add: call_eq plain_page_def)
  obtain s2 where a2: "check_for_premium_redirect plain_page 0 3 s1 = (Inr (), s2)"
    using guard_passes [OF plain_url] by blast
  obtain s3 where a3: \<open>find_easy_apply_button plain_page 0 s2 =
                         (Inl (Exception ''No clickable 'Easy Apply' button found''), s3)\<close>
    using locator_gives_up [of plain_page 0 s2] plain_url plain_scroll plain_none
    by (auto simp: plain_page_def)
  show ?thesis using sequence_without_trigger [OF a1 a2 a3] by blast
qed

text \<open>
  Claim C2, as the specification states it: whatever error is raised during \<open>job_apply\<close>, a
  redirect loop included, the controller discards the application before it re-raises.
  The first redirect check of \<open>job_apply\<close> stands before the \<open>try\<close> whose handler discards
  (and the navigation before it has a handler of its own that only re-raises): on a page
  that keeps showing the premium page the guard's exception leaves \<open>job_apply\<close> after four
  navigations and four reads of the location, and the session has looked for no dismiss
  button.
\<close>

theorem job_apply_redirect_without_rollback:
  "job_apply premium_wall sample_applier 0 start =
     Some (Inl (Exception ''Redirected to Premium page and failed to return to job page.''),
           start\<lparr>world := 4,
                 trace := [Get job_page, CurrentUrl, Get job_page, CurrentUrl, Get job_page,
                           CurrentUrl, Get job_page, CurrentUrl]\<rparr>)"
proof -
  have g: "driver_get premium_wall (link (jobs start 0)) start =
             (Inr (), start\<lparr>world := 1, trace := [Get job_page]\<rparr>)"
    by (simp add: call_eq premium_wall_def plain_page_def start_def sample_job_def)
  show ?thesis
    unfolding job_apply_cases g
    by (simp add: premium_wall_guard start_def sample_job_def)
qed

text \<open>
  Claim C2, amended: an error of the first navigation or of the first redirect check
  leaves \<open>job_apply\<close> as it is, without rollback. Every error that the application
  sequence raises after them (second and third redirect check, locator, description,
  click, form steps and submission) makes the controller discard the application and then
  raise an exception that carries the original one: the discard looks for the dismiss
  button of the modal first, presses the first confirmation button when the dismissal
  went through and one is found, and swallows whatever it raises itself.
\<close>

theorem job_apply_rollback:
  "(driver_get env (link (jobs s job)) s = (Inl e, s1) \<longrightarrow>
      job_apply env self job s = Some (Inl e, s1))
   \<and> (driver_get env (link (jobs s job)) s = (Inr (), s1) \<and>
        check_for_premium_redirect env job 3 s1 = (Inl e, s2) \<longrightarrow>
      job_apply env self job s = Some (Inl e, s2))
   \<and> (driver_get env (link (jobs s job)) s = (Inr (), s1) \<and>
        check_for_premium_redirect env job 3 s1 = (Inr (), s2) \<and>
        application_sequence env self job s2 = Some (Inl e, s3) \<longrightarrow>
      job_apply env self job s =
        Some (Inl (ExceptionTb ''Failed to apply to job! Original exception:'' e),
              snd (discard_application env s3))
      \<and> fst (discard_application env s3) = Inr ()
      \<and> (\<exists>evs. trace (snd (discard_application env s3)) =
                  trace s3 @ FindElement (CLASS_NAME ''artdeco-modal__dismiss'') # evs)
      \<and> (\<forall>d sa sb b bs sc.
            driver_find_element env (CLASS_NAME ''artdeco-modal__dismiss'') s3 = (Inr d, sa) \<and>
            click env d sa = (Inr (), sb) \<and>
            driver_find_elements env (CLASS_NAME ''artdeco-modal__confirm-dialog-btn'') sb =
              (Inr (b # bs), sc) \<longrightarrow>
            snd (discard_application env s3) = snd (click env b sc)))"
proof (intro conjI impI)
  assume "driver_get env (link (jobs s job)) s = (Inl e, s1)"
  then show "job_apply env self job s = Some (Inl e, s1)"
    by (simp add: job_apply_def pbind_def lift_def catch_def raise_def)
next
  assume "driver_get env (link (jobs s job)) s = (Inr (), s1) \<and>
        check_for_premium_redirect env job 3 s1 = (Inl e, s2)"
  then show "job_apply env self job s = Some (Inl e, s2)"
    by (simp add: job_apply_def pbind_def lift_def catch_def)
next
  assume a: "driver_get env (link (jobs s job)) s = (Inr (), s1) \<and>
        check_for_premium_redirect env job 3 s1 = (Inr (), s2) \<and>
        application_sequence env self job s2 = Some (Inl e, s3)"
  obtain r4 s4 where d: "discard_application env s3 = (r4, s4)"
    by (cases "discard_application env s3")
  have "r4 = Inr ()" using discard_application_swallows [of env s3] d by simp
  with a d show "job_apply env self job s =
        Some (Inl (ExceptionTb ''Failed to apply to job! Original exception:'' e),
              snd (discard_application env s3))"
    by (simp add: job_apply_def pbind_def lift_def catch_def pcatch_def raise_def)
next
  show "fst (discard_application env s3) = Inr ()" by (rule discard_application_swallows)
next
  show "\<exists>evs. trace (snd (discard_application env s3)) =
                  trace s3 @ FindElement (CLASS_NAME ''artdeco-modal__dismiss'') # evs"
    by (rule discard_application_trace)
next
  show "\<forall>d sa sb b bs sc.
            driver_find_element env (CLASS_NAME ''artdeco-modal__dismiss'') s3 = (Inr d, sa) \<and>
            click env d sa = (Inr (), sb) \<and>
            driver_find_elements env (CLASS_NAME ''artdeco-modal__confirm-dialog-btn'') sb =
              (Inr (b # bs), sc) \<longrightarrow>
            snd (discard_application env s3) = snd (click env b sc)"
    using discard_application_confirms by blast
qed

theorem job_apply_rollback_witness:
  \<open>job_apply offline sample_applier 0 start =
     Some (Inl WebDriverException, snd (driver_get offline (link (jobs start 0)) start))
   \<and> (\<exists>s3. job_apply plain_page sample_applier 0 start =
          Some (Inl (ExceptionTb ''Failed to apply to job! Original exception:''
                      (Exception ''No clickable 'Easy Apply' button found'')),
                snd (discard_application plain_page s3))
        \<and> fst (discard_application plain_page s3) = Inr ()
        \<and> (\<exists>evs. trace (snd (discard_application plain_page s3)) =
                    trace s3 @ FindElement (CLASS_NAME ''artdeco-modal__dismiss'') # evs))\<close>
proof -
  have g0: "driver_get offline (link (jobs start 0)) start =
              (Inl WebDriverException, snd (driver_get offline (link (jobs start 0)) start))"
    by (simp add: call_eq offline_def)
  have a: "job_apply offline sample_applier 0 start =
     Some (Inl WebDriverException, snd (driver_get offline (link (jobs start 0)) start))"
    using job_apply_rollback [where env = offline and s = start and job = 0
            and e = WebDriverException and self = sample_applier
            and ?s1.0 = "snd (driver_get offline (link (jobs start 0)) start)"] g0
    by blast
  obtain s1 where g: "driver_get plain_page (link (jobs start 0)) start = (Inr (), s1)"
    by (simp add: call_eq plain_page_def)
  obtain s2 where c: "check_for_premium_redirect plain_page 0 3 s1 = (Inr (), s2)"
    using guard_passes [OF plain_url] by blast
  obtain s3 where q: \<open>application_sequence plain_page sample_applier 0 s2 =
          Some (Inl (Exception ''No clickable 'Easy Apply' button found''), s3)\<close>
    using plain_page_sequence by blast
  have b: \<open>job_apply plain_page sample_applier 0 start =
          Some (Inl (ExceptionTb ''Failed to apply to job! Original exception:''
                      (Exception ''No clickable 'Easy Apply' button found'')),
                snd (discard_application plain_page s3))
        \<and> fst (discard_application plain_page s3) = Inr ()
        \<and> (\<exists>evs. trace (snd (discard_application plain_page s3)) =
                    trace s3 @ FindElement (CLASS_NAME ''artdeco-modal__dismiss'') # evs)\<close>
    using job_apply_rollback [where env = plain_page and s = start and job = 0
            and self = sample_applier and ?s1.0 = s1 and ?s2.0 = s2 and ?s3.0 = s3] g c q
    by blast
  show ?thesis using a b by blast
qed

lemma plain_page_attempt:
  \<open>\<exists>s'. apply_to_job plain_page sample_applier 0 start =
          Some (Inl (ExceptionTb ''Failed to apply to job! Original exception:''
                      (Exception ''No clickable 'Easy Apply' button found'')), s')
        \<and> FindElement (CLASS_NAME ''artdeco-modal__dismiss'') \<in> set (trace s')\<close>
proof -
  obtain s1 where g: "driver_get plain_page (link (jobs start 0)) start = (Inr (), s1)"
    by (simp add: call_eq plain_page_def)
  obtain s2 where c: "check_for_premium_redirect plain_page 0 3 s1 = (Inr (), s2)"
    using guard_passes [OF plain_url] by blast
  obtain s3 where q: \<open>application_sequence plain_page sample_applier 0 s2 =
          Some (Inl (Exception ''No clickable 'Easy Apply' button found''), s3)\<close>
    using plain_page_sequence by blast
  have \<open>apply_to_job plain_page sample_applier 0 start =
          Some (Inl (ExceptionTb ''Failed to apply to job! Original exception:''
                      (Exception ''No clickable 'Easy Apply' button found'')),
                snd (discard_application plain_page s3))\<close>
    unfolding apply_to_job_is_job_apply job_apply_cases by (simp add: g c q)
  moreover have "FindElement (CLASS_NAME ''artdeco-modal__dismiss'')
                   \<in> set (trace (snd (discard_application plain_page s3)))"
    using discard_application_trace [of plain_page s3] by auto
  ultimately show ?thesis by blast
qed

lemma pbind_lift_Inr:
  "pbind (lift m) f s = Some (Inr y, s') \<Longrightarrow> \<exists>x s1. m s = (Inr x, s1) \<and> f x s1 = Some (Inr y, s')"
  by (auto simp: pbind_def lift_def split: prod.splits sum.splits)

lemma sequence_ends_with_form:
  assumes "application_sequence env self job s = Some (Inr (), s')"
  shows "\<exists>s1. fill_application_form env self job s1 = Some (Inr (), s')"
  using assms unfolding application_sequence_def
  by (blast dest!: pbind_lift_Inr)

lemma next_or_submit_True:
  assumes "next_or_submit env s1 = (Inr True, s')"
  shows "\<exists>b t s2 s3 s4.
           driver_find_element env (CLASS_NAME ''artdeco-button--primary'') s1 = (Inr b, s2) \<and>
           element_text env b s2 = (Inr t, s3) \<and>
           (contains ''submit application'' (lower t) \<or> contains ''enviar solicitud'' (lower t)) \<and>
           unfollow_company env s3 = (Inr (), s4) \<and>
           click env b s4 = (Inr (), s')"
proof -
  obtain b s2 where f: "driver_find_element env (CLASS_NAME ''artdeco-button--primary'') s1 = (Inr b, s2)"
    and r2: "bind (element_text env b) (\<lambda>t.
       let button_text = lower t in
       if contains ''submit application'' button_text \<or> contains ''enviar solicitud'' button_text then
         bind (unfollow_company env) (\<lambda>_.
         bind (click env b) (\<lambda>_.
           return True))
       else
         bind (click env b) (\<lambda>_.
         bind (check_for_errors env) (\<lambda>_.
           return False))) s2 = (Inr True, s')"
    using assms unfolding next_or_submit_def bind_Inr [of "driver_find_element env _"] by blast
  obtain t s3 where t: "element_text env b s2 = (Inr t, s3)"
    and r3: "(let button_text = lower t in
       if contains ''submit application'' button_text \<or> contains ''enviar solicitud'' button_text then
         bind (unfollow_company env) (\<lambda>_.
         bind (click env b) (\<lambda>_.
           return True))
       else
         bind (click env b) (\<lambda>_.
         bind (check_for_errors env) (\<lambda>_.
           return False))) s3 = (Inr True, s')"
    using r2 unfolding bind_Inr [of "element_text env b"] by blast
  show ?thesis
  proof (cases "contains ''submit application'' (lower t) \<or> contains ''enviar solicitud'' (lower t)")
    case True
    with r3 have "bind (unfollow_company env) (\<lambda>_. bind (click env b) (\<lambda>_. return True)) s3 = (Inr True, s')"
      by (simp add: Let_def)
    then obtain u s4 v s5 where "unfollow_company env s3 = (Inr u, s4)" "click env b s4 = (Inr v, s5)"
       "return True s5 = (Inr True, s')"
      unfolding bind_Inr by blast
    then have "unfollow_company env s3 = (Inr (), s4) \<and> click env b s4 = (Inr (), s')"
      by (simp add: return_def)
    with f t True show ?thesis by blast
  next
    case False
    with r3 have "bind (click env b) (\<lambda>_. bind (check_for_errors env) (\<lambda>_. return False)) s3 = (Inr True, s')"
      by (simp add: Let_def)
    then have False unfolding bind_Inr by (auto simp: return_def)
    then show ?thesis ..
  qed
qed

lemma form_ends_with_submit:
  assumes a: "fill_application_form (env :: 'a env) self job s = Some (Inr (), s')"
  shows "\<exists>s1. next_or_submit env s1 = (Inr True, s')"
proof -
  have "\<forall>t. (Inr () :: exn + unit, s') = (Inr (), t) \<longrightarrow> (\<exists>s1. next_or_submit env s1 = (Inr True, t))"
  proof (rule fill_application_form.raw_induct
           [where P = "\<lambda>(env :: 'a env) (self :: easy_applier) (job :: job_ref) (s :: 'a session) y.
                         \<forall>t. y = (Inr (), t) \<longrightarrow> (\<exists>s1. next_or_submit env s1 = (Inr True, t))",
            OF _ a])
    fix f :: "'a env \<Rightarrow> easy_applier \<Rightarrow> job_ref \<Rightarrow> 'a session \<Rightarrow> ((exn + unit) \<times> 'a session) option"
    fix env self job s y
    assume IH: "\<And>env self job s y. f env self job s = Some y \<Longrightarrow>
                  \<forall>t. y = (Inr (), t) \<longrightarrow> (\<exists>s1. next_or_submit env s1 = (Inr True, t))"
      and body: "(case fill_up env self job s of None \<Rightarrow> None
          | Some (Inl e, s1) \<Rightarrow> Some (Inl e, s1)
          | Some (Inr x, s1) \<Rightarrow>
              case next_or_submit env s1 of (Inl e, s2) \<Rightarrow> Some (Inl e, s2)
              | (Inr submitted, s2) \<Rightarrow>
                  if submitted then Some (Inr (), s2)
                  else f env self job s2) = Some y"
    show "\<forall>t. y = (Inr (), t) \<longrightarrow> (\<exists>s1. next_or_submit env s1 = (Inr True, t))"
    proof (intro allI impI)
      fix t
      assume y: "y = (Inr (), t)"
      obtain r s1 where fu: "fill_up env self job s = Some (r, s1)"
        using body by (cases "fill_up env self job s") auto
      have r: "r = Inr ()" using fill_up_returns [OF fu] .
      obtain r2 s2 where n: "next_or_submit env s1 = (r2, s2)" by (cases "next_or_submit env s1")
      show "\<exists>s1. next_or_submit env s1 = (Inr True, t)"
      proof (cases r2)
        case (Inl e)
        with body fu r n y show ?thesis by simp
      next
        case (Inr submitted)
        show ?thesis
        proof (cases submitted)
          case True
          with body fu r n Inr y have "s2 = t" by simp
          with n Inr True have "next_or_submit env s1 = (Inr True, t)" by simp
          then show ?thesis by blast
        next
          case False
          with body fu r n Inr have "f env self job s2 = Some y" by simp
          from IH [OF this] y show ?thesis by blast
        qed
      qed
    qed
  qed
  then show ?thesis by simp
qed

lemma trace_call_eq: "call ev operation s = (r, s1) \<Longrightarrow> trace s1 = trace s @ [ev]"
  by (auto simp: call_def split: prod.splits)

lemma premium_loop_navigational:
  "\<exists>evs. trace (snd (premium_loop env job max_attempts current_url attempts s)) = trace s @ evs
         \<and> list_all navigational evs"
proof (induction env job max_attempts current_url attempts s rule: premium_loop.induct)
  case (1 env job max_attempts current_url attempts s)
  show ?case
  proof (cases "premium current_url \<and> attempts < max_attempts")
    case False
    then have "premium_loop env job max_attempts current_url attempts s = (Inr current_url, s)"
      by (subst premium_loop.simps) auto
    then show ?thesis by simp
  next
    case True
    obtain r1 s1 where g: "driver_get env (link (jobs s job)) s = (r1, s1)"
      by (cases "driver_get env (link (jobs s job)) s")
    have t1: "trace s1 = trace s @ [Get (link (jobs s job))]" using trace_call_eq [OF g] .
    show ?thesis
    proof (cases r1)
      case (Inl e)
      with True g t1 show ?thesis by (simp add: premium_loop.simps navigational_def)
    next
      case (Inr x)
      note r1 = this
      obtain r2 s2 where c: "driver_current_url env s1 = (r2, s2)"
        by (cases "driver_current_url env s1")
      have t2: "trace s2 = trace s1 @ [CurrentUrl]" using trace_call_eq [OF c] .
      show ?thesis
      proof (cases r2)
        case (Inl e)
        with True g r1 c t1 t2 show ?thesis by (simp add: premium_loop.simps navigational_def)
      next
        case (Inr u)
        obtain evs where "trace (snd (premium_loop env job max_attempts u (attempts + 1) s2)) = trace s2 @ evs"
            and "list_all navigational evs"
          using "1.IH" [OF True] g r1 c Inr by force
        then have "trace (snd (premium_loop env job max_attempts u (attempts + 1) s2)) =
                     trace s @ (Get (link (jobs s job)) # CurrentUrl # evs)
                   \<and> list_all navigational (Get (link (jobs s job)) # CurrentUrl # evs)"
          using t1 t2 by (simp add: navigational_def)
        moreover have "premium_loop env job max_attempts current_url attempts s =
                         premium_loop env job max_attempts u (attempts + 1) s2"
          using True g r1 c Inr
          by (simp add: premium_loop.simps [of env job max_attempts current_url attempts s])
        ultimately show ?thesis by metis
      qed
    qed
  qed
qed

lemma guard_navigational:
  assumes "check_for_premium_redirect env job max_attempts s = (r, s')"
  shows "\<exists>evs. trace s' = trace s @ evs \<and> list_all navigational evs"
proof -
  obtain r1 s1 where c: "driver_current_url env s = (r1, s1)" by (cases "driver_current_url env s")
  have t1: "trace s1 = trace s @ [CurrentUrl]" using trace_call_eq [OF c] .
  show ?thesis
  proof (cases r1)
    case (Inl e)
    with assms c have "s' = s1" by (simp add: check_for_premium_redirect_def bind_def)
    with t1 show ?thesis by (simp add: navigational_def)
  next
    case (Inr u)
    obtain r2 s2 where l: "premium_loop env job max_attempts u 0 s1 = (r2, s2)"
      by (cases "premium_loop env job max_attempts u 0 s1")
    obtain evs where e: "trace s2 = trace s1 @ evs" "list_all navigational evs"
      using premium_loop_navigational [of env job max_attempts u 0 s1] l by auto
    have "s' = s2"
      using assms c Inr l
      by (cases r2) (auto simp: check_for_premium_redirect_def bind_def raise_def return_def split: if_splits)
    with e t1 have "trace s' = trace s @ (CurrentUrl # evs) \<and> list_all navigational (CurrentUrl # evs)"
      by (simp add: navigational_def)
    then show ?thesis by blast
  qed
qed

lemma attempt_fails_cleanly:
  assumes "apply_to_job env self job s = Some (Inl e, s')"
  shows "(\<exists>evs. trace s' = trace s @ evs \<and> list_all navigational evs)
       \<or> (\<exists>e0 s5. e = ExceptionTb ''Failed to apply to job! Original exception:'' e0
              \<and> s' = snd (discard_application env s5)
              \<and> (\<exists>evs. trace s' = trace s5 @ FindElement (CLASS_NAME ''artdeco-modal__dismiss'') # evs))"
proof -
  obtain r1 s1 where g: "driver_get env (link (jobs s job)) s = (r1, s1)"
    by (cases "driver_get env (link (jobs s job)) s")
  have t1: "trace s1 = trace s @ [Get (link (jobs s job))]" using trace_call_eq [OF g] .
  show ?thesis
  proof (cases r1)
    case (Inl e1)
    with g assms have "s' = s1" unfolding apply_to_job_is_job_apply job_apply_cases by simp
    with t1 have "trace s' = trace s @ [Get (link (jobs s job))] \<and> list_all navigational [Get (link (jobs s job))]"
      by (simp add: navigational_def)
    then show ?thesis by blast
  next
    case (Inr u)
    note r1 = this
    obtain r2 s2 where c: "check_for_premium_redirect env job 3 s1 = (r2, s2)"
      by (cases "check_for_premium_redirect env job 3 s1")
    obtain evs where e: "trace s2 = trace s1 @ evs" "list_all navigational evs"
      using guard_navigational [OF c] by blast
    show ?thesis
    proof (cases r2)
      case (Inl e2)
      with g r1 c assms have "s' = s2" unfolding apply_to_job_is_job_apply job_apply_cases by simp
      with e t1 have "trace s' = trace s @ (Get (link (jobs s job)) # evs)
                      \<and> list_all navigational (Get (link (jobs s job)) # evs)"
        by (simp add: navigational_def)
      then show ?thesis by blast
    next
      case (Inr u2)
      note r2 = this
      show ?thesis
      proof (cases "application_sequence env self job s2")
        case None
        with g r1 c r2 assms show ?thesis unfolding apply_to_job_is_job_apply job_apply_cases by simp
      next
        case (Some a)
        obtain r3 s3 where a: "a = (r3, s3)" by (cases a)
        show ?thesis
        proof (cases r3)
          case (Inr u3)
          with g r1 c r2 Some a assms show ?thesis
            unfolding apply_to_job_is_job_apply job_apply_cases by simp
        next
          case (Inl e0)
          with g r1 c r2 Some a assms
          have "e = ExceptionTb ''Failed to apply to job! Original exception:'' e0
                \<and> s' = snd (discard_application env s3)"
            unfolding apply_to_job_is_job_apply job_apply_cases by simp
          then show ?thesis using discard_application_trace [of env s3] by blast
        qed
      qed
    qed
  qed
qed

lemma attempt_applied_by_click:
  assumes "apply_to_job env self job s = Some (Inr (), s')"
  shows "\<exists>s1 b t s2 s3 s4.
           driver_find_element env (CLASS_NAME ''artdeco-button--primary'') s1 = (Inr b, s2) \<and>
           element_text env b s2 = (Inr t, s3) \<and>
           (contains ''submit application'' (lower t) \<or> contains ''enviar solicitud'' (lower t)) \<and>
           unfollow_company env s3 = (Inr (), s4) \<and>
           click env b s4 = (Inr (), s') \<and>
           trace s' = trace s4 @ [Click b]"
proof -
  have "\<exists>s2. application_sequence env self job s2 = Some (Inr (), s')"
    using assms unfolding apply_to_job_is_job_apply job_apply_cases
    by (auto split: prod.splits sum.splits option.splits)
  then obtain s11 where "fill_application_form env self job s11 = Some (Inr (), s')"
    using sequence_ends_with_form by blast
  then obtain s1 where "next_or_submit env s1 = (Inr True, s')"
    using form_ends_with_submit by blast
  from next_or_submit_True [OF this] obtain b t s2 s3 s4 where
    n: "driver_find_element env (CLASS_NAME ''artdeco-button--primary'') s1 = (Inr b, s2)"
       "element_text env b s2 = (Inr t, s3)"
       "contains ''submit application'' (lower t) \<or> contains ''enviar solicitud'' (lower t)"
       "unfollow_company env s3 = (Inr (), s4)"
    and c: "click env b s4 = (Inr (), s')"
    by blast
  have "trace s' = trace s4 @ [Click b]" using trace_call_eq [OF c] .
  with n c show ?thesis by blast
qed

lemma premium_wall_attempt:
  "\<exists>s'. apply_to_job premium_wall sample_applier 0 start =
     Some (Inl (Exception ''Redirected to Premium page and failed to return to job page.''), s')"
proof -
  obtain s1 where g: "driver_get premium_wall (link (jobs start 0)) start = (Inr (), s1)"
    by (simp add: call_eq premium_wall_def plain_page_def)
  show ?thesis
    unfolding apply_to_job_is_job_apply job_apply_cases by (simp add: g premium_wall_guard)
qed

text \<open>
  Claim C1, as the specification states it: an attempt terminates in exactly one of
  Applied, Skipped and Failed, and it is Skipped when no apply trigger is found.
  \<open>apply_to_job\<close> has two ways to end, a normal return and an exception, and nothing marks
  a skipped job: on the sample page without an apply button it raises the controller's
  exception, after the rollback was attempted, which is the specification's Failed. Nor
  does every attempt end: on the page whose form reads \<open>Next\<close> on every step the loop over
  the steps goes on for ever.
\<close>

theorem apply_to_job_no_trigger_fails:
  \<open>map_option fst (apply_to_job plain_page sample_applier 0 start) =
     Some (Inl (ExceptionTb ''Failed to apply to job! Original exception:''
                 (Exception ''No clickable 'Easy Apply' button found'')))
   \<and> FindElement (CLASS_NAME ''artdeco-modal__dismiss'')
       \<in> set (trace (snd (the (apply_to_job plain_page sample_applier 0 start))))
   \<and> apply_to_job endless_form sample_applier 0 start = None\<close>
  using plain_page_attempt endless_form_never_returns by auto

text \<open>
  Claim C1, amended: an attempt that ends has one of two outcomes, and neither leaves the
  caller with a half-made application. A normal return (Applied) is reached only through
  the submit click: the primary button was found, its text held \<open>submit application\<close> or
  \<open>enviar solicitud\<close>, and the successful click on it was the last thing the attempt did.
  An exception (Failed) is raised either by the navigation or the first redirect check,
  when the session has done nothing but open pages and read its location, or, wrapped by
  the controller, after the discard was attempted. Applied is reached exactly when
  navigation and first check succeed and the application sequence returns. When no apply
  trigger is found, the attempt is Failed: the locator's exception is wrapped and raised
  after the discard was attempted.
\<close>

theorem apply_to_job_outcomes:
  "(apply_to_job env self job s = Some (Inr (), s') \<longrightarrow>
      (\<exists>s1 b t s2 s3 s4.
         driver_find_element env (CLASS_NAME ''artdeco-button--primary'') s1 = (Inr b, s2) \<and>
         element_text env b s2 = (Inr t, s3) \<and>
         (contains ''submit application'' (lower t) \<or> contains ''enviar solicitud'' (lower t)) \<and>
         unfollow_company env s3 = (Inr (), s4) \<and>
         click env b s4 = (Inr (), s') \<and>
         trace s' = trace s4 @ [Click b]))
   \<and> (apply_to_job env self job s = Some (Inl e, s') \<longrightarrow>
      (\<exists>evs. trace s' = trace s @ evs \<and> list_all navigational evs)
      \<or> (\<exists>cause s5. e = ExceptionTb ''Failed to apply to job! Original exception:'' cause \<and>
            s' = snd (discard_application env s5) \<and>
            (\<exists>evs. trace s' = trace s5 @ FindElement (CLASS_NAME ''artdeco-modal__dismiss'') # evs)))
   \<and> (apply_to_job env self job s = Some (Inr (), s') \<longleftrightarrow>
        (\<exists>s1 s2. driver_get env (link (jobs s job)) s = (Inr (), s1) \<and>
                 check_for_premium_redirect env job 3 s1 = (Inr (), s2) \<and>
                 application_sequence env self job s2 = Some (Inr (), s')))
   \<and> (driver_get env (link (jobs s job)) s = (Inr (), s1) \<and>
        check_for_premium_redirect env job 3 s1 = (Inr (), s2) \<and>
        driver_execute_script env ''document.activeElement.blur();'' [] s2 = (Inr v, s3) \<and>
        check_for_premium_redirect env job 3 s3 = (Inr (), s4) \<and>
        find_easy_apply_button env job s4 = (Inl e0, s5) \<longrightarrow>
      apply_to_job env self job s =
        Some (Inl (ExceptionTb ''Failed to apply to job! Original exception:'' e0),
              snd (discard_application env s5))
      \<and> (\<exists>evs. trace (snd (discard_application env s5)) =
                  trace s5 @ FindElement (CLASS_NAME ''artdeco-modal__dismiss'') # evs))"
proof (intro conjI impI)
  assume "apply_to_job env self job s = Some (Inr (), s')"
  then show "\<exists>s1 b t s2 s3 s4.
         driver_find_element env (CLASS_NAME ''artdeco-button--primary'') s1 = (Inr b, s2) \<and>
         element_text env b s2 = (Inr t, s3) \<and>
         (contains ''submit application'' (lower t) \<or> contains ''enviar solicitud'' (lower t)) \<and>
         unfollow_company env s3 = (Inr (), s4) \<and>
         click env b s4 = (Inr (), s') \<and>
         trace s' = trace s4 @ [Click b]"
    by (rule attempt_applied_by_click)
next
  assume "apply_to_job env self job s = Some (Inl e, s')"
  then show "(\<exists>evs. trace s' = trace s @ evs \<and> list_all navigational evs)
      \<or> (\<exists>cause s5. e = ExceptionTb ''Failed to apply to job! Original exception:'' cause \<and>
            s' = snd (discard_application env s5) \<and>
            (\<exists>evs. trace s' = trace s5 @ FindElement (CLASS_NAME ''artdeco-modal__dismiss'') # evs))"
    by (rule attempt_fails_cleanly)
next
  show "apply_to_job env self job s = Some (Inr (), s') \<longleftrightarrow>
        (\<exists>s1 s2. driver_get env (link (jobs s job)) s = (Inr (), s1) \<and>
                 check_for_premium_redirect env job 3 s1 = (Inr (), s2) \<and>
                 application_sequence env self job s2 = Some (Inr (), s'))"
  proof -
    obtain r1 t1 where g: "driver_get env (link (jobs s job)) s = (r1, t1)"
      by (cases "driver_get env (link (jobs s job)) s")
    obtain r2 t2 where c: "check_for_premium_redirect env job 3 t1 = (r2, t2)"
      by (cases "check_for_premium_redirect env job 3 t1")
    show ?thesis
    proof (cases r1)
      case (Inl e)
      with g show ?thesis unfolding apply_to_job_is_job_apply job_apply_cases by simp
    next
      case (Inr u)
      note r1 = this
      show ?thesis
      proof (cases r2)
        case (Inl e)
        with g r1 c show ?thesis unfolding apply_to_job_is_job_apply job_apply_cases by simp
      next
        case (Inr u2)
        show ?thesis
        proof (cases "application_sequence env self job t2")
          case None
          with g r1 c Inr show ?thesis unfolding apply_to_job_is_job_apply job_apply_cases by simp
        next
          case (Some a)
          obtain r3 t3 where a: "a = (r3, t3)" by (cases a)
          with g r1 c Inr Some show ?thesis
            unfolding apply_to_job_is_job_apply job_apply_cases by (cases r3) auto
        qed
      qed
    qed
  qed
next
  assume a: "driver_get env (link (jobs s job)) s = (Inr (), s1) \<and>
        check_for_premium_redirect env job 3 s1 = (Inr (), s2) \<and>
        driver_execute_script env ''document.activeElement.blur();'' [] s2 = (Inr v, s3) \<and>
        check_for_premium_redirect env job 3 s3 = (Inr (), s4) \<and>
        find_easy_apply_button env job s4 = (Inl e0, s5)"
  then have "application_sequence env self job s2 = Some (Inl e0, s5)"
    using sequence_without_trigger by blast
  with a show "apply_to_job env self job s =
        Some (Inl (ExceptionTb ''Failed to apply to job! Original exception:'' e0),
              snd (discard_application env s5))"
    unfolding apply_to_job_is_job_apply job_apply_cases by simp
next
  show "\<exists>evs. trace (snd (discard_application env s5)) =
                  trace s5 @ FindElement (CLASS_NAME ''artdeco-modal__dismiss'') # evs"
    by (rule discard_application_trace)
qed

theorem apply_to_job_outcomes_witness:
  \<open>(\<exists>s' s1 b t s2 s3 s4.
       apply_to_job apply_page sample_applier 0 start = Some (Inr (), s') \<and>
       driver_find_element apply_page (CLASS_NAME ''artdeco-button--primary'') s1 = (Inr b, s2) \<and>
       element_text apply_page b s2 = (Inr t, s3) \<and>
       (contains ''submit application'' (lower t) \<or> contains ''enviar solicitud'' (lower t)) \<and>
       unfollow_company apply_page s3 = (Inr (), s4) \<and>
       click apply_page b s4 = (Inr (), s') \<and>
       trace s' = trace s4 @ [Click b])
   \<and> (\<exists>s' evs.
       apply_to_job premium_wall sample_applier 0 start =
         Some (Inl (Exception ''Redirected to Premium page and failed to return to job page.''), s') \<and>
       trace s' = trace start @ evs \<and> list_all navigational evs)
   \<and> (\<exists>s5. apply_to_job plain_page sample_applier 0 start =
          Some (Inl (ExceptionTb ''Failed to apply to job! Original exception:''
                      (Exception ''No clickable 'Easy Apply' button found'')),
                snd (discard_application plain_page s5)))\<close>
proof -
  obtain t1 t2 t' where
    "driver_get apply_page (link (jobs start 0)) start = (Inr (), t1) \<and>
     check_for_premium_redirect apply_page 0 3 t1 = (Inr (), t2) \<and>
     application_sequence apply_page sample_applier 0 t2 = Some (Inr (), t')"
    using apply_page_applied by blast
  then have a0: "apply_to_job apply_page sample_applier 0 start = Some (Inr (), t')"
    using apply_to_job_outcomes [where env = apply_page and self = sample_applier and job = 0
            and s = start and s' = t'] by blast
  have a1: "\<exists>s1 b t s2 s3 s4.
       driver_find_element apply_page (CLASS_NAME ''artdeco-button--primary'') s1 = (Inr b, s2) \<and>
       element_text apply_page b s2 = (Inr t, s3) \<and>
       (contains ''submit application'' (lower t) \<or> contains ''enviar solicitud'' (lower t)) \<and>
       unfollow_company apply_page s3 = (Inr (), s4) \<and>
       click apply_page b s4 = (Inr (), t') \<and>
       trace t' = trace s4 @ [Click b]"
    using apply_to_job_outcomes [where env = apply_page and self = sample_applier and job = 0
            and s = start and s' = t', THEN conjunct1] a0
    by (rule mp)
  have a: "\<exists>s' s1 b t s2 s3 s4.
       apply_to_job apply_page sample_applier 0 start = Some (Inr (), s') \<and>
       driver_find_element apply_page (CLASS_NAME ''artdeco-button--primary'') s1 = (Inr b, s2) \<and>
       element_text apply_page b s2 = (Inr t, s3) \<and>
       (contains ''submit application'' (lower t) \<or> contains ''enviar solicitud'' (lower t)) \<and>
       unfollow_company apply_page s3 = (Inr (), s4) \<and>
       click apply_page b s4 = (Inr (), s') \<and>
       trace s' = trace s4 @ [Click b]"
    using a0 a1 by blast
  obtain p' where p: "apply_to_job premium_wall sample_applier 0 start =
     Some (Inl (Exception ''Redirected to Premium page and failed to return to job page.''), p')"
    using premium_wall_attempt by blast
  have "(\<exists>evs. trace p' = trace start @ evs \<and> list_all navigational evs)
      \<or> (\<exists>cause s5. Exception ''Redirected to Premium page and failed to return to job page.'' =
              ExceptionTb ''Failed to apply to job! Original exception:'' cause \<and>
            p' = snd (discard_application premium_wall s5) \<and>
            (\<exists>evs. trace p' = trace s5 @ FindElement (CLASS_NAME ''artdeco-modal__dismiss'') # evs))"
    using apply_to_job_outcomes [where env = premium_wall and self = sample_applier and job = 0
            and s = start and s' = p'
            and e = "Exception ''Redirected to Premium page and failed to return to job page.''",
            THEN conjunct2, THEN conjunct1] p
    by (rule mp)
  then have "\<exists>evs. trace p' = trace start @ evs \<and> list_all navigational evs"
    by simp
  with p have c: "\<exists>s' evs.
       apply_to_job premium_wall sample_applier 0 start =
         Some (Inl (Exception ''Redirected to Premium page and failed to return to job page.''), s') \<and>
       trace s' = trace start @ evs \<and> list_all navigational evs"
    by blast
  obtain s1 where g: "driver_get plain_page (link (jobs start 0)) start = (Inr (), s1)"
    by (simp add: call_eq plain_page_def)
  obtain s2 where c2: "check_for_premium_redirect plain_page 0 3 s1 = (Inr (), s2)"
    using guard_passes [OF plain_url] by blast
  obtain v s3 where b1: "driver_execute_script plain_page ''document.activeElement.blur();'' [] s2 = (Inr v, s3)"
    by (simp add: call_eq plain_page_def)
  obtain s4 where b2: "check_for_premium_redirect plain_page 0 3 s3 = (Inr (), s4)"
    using guard_passes [OF plain_url] by blast
  obtain s5 where b3: \<open>find_easy_apply_button plain_page 0 s4 =
                         (Inl (Exception ''No clickable 'Easy Apply' button found''), s5)\<close>
    using locator_gives_up [of plain_page 0 s4] plain_url plain_scroll plain_none
    by (auto simp: plain_page_def)
  have b: \<open>apply_to_job plain_page sample_applier 0 start =
          Some (Inl (ExceptionTb ''Failed to apply to job! Original exception:''
                      (Exception ''No clickable 'Easy Apply' button found'')),
                snd (discard_application plain_page s5))\<close>
    using apply_to_job_outcomes [where env = plain_page and self = sample_applier and job = 0
            and s = start and ?s1.0 = s1 and ?s2.0 = s2 and v = v and ?s3.0 = s3 and ?s4.0 = s4
            and ?s5.0 = s5, THEN conjunct2, THEN conjunct2, THEN conjunct2] g c2 b1 b2 b3
    by blast
  show ?thesis using a b c by blast
qed


section \<open>Properties of the upload checks\<close>

lemma upload_resume_after_getsize:
  assumes "call (Getsize p) (os_getsize env p) s = (Inr n, s1)"
  shows "upload_resume env el job p s =
     (if n > 2 * 1024 * 1024
      then (Inl (ValueError ''Resume file size exceeds the maximum limit of 2 MB.''), s1)
      else if lower (snd (splitext p)) \<notin> {''.pdf'', ''.doc'', ''.docx''}
      then (Inl (ValueError ''Resume file format is not allowed. Only PDF, DOC, DOCX supported.''), s1)
      else bind (send_keys env el (os_abspath env p)) (\<lambda>_. set_pdf_path job (os_abspath env p)) s1)"
  unfolding upload_resume_def bind_def [of "call (Getsize p) (os_getsize env p)"]
  using assms by (simp add: Let_def raise_def)

lemma upload_cover_letter_after_getsize:
  assumes "call (Getsize p) (os_getsize env p) s = (Inr n, s1)"
  shows "upload_cover_letter env el job p s =
     (if n > 2 * 1024 * 1024
      then (Inl (ValueError ''Cover letter file size exceeds the maximum limit of 2 MB.''), s1)
      else if lower (snd (splitext p)) \<notin> {''.pdf'', ''.doc'', ''.docx''}
      then (Inl (ValueError ''Cover letter file format is not allowed (PDF, DOC, DOCX).''), s1)
      else bind (send_keys env el (os_abspath env p))
             (\<lambda>_. set_cover_letter_path job (os_abspath env p)) s1)"
  unfolding upload_cover_letter_def bind_def [of "call (Getsize p) (os_getsize env p)"]
  using assms by (simp add: Let_def raise_def)

lemma create_and_upload_resume_after_loop:
  assumes "call (Makedirs ''generated_cv'') (os_makedirs env ''generated_cv'') s0 = (Inr (), s2)"
      and "generate_resume env job s2 = Some (Inr p, s)"
  shows "create_and_upload_resume env el job s0 = Some (upload_resume env el job p s)"
  using assms by (simp add: create_and_upload_resume_def pbind_def lift_def)

lemma digit_table: "n < 10 \<Longrightarrow> ''0123456789'' ! n \<in> set ''0123456789''"
  by (rule nth_mem) simp

lemma str_nat_digits: "set (str_nat n) \<subseteq> set ''0123456789''"
proof (induction n rule: str_nat.induct)
  case (1 n)
  show ?case
  proof (cases "n < 10")
    case True
    then show ?thesis using digit_table [of n] by (subst str_nat.simps) simp
  next
    case False
    have "n mod 10 < 10" by simp
    then have "''0123456789'' ! (n mod 10) \<in> set ''0123456789''" by (rule digit_table)
    with False 1 show ?thesis by (subst str_nat.simps) simp
  qed
qed

lemma str_int_chars: "c \<in> set (str_int i) \<Longrightarrow> c \<noteq> CHR ''/'' \<and> c \<noteq> CHR ''.''"
  using str_nat_digits by (auto simp: str_int_def split: if_splits)

lemma splitext_built:
  assumes "CHR ''/'' \<notin> set stem" "CHR ''.'' \<notin> set stem" "stem \<noteq> []"
  shows "splitext (folder @ ''/'' @ stem @ ''.pdf'') = (folder @ ''/'' @ stem, ''.pdf'')"
proof -
  let ?p = "folder @ ''/'' @ stem @ ''.pdf''"
  have rp: "rev ?p = ''fdp.'' @ rev stem @ ''/'' @ rev folder" by simp
  have tw: "takeWhile (\<lambda>c. c \<noteq> CHR ''/'') (rev stem @ ''/'' @ rev folder) = rev stem"
    using assms(1) by (subst takeWhile_append2) auto
  have name: "rev (takeWhile (\<lambda>c. c \<noteq> CHR ''/'') (rev ?p)) = stem @ ''.pdf''"
    unfolding rp using tw by simp
  have ext: "rev (takeWhile (\<lambda>c. c \<noteq> CHR ''.'') (rev (stem @ ''.pdf''))) = ''pdf''"
    by simp
  have dw: "dropWhile (\<lambda>c. c = CHR ''.'') stem = stem"
    using assms(2,3) by (cases stem) auto
  show ?thesis
    unfolding splitext_def name Let_def ext using assms(3) dw by simp
qed

lemma built_path_ext:
  "lower (snd (splitext (path_join ''generated_cv'' (''CV_'' @ str_int ts @ ''.pdf'')))) = ''.pdf''"
  "lower (snd (splitext (path_join ''generated_cv'' (''Cover_Letter_'' @ str_int ts @ ''.pdf'')))) = ''.pdf''"
proof -
  have a: "CHR ''/'' \<notin> set (''CV_'' @ str_int ts)" "CHR ''.'' \<notin> set (''CV_'' @ str_int ts)"
    using str_int_chars [of _ ts] by auto
  have b: "CHR ''/'' \<notin> set (''Cover_Letter_'' @ str_int ts)" "CHR ''.'' \<notin> set (''Cover_Letter_'' @ str_int ts)"
    using str_int_chars [of _ ts] by auto
  have l: "lower ''.pdf'' = ''.pdf''" by code_simp
  show "lower (snd (splitext (path_join ''generated_cv'' (''CV_'' @ str_int ts @ ''.pdf'')))) = ''.pdf''"
    using splitext_built [OF a, of "''generated_cv''"] l by (simp add: path_join_def)
  show "lower (snd (splitext (path_join ''generated_cv'' (''Cover_Letter_'' @ str_int ts @ ''.pdf'')))) = ''.pdf''"
    using splitext_built [OF b, of "''generated_cv''"] l by (simp add: path_join_def)
qed

lemma generate_once_run:
  assumes "time_time env (world s) = (ts, w2)"
      and "p = path_join ''generated_cv'' (''CV_'' @ str_int ts @ ''.pdf'')"
      and "pdf_base64 env (description (jobs s job)) w2 = (Inr b64, w3)"
      and "open_xb env p w3 = (Inr (), w4)"
      and "b64decode env b64 = Inr d"
      and "file_write env p d w4 = (Inr (), w5)"
  shows "generate_once env job s =
           (Inr p, s\<lparr>world := w5,
                    trace := trace s @ [Time, PdfBase64 (description (jobs s job)), OpenXb p, FileWrite p]\<rparr>)"
  using assms
  by (simp add: generate_once_def bind_def call_def call_total_def return_def Let_def)

lemma resume_checked:
  assumes "os_makedirs env ''generated_cv'' (world s) = (Inr (), w1)"
      and "time_time env w1 = (ts, w2)"
      and "p = path_join ''generated_cv'' (''CV_'' @ str_int ts @ ''.pdf'')"
      and "pdf_base64 env (description (jobs s job)) w2 = (Inr b64, w3)"
      and "open_xb env p w3 = (Inr (), w4)"
      and "b64decode env b64 = Inr d"
      and "file_write env p d w4 = (Inr (), w5)"
      and "os_getsize env p w5 = (Inr n, w6)"
  shows "create_and_upload_resume env el job s =
     Some (if n > 2 * 1024 * 1024
      then (Inl (ValueError ''Resume file size exceeds the maximum limit of 2 MB.''),
            s\<lparr>world := w6,
              trace := trace s @ [Makedirs ''generated_cv'', Time, PdfBase64 (description (jobs s job)),
                                  OpenXb p, FileWrite p, Getsize p]\<rparr>)
      else bind (send_keys env el (os_abspath env p)) (\<lambda>_. set_pdf_path job (os_abspath env p))
            (s\<lparr>world := w6,
              trace := trace s @ [Makedirs ''generated_cv'', Time, PdfBase64 (description (jobs s job)),
                                  OpenXb p, FileWrite p, Getsize p]\<rparr>))"
proof -
  let ?s1 = "s\<lparr>world := w1, trace := trace s @ [Makedirs ''generated_cv'']\<rparr>"
  let ?s5 = "?s1\<lparr>world := w5,
                    trace := trace ?s1 @ [Time, PdfBase64 (description (jobs ?s1 job)), OpenXb p, FileWrite p]\<rparr>"
  have m: "call (Makedirs ''generated_cv'') (os_makedirs env ''generated_cv'') s = (Inr (), ?s1)"
    using assms(1) by (simp add: call_def)
  have g: "generate_once env job ?s1 = (Inr p, ?s5)"
    by (rule generate_once_run [where ts = ts and ?w2.0 = w2 and ?w3.0 = w3 and ?w4.0 = w4 and d = d and ?b64.0 = b64])
       (use assms in simp_all)
  have l: "generate_resume env job ?s1 = Some (Inr p, ?s5)"
    by (subst generate_resume.simps) (simp add: g)
  have z: "call (Getsize p) (os_getsize env p) ?s5 = (Inr n, ?s5\<lparr>world := w6, trace := trace ?s5 @ [Getsize p]\<rparr>)"
    using assms(8) by (simp add: call_def)
  have e: "lower (snd (splitext p)) = ''.pdf''"
    unfolding assms(3) by (rule built_path_ext)
  show ?thesis
    unfolding create_and_upload_resume_after_loop [OF m l] upload_resume_after_getsize [OF z] e
    by simp
qed

lemma cover_letter_checked:
  assumes "answer_question_textual_wide_range env (answerer self) ''Write a cover letter'' s = (Inr (JStr t), s1)"
      and "os_makedirs env ''generated_cv'' (world s1) = (Inr (), w1)"
      and "time_time env w1 = (ts, w2)"
      and "p = path_join ''generated_cv'' (''Cover_Letter_'' @ str_int ts @ ''.pdf'')"
      and "canvas_save env p t w2 = (Inr (), w3)"
      and "os_getsize env p w3 = (Inr n, w4)"
  shows "create_and_upload_cover_letter env self el job s =
     (if n > 2 * 1024 * 1024
      then (Inl (ValueError ''Cover letter file size exceeds the maximum limit of 2 MB.''),
            s1\<lparr>world := w4,
               trace := trace s1 @ [Makedirs ''generated_cv'', Time, CanvasSave p, Getsize p]\<rparr>)
      else bind (send_keys env el (os_abspath env p)) (\<lambda>_. set_cover_letter_path job (os_abspath env p))
            (s1\<lparr>world := w4,
               trace := trace s1 @ [Makedirs ''generated_cv'', Time, CanvasSave p, Getsize p]\<rparr>))"
proof -
  let ?s3 = "s1\<lparr>world := w3, trace := trace s1 @ [Makedirs ''generated_cv'', Time, CanvasSave p]\<rparr>"
  have z: "call (Getsize p) (os_getsize env p) ?s3 = (Inr n, ?s3\<lparr>world := w4, trace := trace ?s3 @ [Getsize p]\<rparr>)"
    using assms(6) by (simp add: call_def)
  have e: "lower (snd (splitext p)) = ''.pdf''"
    unfolding assms(4) by (rule built_path_ext)
  have "create_and_upload_cover_letter env self el job s = upload_cover_letter env el job p ?s3"
    using assms(1,2,3,5) unfolding assms(4)
    by (simp add: create_and_upload_cover_letter_def bind_def call_def call_total_def Let_def)
  then show ?thesis
    unfolding upload_cover_letter_after_getsize [OF z] e by simp
qed

lemma generate_once_path:
  assumes "generate_once env job s = (Inr q, s1)"
  shows "\<exists>ts. q = path_join ''generated_cv'' (''CV_'' @ str_int ts @ ''.pdf'')"
  using assms
  by (auto simp: generate_once_def bind_def call_total_def call_def return_def raise_def Let_def
      split: prod.splits sum.splits)

lemma generate_resume_path:
  assumes a: "generate_resume (env :: 'a env) job s = Some (Inr q, s')"
  shows "lower (snd (splitext q)) = ''.pdf''"
proof -
  have "\<forall>q' s''. (Inr q :: exn + string, s') = (Inr q', s'') \<longrightarrow> lower (snd (splitext q')) = ''.pdf''"
  proof (rule generate_resume.raw_induct
           [where P = "\<lambda>(env :: 'a env) (job :: job_ref) (s :: 'a session) y.
                         \<forall>q (s' :: 'a session). y = (Inr q, s') \<longrightarrow> lower (snd (splitext q)) = ''.pdf''",
            OF _ a])
    fix f :: "'a env \<Rightarrow> job_ref \<Rightarrow> 'a session \<Rightarrow> ((exn + string) \<times> 'a session) option"
    fix env job s y
    assume IH: "\<And>env job s y. f env job s = Some y \<Longrightarrow>
                  \<forall>q s'. y = (Inr q, s') \<longrightarrow> lower (snd (splitext q)) = ''.pdf''"
      and body: "(case generate_once env job s of
        (Inr file_path_pdf, s1) \<Rightarrow> Some (Inr file_path_pdf, s1)
      | (Inl e, s1) \<Rightarrow>
          (case e of
             HTTPStatusError code header \<Rightarrow>
               if code = 429 then
                 (case py_int (case header of None \<Rightarrow> ''20''
                                | Some h \<Rightarrow> if h = [] then ''20'' else h) of
                    Inl e' \<Rightarrow> Some (Inl e', s1)
                  | Inr wait_time \<Rightarrow>
                      (case sleep wait_time s1 of
                         (Inl e', s2) \<Rightarrow> Some (Inl e', s2)
                       | (Inr _, s2) \<Rightarrow> f env job s2))
               else Some (Inl e, s1)
           | _ \<Rightarrow>
               if contains ''RateLimitError'' (exn_str e)
               then (case sleep 20 s1 of
                       (Inl e', s2) \<Rightarrow> Some (Inl e', s2)
                     | (Inr _, s2) \<Rightarrow> f env job s2)
               else Some (Inl e, s1))) = Some y"
    obtain r s1 where g: "generate_once env job s = (r, s1)" by (cases "generate_once env job s")
    show "\<forall>q s'. y = (Inr q, s') \<longrightarrow> lower (snd (splitext q)) = ''.pdf''"
    proof (cases r)
      case (Inr p)
      with g body have y: "y = (Inr p, s1)" by simp
      obtain ts where "p = path_join ''generated_cv'' (''CV_'' @ str_int ts @ ''.pdf'')"
        using generate_once_path g Inr by blast
      then have "lower (snd (splitext p)) = ''.pdf''" by (simp only: built_path_ext)
      with y show ?thesis by simp
    next
      case (Inl e)
      have "(\<exists>e' s2. y = (Inl e', s2)) \<or> (\<exists>s2. f env job s2 = Some y)"
        using body unfolding g Inl
        by (cases e) (auto split: if_splits sum.splits prod.splits)
      then show ?thesis using IH by auto
    qed
  qed
  then show ?thesis by simp
qed

lemma form_labels:
  "contains ''resume'' (resume_or_cover (lower ''Upload resume''))"
  "contains ''submit application'' (lower ''Submit application'')"
  "\<not> contains ''submit application'' (lower ''Next'')"
  "\<not> contains ''enviar solicitud'' (lower ''Next'')"
  by code_simp+

lemma resume_form_button: "find_easy_apply_button resume_form 0 s =
   (Inr 5, s\<lparr>trace := trace s @ [CurrentUrl, FindElement (TAG_NAME ''html''),
         ExecuteScript ''return arguments[0].scrollHeight'' [ArgElement 0],
         ExecuteScript ''return arguments[0].scrollHeight'' [ArgElement 0],
         FindElements (XPATH (method_xpath (search_methods ! 0))),
         UntilPresence (XPATH (method_xpath (search_methods ! 1))),
         UntilVisibility 5, UntilClickable 5]\<rparr>)"
  by (simp add: find_easy_apply_button_def find_rounds.simps [of _ _ 0]
      run check_for_premium_redirect_def premium_loop.simps not_premium_job_page
      scroll_page_def scroll_slow_def as_index_def py_range_0 search_methods_def try_method_def
      resume_form_def apply_page_def plain_page_def)

lemmas resume_form_page = resume_form_def apply_page_def plain_page_def

lemma resume_form_step:
  "fill_up resume_form sample_applier 0 s =
     Some (Inr (), s\<lparr>trace := trace s @
        [UntilPresence (CLASS_NAME ''jobs-easy-apply-content''),
         ElementFindElements 6 (CLASS_NAME ''pb4''),
         ElementFindElements 7 (XPATH ''.//input[@type='file']''),
         FindElement (XPATH ''//button[contains(@aria-label, 'Show more resumes')]''),
         FindElements (XPATH ''//input[@type='file']''),
         ElementFindElement 8 (XPATH ''..''),
         ExecuteScript ''arguments[0].classList.remove('hidden')'' [ArgElement 8],
         Text 9,
         Makedirs ''generated_cv'',
         Time,
         PdfBase64 (description (jobs s 0)),
         OpenXb (path_join ''generated_cv'' (''CV_'' @ str_int (1700000000 + int (world s)) @ ''.pdf'')),
         FileWrite (path_join ''generated_cv'' (''CV_'' @ str_int (1700000000 + int (world s)) @ ''.pdf'')),
         Getsize (path_join ''generated_cv'' (''CV_'' @ str_int (1700000000 + int (world s)) @ ''.pdf''))]\<rparr>)"
  by (simp add: fill_up_def process_form_element_def is_upload_field_def handle_upload_fields_def
      upload_field_def create_and_upload_resume_def generate_resume.simps generate_once_def
      upload_resume_def call_total_def Let_def sample_applier_def
      run form_labels resume_form_page)

lemma resume_form_next:
  "world s = 0 \<Longrightarrow> next_or_submit resume_form s =
     (Inr False, s\<lparr>world := 1, trace := trace s @
        [FindElement (CLASS_NAME ''artdeco-button--primary''), Text 3, Click 3,
         FindElements (CLASS_NAME ''artdeco-inline-feedback--error'')]\<rparr>)"
  by (simp add: next_or_submit_def check_for_errors_def run form_labels resume_form_page)

lemma resume_form_submit:
  "world s = Suc n \<Longrightarrow> next_or_submit resume_form s =
     (Inr True, s\<lparr>world := Suc (Suc n), trace := trace s @
        [FindElement (CLASS_NAME ''artdeco-button--primary''), Text 3,
         FindElement (XPATH ''//label[contains(.,'to stay up to date with their page.')]''),
         Click 3]\<rparr>)"
  by (simp add: next_or_submit_def unfollow_company_def run form_labels resume_form_page)

lemma resume_form_guard:
  "check_for_premium_redirect resume_form 0 3 s = (Inr (), s\<lparr>trace := trace s @ [CurrentUrl]\<rparr>)"
  by (simp add: check_for_premium_redirect_def premium_loop.simps not_premium_job_page run resume_form_page)

lemma resume_form_description:
  \<open>get_job_description resume_form s =
     (Inr ''We sell things.'',
      s\<lparr>trace := trace s @
         [FindElement (XPATH ''//button[@aria-label="Click to see more description"]''),
          FindElement (CLASS_NAME ''jobs-description-content__text''), Text 2]\<rparr>)\<close>
  by (simp add: get_job_description_def run resume_form_page)

lemma resume_form_recruiter:
  \<open>get_job_recruiter resume_form s =
     (Inr [], s\<lparr>trace := trace s @ [UntilPresence (XPATH ''//h2[text()="Meet the hiring team"]'')]\<rparr>)\<close>
  by (simp add: get_job_recruiter_def run search_methods_def resume_form_page)

lemma resume_form_calls:
  "driver_get resume_form url s = (Inr (), s\<lparr>trace := trace s @ [Get url]\<rparr>)"
  "driver_execute_script resume_form ''document.activeElement.blur();'' [] s =
     (Inr JNull, s\<lparr>trace := trace s @ [ExecuteScript ''document.activeElement.blur();'' []]\<rparr>)"
  "move_to_element_click resume_form b s = (Inr (), s\<lparr>trace := trace s @ [ChainClick b]\<rparr>)"
  by (simp_all add: call_def resume_form_page)


text \<open>
  Claim C7, as the specification states it: a violation raises a terminal error and is
  never retried. On the page whose form asks for a resume in every step, with every file
  one byte over 2 MiB, the attempt returns normally: the error of the first step is logged
  by \<open>fill_up\<close>, the form goes on, the second step generates a resume again, and the
  application is submitted though no file was handed to the page.
\<close>

theorem oversized_resume_generated_again:
  "filter generation_or_upload
     (trace (snd (the (apply_to_job resume_form sample_applier 0 start)))) =
   [PdfBase64 ''We sell things.'', PdfBase64 ''We sell things.'']
   \<and> map_option fst (apply_to_job resume_form sample_applier 0 start) = Some (Inr ())"
  by (simp add: apply_to_job_def job_apply_def application_sequence_def
      resume_form_calls resume_form_guard resume_form_button resume_form_description
      resume_form_recruiter
      set_job_description_def set_recruiter_link_def set_current_job_def set_job_def
      fill_application_form.simps resume_form_step resume_form_next resume_form_submit
      generation_or_upload_def start_def sample_job_def
      pbind_def pcatch_def lift_def catch_def raise_def)

text \<open>
  Claim C7, amended: what the two functions do with the file they have made. When the
  first generation of \<open>_create_and_upload_resume\<close> succeeds (folder, clock, generator,
  exclusive creation of the file, decoding and writing) and the size of the file is read,
  a size above 2 MiB (2097152 bytes) raises the \<open>ValueError\<close> in the state right after the
  size was read, so that nothing was sent and nothing generated again, and a size of at
  most 2 MiB hands the file to the page and notes its path in the job. The same holds for
  \<open>_create_and_upload_cover_letter\<close> once the answerer has returned a text and the
  document is saved. The check of the extension cannot fail: the cover letter's path and
  every path the generation loop returns end in \<open>.pdf\<close>. The error does not end the
  attempt: \<open>fill_up\<close> returns normally whatever was raised while it filled the step.
\<close>

theorem upload_validation:
  "(os_makedirs env ''generated_cv'' (world s) = (Inr (), w1) \<and>
    time_time env w1 = (ts, w2) \<and>
    p = path_join ''generated_cv'' (''CV_'' @ str_int ts @ ''.pdf'') \<and>
    pdf_base64 env (description (jobs s job)) w2 = (Inr b64, w3) \<and>
    open_xb env p w3 = (Inr (), w4) \<and>
    b64decode env b64 = Inr d \<and>
    file_write env p d w4 = (Inr (), w5) \<and>
    os_getsize env p w5 = (Inr n, w6) \<longrightarrow>
      (n > 2 * 1024 * 1024 \<longrightarrow>
         create_and_upload_resume env el job s =
           Some (Inl (ValueError ''Resume file size exceeds the maximum limit of 2 MB.''),
                 s\<lparr>world := w6,
                   trace := trace s @ [Makedirs ''generated_cv'', Time,
                                       PdfBase64 (description (jobs s job)),
                                       OpenXb p, FileWrite p, Getsize p]\<rparr>))
      \<and> (n \<le> 2 * 1024 * 1024 \<and> elem_send_keys env el (os_abspath env p) w6 = (Inr (), w7) \<longrightarrow>
         create_and_upload_resume env el job s =
           Some (Inr (),
                 s\<lparr>world := w7,
                   trace := trace s @ [Makedirs ''generated_cv'', Time,
                                       PdfBase64 (description (jobs s job)),
                                       OpenXb p, FileWrite p, Getsize p,
                                       SendKeys el (os_abspath env p)],
                   jobs := (jobs s)(job := (jobs s job)\<lparr>pdf_path := Some (os_abspath env p)\<rparr>)\<rparr>)))
   \<and> (answer_question_textual_wide_range env (answerer self) ''Write a cover letter'' s = (Inr (JStr t), s1) \<and>
      os_makedirs env ''generated_cv'' (world s1) = (Inr (), u1) \<and>
      time_time env u1 = (tc, u2) \<and>
      c = path_join ''generated_cv'' (''Cover_Letter_'' @ str_int tc @ ''.pdf'') \<and>
      canvas_save env c t u2 = (Inr (), u3) \<and>
      os_getsize env c u3 = (Inr m, u4) \<longrightarrow>
      (m > 2 * 1024 * 1024 \<longrightarrow>
         create_and_upload_cover_letter env self el job s =
           (Inl (ValueError ''Cover letter file size exceeds the maximum limit of 2 MB.''),
            s1\<lparr>world := u4,
               trace := trace s1 @ [Makedirs ''generated_cv'', Time, CanvasSave c, Getsize c]\<rparr>))
      \<and> (m \<le> 2 * 1024 * 1024 \<and> elem_send_keys env el (os_abspath env c) u4 = (Inr (), u5) \<longrightarrow>
         create_and_upload_cover_letter env self el job s =
           (Inr (),
            s1\<lparr>world := u5,
               trace := trace s1 @ [Makedirs ''generated_cv'', Time, CanvasSave c, Getsize c,
                                    SendKeys el (os_abspath env c)],
               jobs := (jobs s1)(job := (jobs s1 job)\<lparr>cover_letter_path := Some (os_abspath env c)\<rparr>)\<rparr>)))
   \<and> (generate_resume env job s = Some (Inr q, s') \<longrightarrow> lower (snd (splitext q)) = ''.pdf'')
   \<and> (fill_up env self job s = Some (r, s') \<longrightarrow> r = Inr ())"
proof (intro conjI impI)
  assume h: "os_makedirs env ''generated_cv'' (world s) = (Inr (), w1) \<and>
    time_time env w1 = (ts, w2) \<and>
    p = path_join ''generated_cv'' (''CV_'' @ str_int ts @ ''.pdf'') \<and>
    pdf_base64 env (description (jobs s job)) w2 = (Inr b64, w3) \<and>
    open_xb env p w3 = (Inr (), w4) \<and>
    b64decode env b64 = Inr d \<and>
    file_write env p d w4 = (Inr (), w5) \<and>
    os_getsize env p w5 = (Inr n, w6)"
  then have h1: "os_makedirs env ''generated_cv'' (world s) = (Inr (), w1)"
    and h2: "time_time env w1 = (ts, w2)"
    and h3: "p = path_join ''generated_cv'' (''CV_'' @ str_int ts @ ''.pdf'')"
    and h4: "pdf_base64 env (description (jobs s job)) w2 = (Inr b64, w3)"
    and h5: "open_xb env p w3 = (Inr (), w4)"
    and h6: "b64decode env b64 = Inr d"
    and h7: "file_write env p d w4 = (Inr (), w5)"
    and h8: "os_getsize env p w5 = (Inr n, w6)"
    by blast+
  note r = resume_checked [OF h1 h2 h3 h4 h5 h6 h7 h8, of el]
  {
    assume "n > 2 * 1024 * 1024"
    then show "create_and_upload_resume env el job s =
           Some (Inl (ValueError ''Resume file size exceeds the maximum limit of 2 MB.''),
                 s\<lparr>world := w6,
                   trace := trace s @ [Makedirs ''generated_cv'', Time,
                                       PdfBase64 (description (jobs s job)),
                                       OpenXb p, FileWrite p, Getsize p]\<rparr>)"
      unfolding r by simp
  next
    assume "n \<le> 2 * 1024 * 1024 \<and> elem_send_keys env el (os_abspath env p) w6 = (Inr (), w7)"
    then show "create_and_upload_resume env el job s =
           Some (Inr (),
                 s\<lparr>world := w7,
                   trace := trace s @ [Makedirs ''generated_cv'', Time,
                                       PdfBase64 (description (jobs s job)),
                                       OpenXb p, FileWrite p, Getsize p,
                                       SendKeys el (os_abspath env p)],
                   jobs := (jobs s)(job := (jobs s job)\<lparr>pdf_path := Some (os_abspath env p)\<rparr>)\<rparr>)"
      unfolding r by (simp add: bind_def call_def set_pdf_path_def)
  }
next
  assume h: "answer_question_textual_wide_range env (answerer self) ''Write a cover letter'' s = (Inr (JStr t), s1) \<and>
      os_makedirs env ''generated_cv'' (world s1) = (Inr (), u1) \<and>
      time_time env u1 = (tc, u2) \<and>
      c = path_join ''generated_cv'' (''Cover_Letter_'' @ str_int tc @ ''.pdf'') \<and>
      canvas_save env c t u2 = (Inr (), u3) \<and>
      os_getsize env c u3 = (Inr m, u4)"
  then have h1: "answer_question_textual_wide_range env (answerer self) ''Write a cover letter'' s = (Inr (JStr t), s1)"
    and h2: "os_makedirs env ''generated_cv'' (world s1) = (Inr (), u1)"
    and h3: "time_time env u1 = (tc, u2)"
    and h4: "c = path_join ''generated_cv'' (''Cover_Letter_'' @ str_int tc @ ''.pdf'')"
    and h5: "canvas_save env c t u2 = (Inr (), u3)"
    and h6: "os_getsize env c u3 = (Inr m, u4)"
    by blast+
  note r = cover_letter_checked [OF h1 h2 h3 h4 h5 h6, of el job]
  {
    assume "m > 2 * 1024 * 1024"
    then show "create_and_upload_cover_letter env self el job s =
           (Inl (ValueError ''Cover letter file size exceeds the maximum limit of 2 MB.''),
            s1\<lparr>world := u4,
               trace := trace s1 @ [Makedirs ''generated_cv'', Time, CanvasSave c, Getsize c]\<rparr>)"
      unfolding r by simp
  next
    assume "m \<le> 2 * 1024 * 1024 \<and> elem_send_keys env el (os_abspath env c) u4 = (Inr (), u5)"
    then show "create_and_upload_cover_letter env self el job s =
           (Inr (),
            s1\<lparr>world := u5,
               trace := trace s1 @ [Makedirs ''generated_cv'', Time, CanvasSave c, Getsize c,
                                    SendKeys el (os_abspath env c)],
               jobs := (jobs s1)(job := (jobs s1 job)\<lparr>cover_letter_path := Some (os_abspath env c)\<rparr>)\<rparr>)"
      unfolding r by (simp add: bind_def call_def set_cover_letter_path_def)
  }
next
  assume "generate_resume env job s = Some (Inr q, s')"
  then show "lower (snd (splitext q)) = ''.pdf''" by (rule generate_resume_path)
next
  assume "fill_up env self job s = Some (r, s')"
  then show "r = Inr ()" by (rule fill_up_returns)
qed

lemma str_int_clock: "str_int 1700000000 = ''1700000000''"
  by (simp add: str_int_def str_nat.simps)

lemma lower_gemini: "lower ''gemini'' = ''gemini''"
  by code_simp

lemma plain_page_cover_text:
  "answer_question_textual_wide_range plain_page gemini ''Write a cover letter'' start =
     (Inr (JStr fallback_text),
      start\<lparr>trace := [Post (JStr ''https://llm.example/v1/answer'')
                         (JObj [(''prompt'', JStr ''Write a cover letter''),
                                (''model'', JStr ''gemini-pro'')])]\<rparr>)"
  by (simp add: answer_question_textual_wide_range_def str_lower_def truthy_def http_post_def
      gemini_def run plain_page_def start_def lower_gemini)

lemma big_files_cover_text:
  "answer_question_textual_wide_range big_files gemini ''Write a cover letter'' start =
     (Inr (JStr fallback_text),
      start\<lparr>trace := [Post (JStr ''https://llm.example/v1/answer'')
                         (JObj [(''prompt'', JStr ''Write a cover letter''),
                                (''model'', JStr ''gemini-pro'')])]\<rparr>)"
  by (simp add: answer_question_textual_wide_range_def str_lower_def truthy_def http_post_def
      gemini_def run big_files_def plain_page_def start_def lower_gemini)

theorem upload_validation_witness:
  "create_and_upload_resume big_files 8 0 start =
     Some (Inl (ValueError ''Resume file size exceeds the maximum limit of 2 MB.''),
           start\<lparr>trace := [Makedirs ''generated_cv'', Time, PdfBase64 [],
                             OpenXb ''generated_cv/CV_1700000000.pdf'',
                             FileWrite ''generated_cv/CV_1700000000.pdf'',
                             Getsize ''generated_cv/CV_1700000000.pdf'']\<rparr>)
   \<and> create_and_upload_resume plain_page 8 0 start =
     Some (Inr (),
           start\<lparr>trace := [Makedirs ''generated_cv'', Time, PdfBase64 [],
                             OpenXb ''generated_cv/CV_1700000000.pdf'',
                             FileWrite ''generated_cv/CV_1700000000.pdf'',
                             Getsize ''generated_cv/CV_1700000000.pdf'',
                             SendKeys 8 ''/app/generated_cv/CV_1700000000.pdf''],
                 jobs := (jobs start)
                   (0 := (jobs start 0)\<lparr>pdf_path := Some ''/app/generated_cv/CV_1700000000.pdf''\<rparr>)\<rparr>)
   \<and> create_and_upload_cover_letter big_files sample_applier 8 0 start =
     (Inl (ValueError ''Cover letter file size exceeds the maximum limit of 2 MB.''),
      start\<lparr>trace := [Post (JStr ''https://llm.example/v1/answer'')
                         (JObj [(''prompt'', JStr ''Write a cover letter''),
                                (''model'', JStr ''gemini-pro'')]),
                        Makedirs ''generated_cv'', Time,
                        CanvasSave ''generated_cv/Cover_Letter_1700000000.pdf'',
                        Getsize ''generated_cv/Cover_Letter_1700000000.pdf'']\<rparr>)
   \<and> create_and_upload_cover_letter plain_page sample_applier 8 0 start =
     (Inr (),
      start\<lparr>trace := [Post (JStr ''https://llm.example/v1/answer'')
                         (JObj [(''prompt'', JStr ''Write a cover letter''),
                                (''model'', JStr ''gemini-pro'')]),
                        Makedirs ''generated_cv'', Time,
                        CanvasSave ''generated_cv/Cover_Letter_1700000000.pdf'',
                        Getsize ''generated_cv/Cover_Letter_1700000000.pdf'',
                        SendKeys 8 ''/app/generated_cv/Cover_Letter_1700000000.pdf''],
            jobs := (jobs start)
              (0 := (jobs start 0)\<lparr>cover_letter_path :=
                                       Some ''/app/generated_cv/Cover_Letter_1700000000.pdf''\<rparr>)\<rparr>)"
proof -
  have w: "world start = 0" "trace start = []" "description (jobs start 0) = []"
    by (simp_all add: start_def sample_job_def)
  have a: "create_and_upload_resume big_files 8 0 start =
     Some (Inl (ValueError ''Resume file size exceeds the maximum limit of 2 MB.''),
           start\<lparr>trace := [Makedirs ''generated_cv'', Time, PdfBase64 [],
                             OpenXb ''generated_cv/CV_1700000000.pdf'',
                             FileWrite ''generated_cv/CV_1700000000.pdf'',
                             Getsize ''generated_cv/CV_1700000000.pdf'']\<rparr>)"
    using upload_validation [where env = big_files and s = start and ?w1.0 = 0 and ts = 1700000000
        and ?w2.0 = 0 and p = "''generated_cv/CV_1700000000.pdf''" and job = 0
        and ?b64.0 = "''JVBERi0=''" and ?w3.0 = 0 and ?w4.0 = 0 and d = "''JVBERi0=''"
        and ?w5.0 = 0 and n = "2 * 1024 * 1024 + 1" and ?w6.0 = 0 and el = 8]
    by (simp add: w big_files_def plain_page_def path_join_def str_int_clock)
  have b: "create_and_upload_resume plain_page 8 0 start =
     Some (Inr (),
           start\<lparr>trace := [Makedirs ''generated_cv'', Time, PdfBase64 [],
                             OpenXb ''generated_cv/CV_1700000000.pdf'',
                             FileWrite ''generated_cv/CV_1700000000.pdf'',
                             Getsize ''generated_cv/CV_1700000000.pdf'',
                             SendKeys 8 ''/app/generated_cv/CV_1700000000.pdf''],
                 jobs := (jobs start)
                   (0 := (jobs start 0)\<lparr>pdf_path := Some ''/app/generated_cv/CV_1700000000.pdf''\<rparr>)\<rparr>)"
    using upload_validation [where env = plain_page and s = start and ?w1.0 = 0 and ts = 1700000000
        and ?w2.0 = 0 and p = "''generated_cv/CV_1700000000.pdf''" and job = 0
        and ?b64.0 = "''JVBERi0=''" and ?w3.0 = 0 and ?w4.0 = 0 and d = "''JVBERi0=''"
        and ?w5.0 = 0 and n = 1000 and ?w6.0 = 0 and el = 8 and ?w7.0 = 0]
    by (simp add: w plain_page_def path_join_def str_int_clock)
  let ?s1 = "start\<lparr>trace := [Post (JStr ''https://llm.example/v1/answer'')
                         (JObj [(''prompt'', JStr ''Write a cover letter''),
                                (''model'', JStr ''gemini-pro'')])]\<rparr>"
  have c: "create_and_upload_cover_letter big_files sample_applier 8 0 start =
     (Inl (ValueError ''Cover letter file size exceeds the maximum limit of 2 MB.''),
      start\<lparr>trace := [Post (JStr ''https://llm.example/v1/answer'')
                         (JObj [(''prompt'', JStr ''Write a cover letter''),
                                (''model'', JStr ''gemini-pro'')]),
                        Makedirs ''generated_cv'', Time,
                        CanvasSave ''generated_cv/Cover_Letter_1700000000.pdf'',
                        Getsize ''generated_cv/Cover_Letter_1700000000.pdf'']\<rparr>)"
    using upload_validation [where env = big_files and self = sample_applier and s = start
        and t = fallback_text and ?s1.0 = ?s1 and ?u1.0 = 0 and tc = 1700000000 and ?u2.0 = 0
        and c = "''generated_cv/Cover_Letter_1700000000.pdf''" and ?u3.0 = 0
        and m = "2 * 1024 * 1024 + 1" and ?u4.0 = 0 and el = 8 and job = 0]
      big_files_cover_text
    by (simp add: w sample_applier_def big_files_def plain_page_def path_join_def str_int_clock)
      
  have d: "create_and_upload_cover_letter plain_page sample_applier 8 0 start =
     (Inr (),
      start\<lparr>trace := [Post (JStr ''https://llm.example/v1/answer'')
                         (JObj [(''prompt'', JStr ''Write a cover letter''),
                                (''model'', JStr ''gemini-pro'')]),
                        Makedirs ''generated_cv'', Time,
                        CanvasSave ''generated_cv/Cover_Letter_1700000000.pdf'',
                        Getsize ''generated_cv/Cover_Letter_1700000000.pdf'',
                        SendKeys 8 ''/app/generated_cv/Cover_Letter_1700000000.pdf''],
            jobs := (jobs start)
              (0 := (jobs start 0)\<lparr>cover_letter_path :=
                                       Some ''/app/generated_cv/Cover_Letter_1700000000.pdf''\<rparr>)\<rparr>)"
    using upload_validation [where env = plain_page and self = sample_applier and s = start
        and t = fallback_text and ?s1.0 = ?s1 and ?u1.0 = 0 and tc = 1700000000 and ?u2.0 = 0
        and c = "''generated_cv/Cover_Letter_1700000000.pdf''" and ?u3.0 = 0
        and m = 1000 and ?u4.0 = 0 and el = 8 and job = 0 and ?u5.0 = 0]
      plain_page_cover_text
    by (simp add: w sample_applier_def plain_page_def path_join_def str_int_clock)
      
  show ?thesis using a b c d by blast
qed

end
